theory Spec2Isabelle
  imports Complex_Main "HOL-Library.Log_Nat"
begin

section \<open>Errors\<close>

text \<open>
  Every \<^verbatim>\<open>raise\<close> of the service is a value. \<open>HTTPException\<close> carries the status
  code and the detail string the handlers give it; \<open>RequestValidationError\<close> is the
  rejection of a request body by its schema (rendered as status 422 by the framework).
  The others are exceptions that no handler of the service catches: \<open>StoreError\<close>
  stands for any exception raised by a call to the persistence client;
  \<open>PasswordSizeError\<close>, \<open>PasswordValueError\<close> and \<open>UnknownHashError\<close> are raised by
  the password context; \<open>ZeroDivisionError\<close> is what Python's float division raises
  on a zero divisor; \<open>OverflowError\<close> is what \<open>round\<close> raises when the rounded value
  is too large for a float; \<open>ValueError\<close> is what \<open>json.dumps\<close> raises on a float
  that has no JSON form.
\<close>

datatype error =
    HTTPException nat string
  | RequestValidationError
  | StoreError
  | PasswordSizeError
  | PasswordValueError
  | UnknownHashError
  | ZeroDivisionError
  | OverflowError
  | ValueError

text \<open>
  The status of the response: an exception that is neither an \<open>HTTPException\<close> nor a
  validation error reaches the application's handler for unhandled errors
  (\<open>general_exception_handler\<close> in app/main.py), which answers 500.
\<close>

fun status_of :: "error \<Rightarrow> nat" where
  "status_of (HTTPException code msg) = code"
| "status_of RequestValidationError = 422"
| "status_of StoreError = 500"
| "status_of PasswordSizeError = 500"
| "status_of PasswordValueError = 500"
| "status_of UnknownHashError = 500"
| "status_of ZeroDivisionError = 500"
| "status_of OverflowError = 500"
| "status_of ValueError = 500"

text \<open>\<open>str(e)\<close> for the exceptions whose message the service reports.\<close>

fun str :: "error \<Rightarrow> string" where
  "str (HTTPException code msg) = msg"
| "str RequestValidationError = ''''"
| "str StoreError = ''''"
| "str PasswordSizeError = ''password exceeds maximum allowed size''"
| "str PasswordValueError = ''bcrypt does not allow NULL bytes in password''"
| "str UnknownHashError = ''hash could not be identified''"
| "str ZeroDivisionError = ''float division by zero''"
| "str OverflowError = ''rounded value too large to represent''"
| "str ValueError = ''Out of range float values are not JSON compliant''"

section \<open>Settings (app/config.py)\<close>

definition JWT_EXPIRATION_HOURS :: int where
  "JWT_EXPIRATION_HOURS = 24"

section \<open>Token codec (create_access_token, verify_token)\<close>

text \<open>
  The payload built by \<open>create_access_token\<close>. Times are POSIX seconds, the unit of
  the \<open>exp\<close> claim.
\<close>

record payload =
  payload_user_id :: string
  payload_email :: string
  payload_exp :: int

text \<open>
  The HS256 signature is symbolic: the signature of a payload under a key is the pair
  of both, so two signatures agree exactly when key and payload agree. A token string
  is either a payload with a signature, or text that does not parse as a token.
\<close>

datatype signature = HS256 string payload

datatype token = Token payload signature | Malformed string

datatype jwt_error = ExpiredSignatureError | InvalidSignatureError | DecodeError

definition jwt_encode :: "payload \<Rightarrow> string \<Rightarrow> token" where
  "jwt_encode p secret = Token p (HS256 secret p)"

text \<open>
  Decoding checks the signature first and the expiry second; a token whose \<open>exp\<close>
  is not after the current time has expired.
\<close>

fun jwt_decode :: "int \<Rightarrow> token \<Rightarrow> string \<Rightarrow> jwt_error + payload" where
  "jwt_decode now (Malformed s) secret = Inl DecodeError"
| "jwt_decode now (Token p sg) secret =
     (if sg \<noteq> HS256 secret p then Inl InvalidSignatureError
      else if payload_exp p \<le> now then Inl ExpiredSignatureError
      else Inr p)"

definition create_access_token :: "string \<Rightarrow> int \<Rightarrow> string \<Rightarrow> string \<Rightarrow> token" where
  "create_access_token secret now user_id email =
     jwt_encode
       \<lparr> payload_user_id = user_id,
         payload_email = email,
         payload_exp = now + JWT_EXPIRATION_HOURS * 3600 \<rparr>
       secret"

definition verify_token :: "string \<Rightarrow> int \<Rightarrow> token \<Rightarrow> error + payload" where
  "verify_token secret now tok =
     (case jwt_decode now tok secret of
        Inr p \<Rightarrow> Inr p
      | Inl ExpiredSignatureError \<Rightarrow> Inl (HTTPException 401 ''Token expired'')
      | Inl _ \<Rightarrow> Inl (HTTPException 401 ''Invalid token''))"

section \<open>Strings\<close>

text \<open>
  A Python string is modelled by its UTF-8 bytes. Its length in characters is the
  number of bytes that do not continue a character (a continuation byte is one from
  \<open>0x80\<close> to \<open>0xBF\<close>).
\<close>

definition continuation_byte :: "char \<Rightarrow> bool" where
  "continuation_byte c \<longleftrightarrow> 128 \<le> (of_char c :: nat) \<and> (of_char c :: nat) \<le> 191"

definition py_len :: "string \<Rightarrow> nat" where
  "py_len s = length (filter (\<lambda>c. \<not> continuation_byte c) s)"

section \<open>Password hashing (hash_password, verify_password)\<close>

text \<open>
  \<open>pwd_context\<close> is the password context of passlib with the single scheme bcrypt.
  Before it hashes or verifies a password it refuses one of more than 4096 characters
  (\<open>PasswordSizeError\<close>) and one with a NUL byte (\<open>PasswordValueError\<close>); bcrypt then
  reads the first 72 bytes of the password and no more.
\<close>

definition bcrypt_secret :: "string \<Rightarrow> error + string" where
  "bcrypt_secret secret =
     (if 4096 < py_len secret then Inl PasswordSizeError
      else if CHR 0x00 \<in> set secret then Inl PasswordValueError
      else Inr (take 72 secret))"

text \<open>
  The salted one-way hash is symbolic as well: a bcrypt hash records the salt and the
  bytes of the password it was made from, and verification compares those bytes. The
  column \<open>password_hash\<close> is text: it holds a bcrypt hash or something else, which the
  context cannot identify (\<open>UnknownHashError\<close>, raised before the password is looked
  at).
\<close>

datatype password_hash = Bcrypt string string | NotBcrypt string

definition hash_password :: "string \<Rightarrow> string \<Rightarrow> error + password_hash" where
  "hash_password salt password =
     (case bcrypt_secret password of
        Inl err \<Rightarrow> Inl err
      | Inr secret \<Rightarrow> Inr (Bcrypt salt secret))"

fun verify_password :: "string \<Rightarrow> password_hash \<Rightarrow> error + bool" where
  "verify_password plain_password (NotBcrypt text) = Inl UnknownHashError"
| "verify_password plain_password (Bcrypt salt secret) =
     (case bcrypt_secret plain_password of
        Inl err \<Rightarrow> Inl err
      | Inr plain_secret \<Rightarrow> Inr (plain_secret = secret))"

section \<open>The persistence store\<close>

text \<open>
  A row of table \<open>customers\<close> with the columns the handlers write and read. A column
  read with \<^verbatim>\<open>.get\<close> is optional (\<open>None\<close>: the key is absent); timestamps are
  POSIX seconds.
\<close>

record customer =
  cust_id :: string
  cust_email :: string
  cust_password_hash :: password_hash
  cust_shop_name :: "string option"
  cust_access_key :: string
  cust_data_consent :: bool
  cust_consent_updated_at :: int
  cust_signup_date :: "int option"
  cust_created_at :: "int option"
  cust_usage_count :: "int option"
  cust_usage_reset_date :: int
  cust_is_premium :: "bool option"
  cust_is_email_verified :: bool
  cust_last_login :: "int option"

record customer_product =
  cp_customer_id :: string
  cp_product_id :: string

record db =
  customers :: "customer list"
  customer_products :: "customer_product list"

text \<open>
  What the store does with a write is decided outside the service: it performs the
  write, answers with no data, or the call raises.
\<close>

datatype store_outcome = Performed | NoData | Raises

text \<open>The inputs of a request that come from the environment.\<close>

record env =
  env_secret :: string
  env_utcnow :: int
  env_salt :: string
  env_uuid :: string
  env_new_id :: string
  env_insert :: store_outcome
  env_update :: store_outcome

subsection \<open>Queries\<close>

definition select_customers_by_email :: "db \<Rightarrow> string \<Rightarrow> customer list" where
  "select_customers_by_email d e = filter (\<lambda>c. cust_email c = e) (customers d)"

definition select_customers_by_id :: "db \<Rightarrow> string \<Rightarrow> customer list" where
  "select_customers_by_id d i = filter (\<lambda>c. cust_id c = i) (customers d)"

definition select_products_by_customer :: "db \<Rightarrow> string \<Rightarrow> customer_product list" where
  "select_products_by_customer d i =
     filter (\<lambda>p. cp_customer_id p = i) (customer_products d)"

definition update_last_login :: "db \<Rightarrow> string \<Rightarrow> int \<Rightarrow> db" where
  "update_last_login d i t =
     d\<lparr>customers :=
         map (\<lambda>c. if cust_id c = i then c\<lparr>cust_last_login := Some t\<rparr> else c)
           (customers d)\<rparr>"

section \<open>Account service (app/routers/auth.py)\<close>

record UserRegister =
  reg_email :: string
  reg_password :: string
  reg_name :: "string option"

record UserLogin =
  login_email :: string
  login_password :: string

record UserResponse =
  resp_user_id :: string
  resp_email :: string
  resp_name :: "string option"
  resp_is_premium :: bool
  resp_access_token :: token

record UserInfo =
  info_user_id :: string
  info_email :: string
  info_name :: "string option"
  info_is_premium :: bool
  info_analyses_this_week :: int
  info_analyses_limit :: int
  info_created_at :: "int option"

text \<open>Python's \<^verbatim>\<open>d.get(key, default)\<close> on a key that may be absent.\<close>

definition get_or :: "'a option \<Rightarrow> 'a \<Rightarrow> 'a" where
  "get_or v dflt = (case v of None \<Rightarrow> dflt | Some x \<Rightarrow> x)"

text \<open>
  \<open>str.lower\<close> is Unicode's lowercase mapping, a table of the Python runtime and not
  of this service: the handlers take it as the parameter \<open>lower\<close>.
\<close>

definition new_customer ::
  "(string \<Rightarrow> string) \<Rightarrow> env \<Rightarrow> UserRegister \<Rightarrow> password_hash \<Rightarrow> customer" where
  "new_customer lower e user password_hash =
     \<lparr> cust_id = env_new_id e,
       cust_email = lower (reg_email user),
       cust_password_hash = password_hash,
       cust_shop_name = reg_name user,
       cust_access_key = env_uuid e,
       cust_data_consent = True,
       cust_consent_updated_at = env_utcnow e,
       cust_signup_date = Some (env_utcnow e),
       cust_created_at = None,
       cust_usage_count = Some 0,
       cust_usage_reset_date = env_utcnow e,
       cust_is_premium = Some False,
       cust_is_email_verified = False,
       cust_last_login = None \<rparr>"

text \<open>
  Each handler takes the environment, its arguments and the store, and returns its
  response or error together with the store it leaves behind.
\<close>

definition register ::
  "(string \<Rightarrow> string) \<Rightarrow> env \<Rightarrow> UserRegister \<Rightarrow> db \<Rightarrow> (error + UserResponse) \<times> db" where
  "register lower e user d =
     (let existing = select_customers_by_email d (lower (reg_email user))
      in if existing \<noteq> [] then (Inl (HTTPException 400 ''Email already registered''), d)
         else
           (case hash_password (env_salt e) (reg_password user) of
              Inl err \<Rightarrow> (Inl err, d)
            | Inr password_hash \<Rightarrow>
                (case env_insert e of
                   Raises \<Rightarrow> (Inl StoreError, d)
                 | NoData \<Rightarrow> (Inl (HTTPException 500 ''Failed to create user''), d)
                 | Performed \<Rightarrow>
                     (let customer_data = new_customer lower e user password_hash;
                          customer_id = cust_id customer_data;
                          access_token =
                            create_access_token (env_secret e) (env_utcnow e) customer_id
                              (lower (reg_email user))
                      in (Inr \<lparr> resp_user_id = customer_id,
                                 resp_email = lower (reg_email user),
                                 resp_name = reg_name user,
                                 resp_is_premium = False,
                                 resp_access_token = access_token \<rparr>,
                          d\<lparr>customers := customers d @ [customer_data]\<rparr>)))))"

text \<open>
  In \<open>login\<close> the call of \<open>verify_password\<close> is not inside a \<^verbatim>\<open>try\<close>: what it raises
  leaves the handler. The update of \<open>last_login\<close> is inside one that catches everything.
\<close>

definition login ::
  "(string \<Rightarrow> string) \<Rightarrow> env \<Rightarrow> UserLogin \<Rightarrow> db \<Rightarrow> (error + UserResponse) \<times> db" where
  "login lower e credentials d =
     (case select_customers_by_email d (lower (login_email credentials)) of
        [] \<Rightarrow> (Inl (HTTPException 401 ''Invalid email or password''), d)
      | customer # rest \<Rightarrow>
          (case verify_password (login_password credentials) (cust_password_hash customer) of
             Inl err \<Rightarrow> (Inl err, d)
           | Inr verified \<Rightarrow>
               if \<not> verified
               then (Inl (HTTPException 401 ''Invalid email or password''), d)
               else
                 (let d' = (case env_update e of
                              Performed \<Rightarrow>
                                update_last_login d (cust_id customer) (env_utcnow e)
                            | NoData \<Rightarrow> d
                            | Raises \<Rightarrow> d);
                      access_token =
                        create_access_token (env_secret e) (env_utcnow e) (cust_id customer)
                          (cust_email customer)
                  in (Inr \<lparr> resp_user_id = cust_id customer,
                             resp_email = cust_email customer,
                             resp_name = cust_shop_name customer,
                             resp_is_premium = get_or (cust_is_premium customer) False,
                             resp_access_token = access_token \<rparr>,
                      d'))))"

definition get_user_info :: "env \<Rightarrow> string \<Rightarrow> token \<Rightarrow> db \<Rightarrow> error + UserInfo" where
  "get_user_info e user_id tok d =
     (case verify_token (env_secret e) (env_utcnow e) tok of
        Inl err \<Rightarrow> Inl err
      | Inr p \<Rightarrow>
          if payload_user_id p \<noteq> user_id
          then Inl (HTTPException 403 ''Not authorized to access this user's data'')
          else
            (case select_customers_by_id d user_id of
               [] \<Rightarrow> Inl (HTTPException 404 ''User not found'')
             | customer # rest \<Rightarrow>
                 (let products_result = select_products_by_customer d user_id;
                      has_insights =
                        (if products_result \<noteq> []
                         then ''insights'' \<in> set (map cp_product_id products_result)
                         else False);
                      usage_count = get_or (cust_usage_count customer) 0;
                      analyses_limit = (if has_insights then 999999 else 10)
                  in Inr \<lparr> info_user_id = cust_id customer,
                            info_email = cust_email customer,
                            info_name = cust_shop_name customer,
                            info_is_premium = has_insights,
                            info_analyses_this_week = usage_count,
                            info_analyses_limit = analyses_limit,
                            info_created_at =
                              (case cust_signup_date customer of
                                 Some t \<Rightarrow> Some t
                               | None \<Rightarrow> cust_created_at customer) \<rparr>)))"

section \<open>Python floats\<close>

text \<open>
  A Python \<open>float\<close> is an IEEE 754 binary64 number. A finite one is modelled by its
  exact value, a real number (the two zeros are one value, as they are for \<open>==\<close>);
  the others are the two infinities and NaN. Every arithmetic operation computes the
  exact result and rounds it to the nearest float, ties to the even significand
  (\<open>fl\<close>): 53 significant bits, exponents from \<open>-1022\<close> (below that the spacing stays
  \<open>2 powi (-1074)\<close>), and infinity when the rounded value reaches \<open>2 ^ 1024\<close>.
  A decimal literal or a number read from the request body is \<open>fl\<close> of its decimal
  value.
\<close>

datatype pyfloat = Finite real | PosInf | NegInf | NaN

text \<open>
  \<open>ilog2 x\<close> is the integer \<open>e\<close> with \<open>2 powi e \<le> x < 2 powi (e + 1)\<close>, for positive
  \<open>x\<close>.
\<close>

definition ilog2 :: "real \<Rightarrow> int" where
  "ilog2 x = (if 1 \<le> x then bitlen \<lfloor>x\<rfloor> - 1 else - bitlen (\<lceil>1 / x\<rceil> - 1))"

text \<open>Rounding to the nearest integer, a tie to the even one.\<close>

definition round_half_even :: "real \<Rightarrow> int" where
  "round_half_even x =
     (let f = \<lfloor>x\<rfloor>; d = x - of_int f
      in if d < 1 / 2 then f else if 1 / 2 < d then f + 1 else if even f then f else f + 1)"

text \<open>The spacing of the floats around \<open>x\<close>.\<close>

definition ulp :: "real \<Rightarrow> real" where
  "ulp x = 2 powi (max (ilog2 \<bar>x\<bar>) (- 1022) - 52)"

definition fl :: "real \<Rightarrow> pyfloat" where
  "fl x =
     (if x = 0 then Finite 0
      else
        (let y = of_int (round_half_even (x / ulp x)) * ulp x
         in if 2 ^ 1024 \<le> \<bar>y\<bar> then (if 0 < x then PosInf else NegInf) else Finite y))"

text \<open>Arithmetic: the exact result, rounded; infinities and NaN as IEEE 754 has them.\<close>

definition signed_inf :: "bool \<Rightarrow> pyfloat" where
  "signed_inf positive = (if positive then PosInf else NegInf)"

fun fneg :: "pyfloat \<Rightarrow> pyfloat" where
  "fneg (Finite a) = Finite (- a)"
| "fneg PosInf = NegInf"
| "fneg NegInf = PosInf"
| "fneg NaN = NaN"

fun fadd :: "pyfloat \<Rightarrow> pyfloat \<Rightarrow> pyfloat" where
  "fadd (Finite a) (Finite b) = fl (a + b)"
| "fadd NaN y = NaN"
| "fadd x NaN = NaN"
| "fadd PosInf NegInf = NaN"
| "fadd NegInf PosInf = NaN"
| "fadd PosInf y = PosInf"
| "fadd NegInf y = NegInf"
| "fadd x PosInf = PosInf"
| "fadd x NegInf = NegInf"

definition fsub :: "pyfloat \<Rightarrow> pyfloat \<Rightarrow> pyfloat" where
  "fsub x y = fadd x (fneg y)"

fun fmul :: "pyfloat \<Rightarrow> pyfloat \<Rightarrow> pyfloat" where
  "fmul (Finite a) (Finite b) = fl (a * b)"
| "fmul NaN y = NaN"
| "fmul x NaN = NaN"
| "fmul (Finite a) PosInf = (if a = 0 then NaN else signed_inf (0 < a))"
| "fmul (Finite a) NegInf = (if a = 0 then NaN else signed_inf (a < 0))"
| "fmul PosInf (Finite b) = (if b = 0 then NaN else signed_inf (0 < b))"
| "fmul NegInf (Finite b) = (if b = 0 then NaN else signed_inf (b < 0))"
| "fmul PosInf PosInf = PosInf"
| "fmul NegInf NegInf = PosInf"
| "fmul PosInf NegInf = NegInf"
| "fmul NegInf PosInf = NegInf"

text \<open>Python's \<^verbatim>\<open>/\<close> raises on a zero divisor, whatever the dividend.\<close>

fun fdiv :: "pyfloat \<Rightarrow> pyfloat \<Rightarrow> error + pyfloat" where
  "fdiv x (Finite b) =
     (if b = 0 then Inl ZeroDivisionError
      else (case x of
              Finite a \<Rightarrow> Inr (fl (a / b))
            | PosInf \<Rightarrow> Inr (signed_inf (0 < b))
            | NegInf \<Rightarrow> Inr (signed_inf (b < 0))
            | NaN \<Rightarrow> Inr NaN))"
| "fdiv (Finite a) PosInf = Inr (Finite 0)"
| "fdiv (Finite a) NegInf = Inr (Finite 0)"
| "fdiv x y = Inr NaN"

text \<open>Comparisons; every comparison with NaN is false.\<close>

fun fgt :: "pyfloat \<Rightarrow> pyfloat \<Rightarrow> bool" where
  "fgt (Finite a) (Finite b) = (b < a)"
| "fgt NaN y = False"
| "fgt x NaN = False"
| "fgt PosInf PosInf = False"
| "fgt PosInf y = True"
| "fgt x PosInf = False"
| "fgt NegInf y = False"
| "fgt x NegInf = True"

fun fge :: "pyfloat \<Rightarrow> pyfloat \<Rightarrow> bool" where
  "fge (Finite a) (Finite b) = (b \<le> a)"
| "fge NaN y = False"
| "fge x NaN = False"
| "fge PosInf y = True"
| "fge x NegInf = True"
| "fge NegInf y = False"
| "fge x PosInf = False"

text \<open>
  \<open>round(x, ndigits)\<close> with \<open>ndigits\<close> given: the decimal with \<open>ndigits\<close> digits after
  the point that is nearest to the exact value of \<open>x\<close> (ties to the even digit),
  converted back to the nearest float; \<open>OverflowError\<close> when that float would be
  infinite. Infinities and NaN round to themselves.
\<close>

fun py_round :: "pyfloat \<Rightarrow> nat \<Rightarrow> error + pyfloat" where
  "py_round (Finite x) ndigits =
     (case fl (of_int (round_half_even (x * 10 ^ ndigits)) / 10 ^ ndigits) of
        Finite r \<Rightarrow> Inr (Finite r)
      | _ \<Rightarrow> Inl OverflowError)"
| "py_round x ndigits = Inr x"

section \<open>Fee calculator (app/routers/fees.py)\<close>

record FeeCalculationRequest =
  req_sale_price :: pyfloat
  req_production_cost :: pyfloat
  req_shipping_cost :: pyfloat
  req_offsite_ads :: bool

record FeeBreakdown =
  transaction_fee :: pyfloat
  listing_fee :: pyfloat
  payment_processing :: pyfloat
  offsite_ads :: pyfloat
  total_fees :: pyfloat

record FeeCalculationResponse =
  fees :: FeeBreakdown
  net_revenue :: pyfloat
  total_costs :: pyfloat
  profit :: pyfloat
  profit_margin :: pyfloat

text \<open>Sequencing of steps that may raise: the first error ends the computation.\<close>

definition bind_err :: "error + 'a \<Rightarrow> ('a \<Rightarrow> error + 'b) \<Rightarrow> error + 'b" where
  "bind_err m f = (case m of Inl e \<Rightarrow> Inl e | Inr v \<Rightarrow> f v)"

definition calculate_etsy_fees ::
  "pyfloat \<Rightarrow> pyfloat \<Rightarrow> pyfloat \<Rightarrow> bool \<Rightarrow> error + FeeCalculationResponse" where
  "calculate_etsy_fees sale_price production_cost shipping_cost offsite_ads_on =
     bind_err (py_round (fmul sale_price (fl (65 / 1000))) 2) (\<lambda>transaction_fee.
     (let listing_fee = fl (20 / 100) in
     bind_err (py_round (fadd (fmul sale_price (fl (3 / 100))) (fl (25 / 100))) 2)
       (\<lambda>payment_processing.
     bind_err (if offsite_ads_on then py_round (fmul sale_price (fl (15 / 100))) 2
               else Inr (Finite 0)) (\<lambda>offsite_ads_fee.
     bind_err (py_round
                 (fadd (fadd (fadd transaction_fee listing_fee) payment_processing)
                    offsite_ads_fee) 2) (\<lambda>total_fees.
     bind_err (py_round (fsub sale_price total_fees) 2) (\<lambda>net_revenue.
     bind_err (py_round (fadd production_cost shipping_cost) 2) (\<lambda>total_costs.
     bind_err (py_round (fsub net_revenue total_costs) 2) (\<lambda>profit.
     bind_err (if fgt sale_price (Finite 0)
               then bind_err (fdiv profit sale_price)
                      (\<lambda>ratio. py_round (fmul ratio (Finite 100)) 1)
               else Inr (Finite 0)) (\<lambda>profit_margin.
     Inr \<lparr> fees = \<lparr> transaction_fee = transaction_fee,
                     listing_fee = listing_fee,
                     payment_processing = payment_processing,
                     offsite_ads = offsite_ads_fee,
                     total_fees = total_fees \<rparr>,
           net_revenue = net_revenue,
           total_costs = total_costs,
           profit = profit,
           profit_margin = profit_margin \<rparr>)))))))))"

text \<open>The constraints of the request schema: \<open>gt=0\<close> and \<open>ge=0\<close>.\<close>

definition request_valid :: "FeeCalculationRequest \<Rightarrow> bool" where
  "request_valid request \<longleftrightarrow>
     fgt (req_sale_price request) (Finite 0)
     \<and> fge (req_production_cost request) (Finite 0)
     \<and> fge (req_shipping_cost request) (Finite 0)"

text \<open>
  The handler \<open>calculate_fees\<close> receives a request that has passed the schema; it turns
  any exception of the computation into status 500.
\<close>

definition calculate_fees :: "FeeCalculationRequest \<Rightarrow> error + FeeCalculationResponse" where
  "calculate_fees request =
     (case calculate_etsy_fees (req_sale_price request) (req_production_cost request)
             (req_shipping_cost request) (req_offsite_ads request) of
        Inr result \<Rightarrow> Inr result
      | Inl e \<Rightarrow> Inl (HTTPException 500 (''Error calculating fees: '' @ str e)))"

text \<open>
  The values received for the fields that fail their constraint, in the order of the
  schema.
\<close>

definition rejected_values :: "FeeCalculationRequest \<Rightarrow> pyfloat list" where
  "rejected_values request =
     (if fgt (req_sale_price request) (Finite 0) then [] else [req_sale_price request])
     @ (if fge (req_production_cost request) (Finite 0) then []
        else [req_production_cost request])
     @ (if fge (req_shipping_cost request) (Finite 0) then []
        else [req_shipping_cost request])"

fun is_finite :: "pyfloat \<Rightarrow> bool" where
  "is_finite (Finite x) = True"
| "is_finite PosInf = False"
| "is_finite NegInf = False"
| "is_finite NaN = False"

text \<open>
  The framework answers a body that fails the schema with status 422 and a JSON body
  that repeats, for each failing field, the value received. A NaN or an infinity has no
  JSON form: rendering that body raises \<open>ValueError\<close>, which becomes an unhandled error
  of the application (status 500).
\<close>

definition validation_failure :: "FeeCalculationRequest \<Rightarrow> error" where
  "validation_failure request =
     (if list_all is_finite (rejected_values request) then RequestValidationError
      else ValueError)"

text \<open>
  The route \<^verbatim>\<open>POST /calculate-fees\<close>: the framework validates the body before the
  handler runs. For a body that fails the schema the value is the error that answers
  the request; for a body that passes it is what the handler returns.
\<close>

definition post_calculate_fees :: "FeeCalculationRequest \<Rightarrow> error + FeeCalculationResponse" where
  "post_calculate_fees request =
     (if \<not> request_valid request then Inl (validation_failure request)
      else calculate_fees request)"

section \<open>Amounts in cents\<close>

text \<open>An amount of \<open>k\<close> cents as a float: the float nearest to \<open>k / 100\<close>.\<close>

definition cents :: "int \<Rightarrow> pyfloat" where
  "cents k = fl (of_int k / 100)"

text \<open>\<open>close_to v z d\<close>: the float \<open>v\<close> is finite and at most \<open>d\<close> away from \<open>z\<close>.\<close>

fun close_to :: "pyfloat \<Rightarrow> real \<Rightarrow> real \<Rightarrow> bool" where
  "close_to (Finite x) z d = (\<bar>x - z\<bar> \<le> d)"
| "close_to PosInf z d = False"
| "close_to NegInf z d = False"
| "close_to NaN z d = False"

section \<open>Sample data\<close>

text \<open>
  The lowercase mapping on the characters of the sample requests: the ASCII letters A
  to Z, and the letters U+00C0 to U+00DE of the Latin-1 supplement (without the
  multiplication sign U+00D7), in UTF-8 the byte \<open>0xC3\<close> followed by a byte from \<open>0x80\<close>
  to \<open>0x9E\<close>. Each moves to the letter 32 positions later, as \<open>str.lower\<close> moves it.
\<close>

definition lower_ascii :: "char \<Rightarrow> char" where
  "lower_ascii c =
     (let n = (of_char c :: nat)
      in if 65 \<le> n \<and> n \<le> 90 then char_of (n + 32) else c)"

fun latin1_lower :: "string \<Rightarrow> string" where
  "latin1_lower [] = []"
| "latin1_lower [c] = [lower_ascii c]"
| "latin1_lower (c # c' # cs) =
     (let n = (of_char c' :: nat)
      in if (of_char c :: nat) = 195 \<and> 128 \<le> n \<and> n \<le> 158 \<and> n \<noteq> 151
         then c # char_of (n + 32) # latin1_lower cs
         else lower_ascii c # latin1_lower (c' # cs))"

text \<open>
  A small store and environment on which the theorems below are instantiated. The
  second account's email starts with a small e with acute accent (U+00E9, the bytes
  \<open>0xC3 0xA9\<close>). The first account has the link \<open>insights\<close> and the stored flag
  \<open>is_premium\<close> false; the second has the flag true and no such link.
\<close>

definition example_customer :: customer where
  "example_customer =
     \<lparr> cust_id = ''u1'',
       cust_email = ''bob@example.com'',
       cust_password_hash = Bcrypt ''salt'' ''hunter22'',
       cust_shop_name = Some ''Bob'',
       cust_access_key = ''k'',
       cust_data_consent = True,
       cust_consent_updated_at = 1000,
       cust_signup_date = Some 1000,
       cust_created_at = None,
       cust_usage_count = Some 7,
       cust_usage_reset_date = 1000,
       cust_is_premium = Some False,
       cust_is_email_verified = False,
       cust_last_login = None \<rparr>"

definition eva_email :: string where
  "eva_email = CHR 0xC3 # CHR 0xA9 # ''va@example.com''"

definition other_customer :: customer where
  "other_customer =
     \<lparr> cust_id = ''u9'',
       cust_email = eva_email,
       cust_password_hash = Bcrypt ''salt9'' ''correct horse'',
       cust_shop_name = None,
       cust_access_key = ''k9'',
       cust_data_consent = True,
       cust_consent_updated_at = 2000,
       cust_signup_date = Some 2000,
       cust_created_at = None,
       cust_usage_count = Some 3,
       cust_usage_reset_date = 2000,
       cust_is_premium = Some True,
       cust_is_email_verified = False,
       cust_last_login = None \<rparr>"

definition example_db :: db where
  "example_db =
     \<lparr> customers = [example_customer, other_customer],
       customer_products =
         [\<lparr>cp_customer_id = ''u9'', cp_product_id = ''basic''\<rparr>,
          \<lparr>cp_customer_id = ''u1'', cp_product_id = ''basic''\<rparr>,
          \<lparr>cp_customer_id = ''u1'', cp_product_id = ''insights''\<rparr>] \<rparr>"

definition empty_db :: db where
  "empty_db = \<lparr>customers = [], customer_products = []\<rparr>"

definition example_env :: env where
  "example_env =
     \<lparr> env_secret = ''s3cret'', env_utcnow = 5000, env_salt = ''salt2'', env_uuid = ''uuid'',
       env_new_id = ''u2'', env_insert = Performed, env_update = Performed \<rparr>"

definition first_signup :: UserRegister where
  "first_signup = \<lparr>reg_email = ''Bob@Example.COM'', reg_password = ''hunter22'', reg_name = None\<rparr>"

definition second_signup :: UserRegister where
  "second_signup = \<lparr>reg_email = ''BOB@example.com'', reg_password = ''pw'', reg_name = None\<rparr>"

text \<open>A signup whose email starts with a capital E with acute accent (U+00C9).\<close>

definition accent_signup :: UserRegister where
  "accent_signup =
     \<lparr>reg_email = CHR 0xC3 # CHR 0x89 # ''va@Example.com'', reg_password = ''pw'',
      reg_name = None\<rparr>"

text \<open>A password with a NUL character: one character, then U+0000.\<close>

definition nul_password :: string where
  "nul_password = [CHR ''p'', CHR 0x00]"

text \<open>Requests to the fee calculator.\<close>

definition example_request :: FeeCalculationRequest where
  "example_request =
     \<lparr> req_sale_price = fl (2999 / 100), req_production_cost = fl 12,
       req_shipping_cost = fl 4, req_offsite_ads = False \<rparr>"

definition zero_price_request :: FeeCalculationRequest where
  "zero_price_request =
     \<lparr> req_sale_price = Finite 0, req_production_cost = Finite 0,
       req_shipping_cost = Finite 0, req_offsite_ads = False \<rparr>"

definition negative_cost_request :: FeeCalculationRequest where
  "negative_cost_request =
     \<lparr> req_sale_price = Finite 10, req_production_cost = Finite (- 1),
       req_shipping_cost = Finite 0, req_offsite_ads = False \<rparr>"

text \<open>The body \<^verbatim>\<open>{"sale_price": -Infinity}\<close>, as \<open>json.loads\<close> reads it.\<close>

definition negative_infinity_request :: FeeCalculationRequest where
  "negative_infinity_request =
     \<lparr> req_sale_price = NegInf, req_production_cost = Finite 0,
       req_shipping_cost = Finite 0, req_offsite_ads = False \<rparr>"

text \<open>The body \<^verbatim>\<open>{"sale_price": NaN}\<close>.\<close>

definition nan_price_request :: FeeCalculationRequest where
  "nan_price_request =
     \<lparr> req_sale_price = NaN, req_production_cost = Finite 0,
       req_shipping_cost = Finite 0, req_offsite_ads = False \<rparr>"

section \<open>Properties of float rounding\<close>

lemma bitlen_lower: "0 < n \<Longrightarrow> 2 powi (bitlen n - 1) \<le> (of_int n :: real)"
proof -
  assume n: "0 < n"
  then have b: "1 \<le> bitlen n"
    using bitlen_eq_zero_iff [of n] bitlen_nonneg [of n] by linarith
  have "(2::int) ^ nat (bitlen n - 1) \<le> n"
    using bitlen_bounds [OF n] by simp
  then have "(of_int ((2::int) ^ nat (bitlen n - 1)) :: real) \<le> of_int n"
    by (simp only: of_int_le_iff)
  then show ?thesis
    using b by (simp add: power_int_def)
qed

lemma bitlen_upper: "0 \<le> n \<Longrightarrow> (of_int n :: real) + 1 \<le> 2 powi (bitlen n)"
proof -
  assume n: "0 \<le> n"
  show ?thesis
  proof (cases "n = 0")
    case True
    then show ?thesis by simp
  next
    case False
    with n have p: "0 < n" by simp
    have "n < (2::int) ^ nat (bitlen n)"
      using bitlen_bounds [OF p] by simp
    then have "n + 1 \<le> (2::int) ^ nat (bitlen n)" by simp
    then have "(of_int (n + 1) :: real) \<le> of_int ((2::int) ^ nat (bitlen n))"
      by (simp only: of_int_le_iff)
    then show ?thesis
      using bitlen_nonneg [of n] by (simp add: power_int_def)
  qed
qed

lemma ilog2_bounds:
  assumes "0 < x"
  shows "2 powi (ilog2 x) \<le> x" and "x < 2 powi (ilog2 x + 1)"
proof -
  have "2 powi (ilog2 x) \<le> x \<and> x < 2 powi (ilog2 x + 1)"
  proof (cases "1 \<le> x")
    case True
    then have n: "0 < \<lfloor>x\<rfloor>" by simp
    have e: "ilog2 x = bitlen \<lfloor>x\<rfloor> - 1"
      using True by (simp add: ilog2_def)
    have "2 powi (bitlen \<lfloor>x\<rfloor> - 1) \<le> (of_int \<lfloor>x\<rfloor> :: real)"
      using bitlen_lower [OF n] .
    also have "\<dots> \<le> x" by simp
    finally have lo: "2 powi (ilog2 x) \<le> x" by (simp add: e)
    have "x < of_int \<lfloor>x\<rfloor> + 1" by linarith
    also have "\<dots> \<le> 2 powi (bitlen \<lfloor>x\<rfloor>)"
      using bitlen_upper [of "\<lfloor>x\<rfloor>"] n by simp
    finally have "x < 2 powi (ilog2 x + 1)" by (simp add: e)
    with lo show ?thesis by simp
  next
    case False
    then have x1: "x < 1" by simp
    define m where "m = \<lceil>1 / x\<rceil> - 1"
    have y1: "1 < 1 / x" using assms x1 by simp
    then have "1 < \<lceil>1 / x\<rceil>" by (simp add: less_ceiling_iff)
    then have m: "0 < m" by (simp add: m_def)
    have e: "ilog2 x = - bitlen m"
      using False by (simp add: ilog2_def m_def)
    have "1 / x \<le> of_int \<lceil>1 / x\<rceil>" by (rule le_of_int_ceiling)
    also have "\<dots> = of_int m + 1" by (simp add: m_def)
    also have "\<dots> \<le> 2 powi (bitlen m)"
      using bitlen_upper [of m] m by simp
    finally have "1 / x \<le> 2 powi (bitlen m)" .
    then have "1 \<le> 2 powi (bitlen m) * x"
      using assms by (simp add: pos_divide_le_eq)
    then have "1 / 2 powi (bitlen m) \<le> x"
      by (simp add: pos_divide_le_eq mult.commute)
    moreover have "1 / 2 powi (bitlen m) = (2::real) powi (- bitlen m)"
      by (simp only: power_int_minus_divide)
    ultimately have lo: "2 powi (- bitlen m) \<le> x" by simp
    have "2 powi (bitlen m - 1) \<le> (of_int m :: real)"
      using bitlen_lower [OF m] .
    also have "(of_int m :: real) < 1 / x"
      unfolding m_def using ceiling_correct [of "1 / x"] by simp
    finally have "2 powi (bitlen m - 1) < 1 / x" .
    then have "2 powi (bitlen m - 1) * x < 1"
      using assms by (simp add: pos_less_divide_eq)
    then have "x < 1 / 2 powi (bitlen m - 1)"
      by (simp add: pos_less_divide_eq mult.commute)
    also have "1 / 2 powi (bitlen m - 1) = (2::real) powi (- (bitlen m - 1))"
      by (simp only: power_int_minus_divide)
    finally have "x < 2 powi (ilog2 x + 1)" by (simp add: e)
    with lo show ?thesis by (simp add: e)
  qed
  then show "2 powi (ilog2 x) \<le> x" and "x < 2 powi (ilog2 x + 1)" by simp_all
qed

lemma ilog2_unique:
  assumes "2 powi e \<le> x" and "x < 2 powi (e + 1)"
  shows "ilog2 x = e"
proof -
  have "0 < (2::real) powi e" by simp
  with assms(1) have pos: "0 < x" by linarith
  note b = ilog2_bounds [OF pos]
  have "\<not> ilog2 x < e"
  proof
    assume "ilog2 x < e"
    then have "ilog2 x + 1 \<le> e" by simp
    then have "(2::real) powi (ilog2 x + 1) \<le> 2 powi e"
      by (intro power_int_increasing) simp_all
    with b(2) assms(1) show False by linarith
  qed
  moreover have "\<not> e < ilog2 x"
  proof
    assume "e < ilog2 x"
    then have "e + 1 \<le> ilog2 x" by simp
    then have "(2::real) powi (e + 1) \<le> 2 powi (ilog2 x)"
      by (intro power_int_increasing) simp_all
    with b(1) assms(2) show False by linarith
  qed
  ultimately show ?thesis by linarith
qed

lemma round_half_even_error: "\<bar>of_int (round_half_even t) - t\<bar> \<le> 1 / 2"
  unfolding round_half_even_def Let_def by (auto; linarith)

lemma round_half_even_near:
  assumes "\<bar>t - of_int k\<bar> < 1 / 2"
  shows "round_half_even t = k"
proof -
  have "\<bar>(of_int (round_half_even t) :: real) - of_int k\<bar> < 1"
    using round_half_even_error [of t] assms by linarith
  then have "\<bar>(of_int (round_half_even t - k) :: real)\<bar> < 1" by simp
  then have "\<bar>round_half_even t - k\<bar> < 1"
    by (metis of_int_abs of_int_less_1_iff)
  then show ?thesis by simp
qed

lemma round_half_even_of_int: "round_half_even (of_int k) = k"
  by (rule round_half_even_near) simp

lemma ulp_pos: "0 < ulp x"
  by (simp add: ulp_def)

lemma pow2_add: "(2::real) powi (a + b) = 2 powi a * 2 powi b"
  by (simp add: power_int_add)

lemma pow2_mono: "a \<le> b \<Longrightarrow> (2::real) powi a \<le> 2 powi b"
  by (rule power_int_increasing) simp_all

lemma pow2_succ_53: "(2::real) powi (e + 1) = 2 powi 53 * 2 powi (e - 52)"
proof -
  have "e + 1 = 53 + (e - 52)" by simp
  then have "(2::real) powi (e + 1) = 2 powi (53 + (e - 52))" by (rule arg_cong)
  then show ?thesis by (simp only: pow2_add)
qed

lemma pow2_half: "(1 / 2 :: real) * 2 powi (e - 52) = 2 powi (e - 53)"
proof -
  have "e - 52 = 1 + (e - 53)" by simp
  then have "(2::real) powi (e - 52) = 2 powi (1 + (e - 53))" by (rule arg_cong)
  then have "(2::real) powi (e - 52) = 2 * 2 powi (e - 53)" by (simp only: pow2_add power_int_1_right)
  then show ?thesis by simp
qed

lemma fl_eval:
  assumes lo: "2 powi e \<le> \<bar>x\<bar>" and hi: "\<bar>x\<bar> < 2 powi (e + 1)"
    and e: "- 1022 \<le> e" "e \<le> 1022"
    and m: "round_half_even (x / 2 powi (e - 52)) = m"
  shows "fl x = Finite (of_int m * 2 powi (e - 52))"
proof -
  have "0 < (2::real) powi e" by simp
  with lo have "0 < \<bar>x\<bar>" by linarith
  then have x0: "x \<noteq> 0" by simp
  have il: "ilog2 \<bar>x\<bar> = e" using lo hi by (rule ilog2_unique)
  have u: "ulp x = 2 powi (e - 52)"
    using e by (simp add: ulp_def il)
  have "\<bar>of_int m - x / 2 powi (e - 52)\<bar> \<le> 1 / 2"
    using round_half_even_error [of "x / 2 powi (e - 52)"] m by simp
  moreover have "\<bar>x / 2 powi (e - 52)\<bar> < 2 powi 53"
  proof -
    have "\<bar>x\<bar> < 2 powi 53 * 2 powi (e - 52)"
      using hi by (simp only: pow2_succ_53)
    then have "\<bar>x\<bar> / 2 powi (e - 52) < 2 powi 53"
      by (simp only: pos_divide_less_eq zero_less_power_int zero_less_numeral)
    moreover have "\<bar>(2::real) powi (e - 52)\<bar> = 2 powi (e - 52)"
      by (rule abs_of_pos) simp
    ultimately show ?thesis by (simp only: abs_divide)
  qed
  ultimately have "\<bar>(of_int m :: real)\<bar> \<le> 2 powi 53 + 1 / 2" by linarith
  then have "\<bar>(of_int m :: real)\<bar> * 2 powi (e - 52) \<le> (2 powi 53 + 1 / 2) * 2 powi (e - 52)"
    by (intro mult_right_mono) simp_all
  also have "\<dots> = 2 powi (e + 1) + 2 powi (e - 53)"
  proof -
    show ?thesis by (simp only: distrib_right pow2_succ_53 [symmetric] pow2_half)
  qed
  also have "\<dots> \<le> 2 powi 1023 + 2 powi 969"
    using e by (intro add_mono pow2_mono) simp_all
  also have "\<dots> < (2::real) ^ 1024" by simp
  finally have "\<bar>of_int m * 2 powi (e - 52)\<bar> < (2::real) ^ 1024"
    by (simp add: abs_mult)
  then show ?thesis
    using x0 by (simp add: fl_def u m Let_def)
qed

lemma ilog2_less: "0 < x \<Longrightarrow> x < 2 powi n \<Longrightarrow> ilog2 x < n"
proof (rule ccontr)
  assume x: "0 < x" and h: "x < 2 powi n" and c: "\<not> ilog2 x < n"
  then have "(2::real) powi n \<le> 2 powi (ilog2 x)" by (intro pow2_mono) simp
  with ilog2_bounds(1) [OF x] h show False by linarith
qed

lemma ilog2_ge: "2 powi n \<le> x \<Longrightarrow> n \<le> ilog2 x"
proof (rule ccontr)
  assume h: "2 powi n \<le> x" and c: "\<not> n \<le> ilog2 x"
  have "0 < (2::real) powi n" by simp
  with h have x: "0 < x" by linarith
  from c have "(2::real) powi (ilog2 x + 1) \<le> 2 powi n" by (intro pow2_mono) simp
  with ilog2_bounds(2) [OF x] h show False by linarith
qed

lemma ulp_le:
  assumes "x \<noteq> 0" and "\<bar>x\<bar> < 2 powi n" and "- 1021 \<le> n"
  shows "ulp x \<le> 2 powi (n - 53)"
proof -
  have "ilog2 \<bar>x\<bar> < n" using assms(1,2) by (intro ilog2_less) simp_all
  then have "max (ilog2 \<bar>x\<bar>) (- 1022) - 52 \<le> n - 53" using assms(3) by simp
  then show ?thesis unfolding ulp_def by (rule pow2_mono)
qed

lemma abs_less_ulp:
  assumes "x \<noteq> 0"
  shows "\<bar>x\<bar> < 2 ^ 53 * ulp x"
proof -
  have x: "0 < \<bar>x\<bar>" using assms by simp
  have "\<bar>x\<bar> < 2 powi (ilog2 \<bar>x\<bar> + 1)" using ilog2_bounds(2) [OF x] .
  also have "\<dots> \<le> 2 powi (53 + (max (ilog2 \<bar>x\<bar>) (- 1022) - 52))"
    by (rule pow2_mono) simp
  also have "\<dots> = 2 powi 53 * ulp x"
    unfolding ulp_def by (rule pow2_add)
  finally show ?thesis by simp
qed

lemma rounded_error: "\<bar>of_int (round_half_even (x / ulp x)) * ulp x - x\<bar> \<le> ulp x / 2"
proof -
  have u: "0 < ulp x" by (rule ulp_pos)
  have "\<bar>of_int (round_half_even (x / ulp x)) - x / ulp x\<bar> * ulp x \<le> 1 / 2 * ulp x"
    using round_half_even_error [of "x / ulp x"] u by (intro mult_right_mono) simp_all
  moreover have "\<bar>of_int (round_half_even (x / ulp x)) - x / ulp x\<bar> * ulp x
      = \<bar>of_int (round_half_even (x / ulp x)) * ulp x - x\<bar>"
  proof -
    have "\<bar>of_int (round_half_even (x / ulp x)) - x / ulp x\<bar> * ulp x
        = \<bar>(of_int (round_half_even (x / ulp x)) - x / ulp x) * ulp x\<bar>"
      using u by (simp add: abs_mult)
    also have "(of_int (round_half_even (x / ulp x)) - x / ulp x) * ulp x
        = of_int (round_half_even (x / ulp x)) * ulp x - x"
      using u by (simp add: left_diff_distrib)
    finally show ?thesis .
  qed
  ultimately show ?thesis by simp
qed

lemma mantissa_le:
  assumes "x \<noteq> 0"
  shows "\<bar>round_half_even (x / ulp x)\<bar> \<le> 2 ^ 53"
proof -
  have u: "0 < ulp x" by (rule ulp_pos)
  have "\<bar>x / ulp x\<bar> < 2 ^ 53"
    using abs_less_ulp [OF assms] u by (simp add: pos_divide_less_eq)
  then have "\<bar>(of_int (round_half_even (x / ulp x)) :: real)\<bar> < 2 ^ 53 + 1"
    using round_half_even_error [of "x / ulp x"] by linarith
  then have "(of_int \<bar>round_half_even (x / ulp x)\<bar> :: real) < of_int (2 ^ 53 + 1)"
    by simp
  then have "\<bar>round_half_even (x / ulp x)\<bar> < 2 ^ 53 + 1"
    by (simp only: of_int_less_iff)
  then show ?thesis by simp
qed

lemma fl_finite:
  assumes "\<bar>x\<bar> < 2 ^ 1023"
  shows "fl x = Finite (of_int (round_half_even (x / ulp x)) * ulp x)"
proof (cases "x = 0")
  case True
  then show ?thesis by (simp add: fl_def round_half_even_def)
next
  case False
  have "\<bar>x\<bar> < 2 powi 1023" using assms by simp
  then have "ulp x \<le> 2 powi (1023 - 53)" using False by (intro ulp_le) simp_all
  then have "ulp x \<le> 2 ^ 970" by simp
  then have "\<bar>of_int (round_half_even (x / ulp x)) * ulp x\<bar> < 2 ^ 1023 + 2 ^ 970"
    using rounded_error [of x] assms by linarith
  also have "\<dots> < (2::real) ^ 1024" by simp
  finally show ?thesis using False by (simp add: fl_def Let_def)
qed

lemma fl_error:
  assumes "\<bar>x\<bar> < 2 ^ 1023"
  shows "\<exists>y. fl x = Finite y \<and> \<bar>y - x\<bar> \<le> ulp x / 2"
  using fl_finite [OF assms] rounded_error [of x] by simp

lemma fl_Finite_D:
  assumes "fl x = Finite y" and "x \<noteq> 0"
  shows "y = of_int (round_half_even (x / ulp x)) * ulp x" and "\<bar>y\<bar> < 2 ^ 1024"
  using assms by (auto simp add: fl_def Let_def split: if_splits)

lemma fl_eval_gen:
  assumes lo: "2 powi e \<le> \<bar>x\<bar>" and hi: "\<bar>x\<bar> < 2 powi (e + 1)"
    and e: "- 1022 \<le> e"
    and m: "round_half_even (x / 2 powi (e - 52)) = m"
    and b: "\<bar>(of_int m :: real) * 2 powi (e - 52)\<bar> < 2 ^ 1024"
  shows "fl x = Finite (of_int m * 2 powi (e - 52))"
proof -
  have "0 < (2::real) powi e" by simp
  with lo have "0 < \<bar>x\<bar>" by linarith
  then have x0: "x \<noteq> 0" by simp
  have il: "ilog2 \<bar>x\<bar> = e" using lo hi by (rule ilog2_unique)
  have u: "ulp x = 2 powi (e - 52)"
    using e by (simp add: ulp_def il)
  show ?thesis
    using x0 b by (simp add: fl_def u m Let_def)
qed

lemma ulp_ge_one_int:
  assumes "1 \<le> ulp x"
  shows "\<exists>j. ulp x = of_int j"
proof -
  let ?d = "max (ilog2 \<bar>x\<bar>) (- 1022) - 52"
  have "0 \<le> ?d"
  proof (rule ccontr)
    assume "\<not> 0 \<le> ?d"
    then have "?d < 0" by simp
    then have "(2::real) powi ?d < 2 powi 0"
      by (intro power_int_strict_increasing) simp_all
    with assms show False by (simp add: ulp_def)
  qed
  then have "ulp x = of_int (2 ^ nat ?d)"
    by (simp add: ulp_def power_int_def)
  then show ?thesis ..
qed

lemma fl_out_int:
  assumes "fl x = Finite y" and "2 ^ 53 \<le> \<bar>y\<bar>"
  shows "\<exists>j. y = of_int j"
proof -
  have x0: "x \<noteq> 0"
  proof
    assume "x = 0"
    with assms(1) have "y = 0" by (simp add: fl_def)
    with assms(2) show False by simp
  qed
  let ?k = "round_half_even (x / ulp x)"
  have y: "y = of_int ?k * ulp x" using fl_Finite_D(1) [OF assms(1) x0] .
  have u: "0 < ulp x" by (rule ulp_pos)
  have "\<bar>(of_int ?k :: real)\<bar> \<le> 2 ^ 53"
  proof -
    have "(of_int \<bar>?k\<bar> :: real) \<le> of_int (2 ^ 53)"
      using mantissa_le [OF x0] by (simp only: of_int_le_iff)
    then show ?thesis by simp
  qed
  then have "\<bar>(of_int ?k :: real)\<bar> * ulp x \<le> 2 ^ 53 * ulp x"
    using u by (intro mult_right_mono) simp_all
  then have "\<bar>y\<bar> \<le> 2 ^ 53 * ulp x"
    using u by (simp add: y abs_mult)
  with assms(2) have "(2::real) ^ 53 * 1 \<le> 2 ^ 53 * ulp x" by simp
  then have "1 \<le> ulp x" by (simp only: mult_le_cancel_left_pos zero_less_power zero_less_numeral)
  then obtain j where "ulp x = of_int j" using ulp_ge_one_int by blast
  then have "y = of_int (?k * j)" by (simp add: y)
  then show ?thesis ..
qed

lemma pow2_le_D: "(2::real) powi a \<le> 2 powi b \<Longrightarrow> a \<le> b"
proof (rule ccontr)
  assume h: "(2::real) powi a \<le> 2 powi b" and "\<not> a \<le> b"
  then have "(2::real) powi b < 2 powi a"
    by (intro power_int_strict_increasing) simp_all
  with h show False by simp
qed

lemma fl_out_big:
  assumes "fl x = Finite y" and big: "2 ^ 1023 \<le> \<bar>y\<bar>"
  shows "fl y = Finite y"
proof -
  have x0: "x \<noteq> 0"
  proof
    assume "x = 0"
    with assms(1) have "y = 0" by (simp add: fl_def)
    with big show False by simp
  qed
  define k where "k = round_half_even (x / ulp x)"
  define d where "d = max (ilog2 \<bar>x\<bar>) (- 1022) - 52"
  have u: "ulp x = 2 powi d" by (simp add: ulp_def d_def)
  have y: "y = of_int k * 2 powi d"
    using fl_Finite_D(1) [OF assms(1) x0] by (simp add: k_def u)
  have ylt: "\<bar>y\<bar> < 2 ^ 1024" using fl_Finite_D(2) [OF assms(1) x0] .
  have kle: "\<bar>k\<bar> \<le> 2 ^ 53" using mantissa_le [OF x0] by (simp add: k_def)
  then have "(of_int \<bar>k\<bar> :: real) \<le> of_int (2 ^ 53)" by (simp only: of_int_le_iff)
  then have kr: "\<bar>(of_int k :: real)\<bar> \<le> 2 powi 53" by simp
  have ay: "\<bar>y\<bar> = \<bar>(of_int k :: real)\<bar> * 2 powi d"
    by (simp add: y abs_mult)
  have "\<bar>y\<bar> \<le> 2 powi 53 * 2 powi d"
    unfolding ay using kr by (intro mult_right_mono) simp_all
  also have "\<dots> = 2 powi (53 + d)" by (simp only: pow2_add)
  finally have "(2::real) powi 1023 \<le> 2 powi (53 + d)" using big by simp
  then have "1023 \<le> 53 + d" by (rule pow2_le_D)
  then have d970: "970 \<le> d" by simp
  have "\<exists>m. y = of_int m * 2 powi 971"
  proof (cases "971 \<le> d")
    case True
    have "d = (d - 971) + 971" by simp
    then have "(2::real) powi d = 2 powi ((d - 971) + 971)" by (rule arg_cong)
    also have "\<dots> = 2 powi (d - 971) * 2 powi 971" by (rule pow2_add)
    also have "(2::real) powi (d - 971) = of_int (2 ^ nat (d - 971))"
      using True by (simp add: power_int_def)
    finally have "y = of_int (k * 2 ^ nat (d - 971)) * 2 powi 971"
      by (simp add: y)
    then show ?thesis ..
  next
    case False
    with d970 have d: "d = 970" by simp
    have "(2::real) powi 1023 = 2 powi 53 * 2 powi 970" by (simp only: pow2_add [symmetric]) simp
    with big have "2 powi 53 * 2 powi 970 \<le> \<bar>(of_int k :: real)\<bar> * 2 powi 970"
      by (simp add: ay d)
    then have "(2::real) powi 53 \<le> \<bar>of_int k\<bar>"
      by (simp only: mult_le_cancel_right_pos zero_less_power_int zero_less_numeral)
    with kr have "\<bar>(of_int k :: real)\<bar> = 2 powi 53" by simp
    then have "(of_int \<bar>k\<bar> :: real) = of_int (2 ^ 53)" by simp
    then have "\<bar>k\<bar> = 2 ^ 53" by (simp only: of_int_eq_iff)
    then have "k = 2 * 2 ^ 52 \<or> k = 2 * (- (2 ^ 52))" by (cases "0 \<le> k") simp_all
    then obtain m where km: "k = 2 * m" by blast
    have "(2::real) powi 971 = 2 * 2 powi 970"
      using pow2_add [of 1 970] by simp
    then have "y = of_int m * 2 powi 971"
      by (simp add: y d km)
    then show ?thesis ..
  qed
  then obtain m where m: "y = of_int m * 2 powi 971" ..
  have "fl y = Finite (of_int m * 2 powi (1023 - 52))"
  proof (rule fl_eval_gen)
    show "2 powi 1023 \<le> \<bar>y\<bar>" using big by simp
    show "\<bar>y\<bar> < 2 powi (1023 + 1)" using ylt by simp
    show "(- 1022 :: int) \<le> 1023" by simp
    have "y / 2 powi (1023 - 52) = of_int m" by (simp add: m)
    then show "round_half_even (y / 2 powi (1023 - 52)) = m"
      by (simp only: round_half_even_of_int)
    show "\<bar>of_int m * 2 powi (1023 - 52)\<bar> < (2::real) ^ 1024"
      using ylt by (simp add: m)
  qed
  then show ?thesis by (simp add: m)
qed

lemma round_digits_error:
  "\<bar>of_int (round_half_even (y * 10 ^ n)) / 10 ^ n - y\<bar> \<le> 1 / 2"
proof -
  have p: "(0::real) < 10 ^ n" by simp
  have "\<bar>of_int (round_half_even (y * 10 ^ n)) / 10 ^ n - y\<bar>
      = \<bar>(of_int (round_half_even (y * 10 ^ n)) - y * 10 ^ n) / 10 ^ n\<bar>"
    by (simp add: diff_divide_distrib)
  also have "\<dots> = \<bar>of_int (round_half_even (y * 10 ^ n)) - y * 10 ^ n\<bar> / 10 ^ n"
    by simp
  also have "\<dots> \<le> (1 / 2) / 10 ^ n"
    using round_half_even_error [of "y * 10 ^ n"] p by (intro divide_right_mono) simp_all
  also have "\<dots> \<le> (1 / 2) / 1"
    by (intro divide_left_mono) simp_all
  finally show ?thesis by simp
qed

lemma py_round_Finite_ok:
  assumes "fl x = Finite y"
  shows "\<exists>r. py_round (Finite y) n = Inr (Finite r)"
proof -
  let ?z = "(of_int (round_half_even (y * 10 ^ n)) :: real) / 10 ^ n"
  have "\<exists>r. fl ?z = Finite r"
  proof (cases "\<bar>y\<bar> < 2 ^ 53")
    case True
    then have "\<bar>?z\<bar> < 2 ^ 53 + 1"
      using round_digits_error [of y n] by linarith
    also have "\<dots> < (2::real) ^ 1023" by simp
    finally show ?thesis using fl_finite by blast
  next
    case False
    then have "2 ^ 53 \<le> \<bar>y\<bar>" by simp
    then obtain j where j: "y = of_int j" using fl_out_int [OF assms] by blast
    have "y * 10 ^ n = of_int (j * 10 ^ n)" by (simp add: j)
    then have "round_half_even (y * 10 ^ n) = j * 10 ^ n"
      by (simp only: round_half_even_of_int)
    then have z: "?z = y" by (simp add: j)
    show ?thesis
    proof (cases "\<bar>y\<bar> < 2 ^ 1023")
      case True
      then show ?thesis unfolding z using fl_finite by blast
    next
      case False
      then have "2 ^ 1023 \<le> \<bar>y\<bar>" by simp
      then show ?thesis unfolding z using fl_out_big [OF assms] by blast
    qed
  qed
  then show ?thesis by auto
qed

lemma py_round_fl_ok: "\<exists>r. py_round (fl x) n = Inr r"
proof (cases "fl x")
  case (Finite y)
  then show ?thesis using py_round_Finite_ok [of x y n] by auto
qed simp_all

lemma py_round_fadd_ok: "\<exists>r. py_round (fadd a b) n = Inr r"
  by (cases a; cases b) (simp_all add: py_round_fl_ok)

lemma py_round_fsub_ok: "\<exists>r. py_round (fsub a b) n = Inr r"
  unfolding fsub_def by (rule py_round_fadd_ok)

lemma py_round_fmul_ok: "\<exists>r. py_round (fmul a b) n = Inr r"
  by (cases a; cases b) (simp_all add: py_round_fl_ok signed_inf_def)

lemma bind_err_Inr: "bind_err (Inr v) f = f v"
  by (simp add: bind_err_def)

lemma bind_err_Inl: "bind_err (Inl e) f = Inl e"
  by (simp add: bind_err_def)

lemma profit_margin_ok:
  "\<exists>r. (if fgt sale_price (Finite 0)
        then bind_err (fdiv p sale_price) (\<lambda>ratio. py_round (fmul ratio (Finite 100)) 1)
        else Inr (Finite 0)) = Inr r"
proof (cases sale_price)
  case (Finite s)
  show ?thesis
  proof (cases "0 < s")
    case True
    then obtain q where "fdiv p sale_price = Inr q"
      by (cases p) (simp_all add: Finite)
    then show ?thesis
      using py_round_fmul_ok [of q "Finite 100" 1] True by (simp add: Finite bind_err_Inr)
  next
    case False
    then show ?thesis by (simp add: Finite)
  qed
next
  case PosInf
  then obtain q where "fdiv p sale_price = Inr q"
    by (cases p) simp_all
  then show ?thesis
    using py_round_fmul_ok [of q "Finite 100" 1] by (simp add: PosInf bind_err_Inr)
qed simp_all

lemma calculate_etsy_fees_returns:
  "\<exists>result. calculate_etsy_fees sale_price production_cost shipping_cost offsite_ads_on
     = Inr result"
proof -
  obtain tf where 1: "py_round (fmul sale_price (fl (65 / 1000))) 2 = Inr tf"
    using py_round_fmul_ok by blast
  obtain pp where 2: "py_round (fadd (fmul sale_price (fl (3 / 100))) (fl (25 / 100))) 2 = Inr pp"
    using py_round_fadd_ok by blast
  obtain af where 3: "(if offsite_ads_on then py_round (fmul sale_price (fl (15 / 100))) 2
      else Inr (Finite 0)) = Inr af"
    using py_round_fmul_ok [of sale_price "fl (15 / 100)" 2] by (cases offsite_ads_on) auto
  obtain total where 4: "py_round (fadd (fadd (fadd tf (fl (20 / 100))) pp) af) 2 = Inr total"
    using py_round_fadd_ok by blast
  obtain net where 5: "py_round (fsub sale_price total) 2 = Inr net"
    using py_round_fsub_ok by blast
  obtain tc where 6: "py_round (fadd production_cost shipping_cost) 2 = Inr tc"
    using py_round_fadd_ok by blast
  obtain pr where 7: "py_round (fsub net tc) 2 = Inr pr"
    using py_round_fsub_ok by blast
  obtain pm where 8: "(if fgt sale_price (Finite 0)
        then bind_err (fdiv pr sale_price) (\<lambda>ratio. py_round (fmul ratio (Finite 100)) 1)
        else Inr (Finite 0)) = Inr pm"
    using profit_margin_ok by blast
  show ?thesis
    unfolding calculate_etsy_fees_def
    by (simp only: 1 2 3 4 5 6 7 8 bind_err_Inr Let_def) simp
qed

lemma close_to_D: "close_to v z d \<Longrightarrow> \<exists>x. v = Finite x \<and> \<bar>x - z\<bar> \<le> d"
  by (cases v) simp_all

text \<open>
  The rounding error of \<open>fl\<close> below a power of two. The lemmas after it take such a
  bound as their first premise: below \<open>B\<close> the error of \<open>fl\<close> is at most \<open>e\<close>.
\<close>

lemma fl_close_pow:
  assumes "\<bar>z\<bar> < 2 ^ n" and "n \<le> 1000"
  shows "close_to (fl z) z (2 powi (int n - 54))"
proof (cases "z = 0")
  case True
  then show ?thesis by (simp add: fl_def)
next
  case False
  have "(2::real) ^ n \<le> 2 ^ 1023"
    using assms(2) by (intro power_increasing) simp_all
  then have "\<bar>z\<bar> < 2 ^ 1023"
    using assms(1) by linarith
  then obtain y where y: "fl z = Finite y" "\<bar>y - z\<bar> \<le> ulp z / 2"
    using fl_error by blast
  have "\<bar>z\<bar> < 2 powi (int n)" using assms(1) by simp
  then have u: "ulp z \<le> 2 powi (int n - 53)" using False by (intro ulp_le) simp_all
  have "(1 / 2 :: real) * 2 powi (int n - 1 - 52) = 2 powi (int n - 1 - 53)"
    by (rule pow2_half)
  then have "(2::real) powi (int n - 53) / 2 = 2 powi (int n - 54)"
    by simp
  with y(2) u have "\<bar>y - z\<bar> \<le> 2 powi (int n - 54)" by linarith
  then show ?thesis by (simp add: y(1))
qed

lemma lev40: "\<bar>z\<bar> < 1099511627776 \<Longrightarrow> close_to (fl z) z (1 / 16384)"
  using fl_close_pow [of z 40] by simp

lemma lev41: "\<bar>z\<bar> < 2199023255552 \<Longrightarrow> close_to (fl z) z (1 / 8192)"
  using fl_close_pow [of z 41] by simp

lemma lev42: "\<bar>z\<bar> < 4398046511104 \<Longrightarrow> close_to (fl z) z (1 / 4096)"
  using fl_close_pow [of z 42] by simp

lemma lev44: "\<bar>z\<bar> < 17592186044416 \<Longrightarrow> close_to (fl z) z (1 / 1024)"
  using fl_close_pow [of z 44] by simp

lemma lev45: "\<bar>z\<bar> < 35184372088832 \<Longrightarrow> close_to (fl z) z (1 / 512)"
  using fl_close_pow [of z 45] by simp

lemma cents_close:
  assumes lev: "\<And>z. \<bar>z\<bar> < B \<Longrightarrow> close_to (fl z) z e"
    and "\<bar>real_of_int k / 100\<bar> < B"
  shows "close_to (cents k) (real_of_int k / 100) e"
  unfolding cents_def using assms(2) by (rule lev)

lemma fadd_close:
  assumes lev: "\<And>z. \<bar>z\<bar> < B \<Longrightarrow> close_to (fl z) z e"
    and "close_to a x dx" and "close_to b y dy" and "\<bar>x + y\<bar> + dx + dy < B"
  shows "close_to (fadd a b) (x + y) (dx + dy + e)"
proof -
  obtain a' where a: "a = Finite a'" "\<bar>a' - x\<bar> \<le> dx" using close_to_D [OF assms(2)] by blast
  obtain b' where b: "b = Finite b'" "\<bar>b' - y\<bar> \<le> dy" using close_to_D [OF assms(3)] by blast
  have "\<bar>a' + b'\<bar> < B" using a(2) b(2) assms(4) by linarith
  then have "close_to (fl (a' + b')) (a' + b') e" by (rule lev)
  then obtain r where r: "fl (a' + b') = Finite r" "\<bar>r - (a' + b')\<bar> \<le> e"
    using close_to_D by blast
  have "\<bar>r - (x + y)\<bar> \<le> dx + dy + e" using r(2) a(2) b(2) by linarith
  then show ?thesis by (simp add: a(1) b(1) r(1))
qed

lemma fsub_close:
  assumes lev: "\<And>z. \<bar>z\<bar> < B \<Longrightarrow> close_to (fl z) z e"
    and "close_to a x dx" and "close_to b y dy" and "\<bar>x - y\<bar> + dx + dy < B"
  shows "close_to (fsub a b) (x - y) (dx + dy + e)"
proof -
  obtain b' where b: "b = Finite b'" "\<bar>b' - y\<bar> \<le> dy" using close_to_D [OF assms(3)] by blast
  have nb: "close_to (fneg b) (- y) dy" using b by simp
  have "\<bar>x + - y\<bar> + dx + dy < B" using assms(4) by simp
  from fadd_close [OF lev assms(2) nb this]
  have "close_to (fadd a (fneg b)) (x + - y) (dx + dy + e)" by simp
  then show ?thesis by (simp add: fsub_def)
qed

lemma abs_scale_100: "\<bar>x * 100 - y\<bar> = 100 * \<bar>x - y / 100\<bar>" for x y :: real
proof -
  have "x * 100 - y = 100 * (x - y / 100)" by simp
  then have "\<bar>x * 100 - y\<bar> = \<bar>100 * (x - y / 100)\<bar>" by (rule arg_cong)
  also have "\<dots> = \<bar>100\<bar> * \<bar>x - y / 100\<bar>" by (rule abs_mult)
  finally show ?thesis by simp
qed

lemma cents_finite:
  assumes "\<bar>real_of_int k / 100\<bar> < 35184372088832"
  shows "\<exists>r. cents k = Finite r"
  using close_to_D [OF cents_close [OF lev45 assms]] by blast

lemma round2_near:
  assumes "close_to v (of_int k / 100) d" and "d < 1 / 200"
    and "\<bar>real_of_int k / 100\<bar> < 35184372088832"
  shows "py_round v 2 = Inr (cents k)"
proof -
  obtain x where x: "v = Finite x" "\<bar>x - of_int k / 100\<bar> \<le> d"
    using close_to_D [OF assms(1)] by blast
  define a where "a = \<bar>x - of_int k / 100\<bar>"
  have "a \<le> d" using x(2) by (simp add: a_def)
  with assms(2) have "100 * a < 1 / 2" by linarith
  then have "\<bar>x * 100 - of_int k\<bar> < 1 / 2"
    by (simp only: abs_scale_100 a_def)
  then have k: "round_half_even (x * 100) = k" by (rule round_half_even_near)
  obtain r where r: "fl (of_int k / 100) = Finite r"
    using cents_finite [OF assms(3)] by (auto simp add: cents_def)
  show ?thesis by (simp add: x(1) k cents_def r)
qed

lemma round2_any:
  assumes "close_to v z d" and "\<bar>z\<bar> + d + 1 / 200 < 35184372088832"
  shows "\<exists>k. py_round v 2 = Inr (cents k) \<and> \<bar>of_int k / 100 - z\<bar> \<le> d + 1 / 200"
proof -
  obtain x where x: "v = Finite x" "\<bar>x - z\<bar> \<le> d"
    using close_to_D [OF assms(1)] by blast
  define k where "k = round_half_even (x * 100)"
  have "\<bar>of_int k - x * 100\<bar> \<le> 1 / 2"
    using round_half_even_error [of "x * 100"] by (simp add: k_def)
  then have "\<bar>x * 100 - of_int k\<bar> \<le> 1 / 2" by (simp only: abs_minus_commute)
  then have "100 * \<bar>x - of_int k / 100\<bar> \<le> 1 / 2" by (simp only: abs_scale_100)
  moreover define a where "a = \<bar>x - of_int k / 100\<bar>"
  ultimately have "100 * a \<le> 1 / 2" by simp
  then have "a \<le> 1 / 200" by linarith
  then have kx: "\<bar>of_int k / 100 - x\<bar> \<le> 1 / 200"
    by (simp only: a_def abs_minus_commute [of x])
  then have kz: "\<bar>of_int k / 100 - z\<bar> \<le> d + 1 / 200" using x(2) by linarith
  then have "\<bar>real_of_int k / 100\<bar> < 35184372088832" using assms(2) by linarith
  then obtain r where r: "fl (of_int k / 100) = Finite r"
    using cents_finite by (auto simp add: cents_def)
  have "py_round v 2 = Inr (cents k)" by (simp add: x(1) k_def [symmetric] cents_def r)
  with kz show ?thesis by blast
qed

lemma small_constant:
  assumes "0 \<le> q" and "q \<le> 1 / 2"
  shows "\<exists>c. fl q = Finite c \<and> 0 \<le> c \<and> c \<le> q + 1 / 16384"
proof -
  have "\<bar>q\<bar> < 1099511627776" using assms by linarith
  then have cl: "close_to (fl q) q (1 / 16384)" by (rule lev40)
  then obtain c where c: "fl q = Finite c" "\<bar>c - q\<bar> \<le> 1 / 16384"
    using close_to_D by blast
  have "0 \<le> c"
  proof (cases "q = 0")
    case True
    then show ?thesis using c(1) by (simp add: fl_def)
  next
    case False
    have "\<bar>q\<bar> < 2 ^ 1023" using assms
      by (intro less_le_trans [of "\<bar>q\<bar>" 1 "2 ^ 1023"]) simp_all
    then have "fl q = Finite (of_int (round_half_even (q / ulp q)) * ulp q)"
      by (rule fl_finite)
    then have ceq: "c = of_int (round_half_even (q / ulp q)) * ulp q" using c(1) by simp
    have "0 \<le> q / ulp q" using \<open>0 \<le> q\<close> ulp_pos [of q] by simp
    then have "- 1 < (of_int (round_half_even (q / ulp q)) :: real)"
      using round_half_even_error [of "q / ulp q"] by linarith
    then have "(of_int (- 1) :: real) < of_int (round_half_even (q / ulp q))" by simp
    then have "- 1 < round_half_even (q / ulp q)" by (simp only: of_int_less_iff)
    then have "0 \<le> round_half_even (q / ulp q)" by simp
    then show ?thesis using ulp_pos [of q] by (simp add: ceq)
  qed
  moreover have "c \<le> q + 1 / 16384" using c(2) by linarith
  ultimately show ?thesis using c(1) by blast
qed

text \<open>
  A price of at most \<open>M\<close> times a rate \<open>q\<close>, rounded to two digits, is a whole number
  of cents that is not negative.
\<close>

lemma round2_product:
  assumes lev: "\<And>z. \<bar>z\<bar> < B \<Longrightarrow> close_to (fl z) z e"
    and e: "0 \<le> e" "e < 1 / 200"
    and s: "0 < s" "s \<le> M"
    and q: "0 \<le> q" "q \<le> 1 / 2"
    and B: "M * (q + 1 / 16384) + e + 1 / 200 < B" "B \<le> 35184372088832"
  shows "\<exists>t. py_round (fmul (Finite s) (fl q)) 2 = Inr (cents t) \<and> 0 \<le> t
           \<and> real_of_int t / 100 \<le> M * (q + 1 / 16384) + e + 1 / 200"
proof -
  obtain c where c: "fl q = Finite c" "0 \<le> c" "c \<le> q + 1 / 16384"
    using small_constant [OF q] by blast
  define z where "z = s * c"
  have z0: "0 \<le> z" using s(1) c(2) by (simp add: z_def)
  have "s * c \<le> M * (q + 1 / 16384)"
    using s c(2,3) by (intro mult_mono) simp_all
  then have zM: "z \<le> M * (q + 1 / 16384)" by (simp add: z_def)
  have "\<bar>z\<bar> < B" using z0 zM B(1) e(1) by linarith
  then have "close_to (fl z) z e" by (rule lev)
  then have cl: "close_to (fmul (Finite s) (fl q)) z e" by (simp add: c(1) z_def)
  have "\<bar>z\<bar> + e + 1 / 200 < 35184372088832" using z0 zM B by linarith
  from round2_any [OF cl this]
  obtain t where t: "py_round (fmul (Finite s) (fl q)) 2 = Inr (cents t)"
    "\<bar>real_of_int t / 100 - z\<bar> \<le> e + 1 / 200"
    by blast
  have "- 1 < real_of_int t" using t(2) z0 e(2) by linarith
  then have "0 \<le> t" by linarith
  moreover have "real_of_int t / 100 \<le> M * (q + 1 / 16384) + e + 1 / 200"
    using t(2) zM by linarith
  ultimately show ?thesis using t(1) by blast
qed

lemma round2_transaction:
  assumes "0 < s" and "s \<le> 10000000000000"
  shows "\<exists>t. py_round (fmul (Finite s) (fl (65 / 1000))) 2 = Inr (cents t)
           \<and> 0 \<le> t \<and> t \<le> 65100000000000"
proof -
  have e: "(0::real) \<le> 1 / 16384" "(1 / 16384 :: real) < 1 / 200" by simp_all
  have q: "(0::real) \<le> 65 / 1000" "(65 / 1000 :: real) \<le> 1 / 2" by simp_all
  have b: "(10000000000000::real) * (65 / 1000 + 1 / 16384) + 1 / 16384 + 1 / 200
      < 1099511627776" "(1099511627776::real) \<le> 35184372088832"
    by simp_all
  from round2_product [OF lev40 e assms q b]
  obtain t where t: "py_round (fmul (Finite s) (fl (65 / 1000))) 2 = Inr (cents t)"
    "0 \<le> t"
    "real_of_int t / 100 \<le> 10000000000000 * (65 / 1000 + 1 / 16384) + 1 / 16384 + 1 / 200"
    by blast
  have "real_of_int t / 100 \<le> 651000000000" using t(3) by simp
  then have "t \<le> 65100000000000" by linarith
  with t(1,2) show ?thesis by blast
qed

lemma round2_offsite_ads:
  assumes "0 < s" and "s \<le> 10000000000000"
  shows "\<exists>a. py_round (fmul (Finite s) (fl (15 / 100))) 2 = Inr (cents a)
           \<and> 0 \<le> a \<and> a \<le> 150100000000000"
proof -
  have e: "(0::real) \<le> 1 / 8192" "(1 / 8192 :: real) < 1 / 200" by simp_all
  have q: "(0::real) \<le> 15 / 100" "(15 / 100 :: real) \<le> 1 / 2" by simp_all
  have b: "(10000000000000::real) * (15 / 100 + 1 / 16384) + 1 / 8192 + 1 / 200
      < 2199023255552" "(2199023255552::real) \<le> 35184372088832"
    by simp_all
  from round2_product [OF lev41 e assms q b]
  obtain t where t: "py_round (fmul (Finite s) (fl (15 / 100))) 2 = Inr (cents t)"
    "0 \<le> t"
    "real_of_int t / 100 \<le> 10000000000000 * (15 / 100 + 1 / 16384) + 1 / 8192 + 1 / 200"
    by blast
  have "real_of_int t / 100 \<le> 1501000000000" using t(3) by simp
  then have "t \<le> 150100000000000" by linarith
  with t(1,2) show ?thesis by blast
qed

lemma round2_payment:
  assumes s: "0 < s" "s \<le> 10000000000000"
  shows "\<exists>p. py_round (fadd (fmul (Finite s) (fl (3 / 100))) (fl (25 / 100))) 2 = Inr (cents p)
           \<and> 0 \<le> p \<and> p \<le> 30100000000100"
proof -
  obtain c where c: "fl (3 / 100) = Finite c" "0 \<le> c" "c \<le> 3 / 100 + 1 / 16384"
    using small_constant [of "3 / 100"] by auto
  define z where "z = s * c"
  have z0: "0 \<le> z" using s(1) c(2) by (simp add: z_def)
  have "s * c \<le> 10000000000000 * (3 / 100 + 1 / 16384)"
    using s c(2,3) by (intro mult_mono) simp_all
  then have zM: "z \<le> 301000000000" by (simp add: z_def)
  have "\<bar>z\<bar> < 1099511627776" using z0 zM by linarith
  then have "close_to (fl z) z (1 / 16384)" by (rule lev40)
  then have m: "close_to (fmul (Finite s) (fl (3 / 100))) z (1 / 16384)"
    by (simp add: c(1) z_def)
  have q: "close_to (fl (25 / 100)) (25 / 100) (1 / 16384)"
    by (rule lev40) simp
  have "\<bar>z + 25 / 100\<bar> + 1 / 16384 + 1 / 16384 < 1099511627776" using z0 zM by linarith
  from fadd_close [OF lev40 m q this]
  have sum: "close_to (fadd (fmul (Finite s) (fl (3 / 100))) (fl (25 / 100))) (z + 25 / 100)
      (1 / 16384 + 1 / 16384 + 1 / 16384)" .
  have "\<bar>z + 25 / 100\<bar> + (1 / 16384 + 1 / 16384 + 1 / 16384) + 1 / 200 < 35184372088832"
    using z0 zM by linarith
  from round2_any [OF sum this]
  obtain p where p: "py_round (fadd (fmul (Finite s) (fl (3 / 100))) (fl (25 / 100))) 2
      = Inr (cents p)"
    "\<bar>real_of_int p / 100 - (z + 25 / 100)\<bar> \<le> 1 / 16384 + 1 / 16384 + 1 / 16384 + 1 / 200"
    by blast
  have "- 1 < real_of_int p" using p(2) z0 by linarith
  then have "0 \<le> p" by linarith
  moreover have "real_of_int p / 100 \<le> 301000000001" using p(2) zM by linarith
  then have "p \<le> 30100000000100" by linarith
  ultimately show ?thesis using p(1) by blast
qed

lemma round2_costs:
  assumes "0 \<le> c1" "c1 \<le> 10000000000000" "0 \<le> c2" "c2 \<le> 10000000000000"
  shows "\<exists>c. py_round (fadd (Finite c1) (Finite c2)) 2 = Inr (cents c)
           \<and> 0 \<le> c \<and> c \<le> 2000000000000100"
proof -
  have "\<bar>c1 + c2\<bar> < 35184372088832" using assms by linarith
  then have s: "close_to (fadd (Finite c1) (Finite c2)) (c1 + c2) (1 / 512)"
    using lev45 [of "c1 + c2"] by simp
  have "\<bar>c1 + c2\<bar> + 1 / 512 + 1 / 200 < 35184372088832" using assms by linarith
  from round2_any [OF s this]
  obtain c where c: "py_round (fadd (Finite c1) (Finite c2)) 2 = Inr (cents c)"
    "\<bar>real_of_int c / 100 - (c1 + c2)\<bar> \<le> 1 / 512 + 1 / 200"
    by blast
  have "- 1 < real_of_int c" using c(2) assms by linarith
  then have "0 \<le> c" by linarith
  moreover have "real_of_int c / 100 \<le> 20000000000001" using c(2) assms by linarith
  then have "c \<le> 2000000000000100" by linarith
  ultimately show ?thesis using c(1) by blast
qed

lemma cents_20: "fl (20 / 100) = cents 20"
  by (simp add: cents_def)

lemma round_cents:
  assumes "close_to v (real_of_int a / 100) d" and "d < 1 / 200"
    and "\<bar>a\<bar> \<le> 3500000000000000"
  shows "py_round v 2 = Inr (cents a)"
proof -
  have "\<bar>real_of_int a / 100\<bar> < 35184372088832" using assms(3) by linarith
  with assms(1,2) show ?thesis by (rule round2_near)
qed

lemma abs_cents_less:
  assumes "\<bar>k\<bar> \<le> n" and "real_of_int n / 100 + d < B"
  shows "\<bar>real_of_int k / 100\<bar> + d < B"
proof -
  have "\<bar>real_of_int k\<bar> \<le> real_of_int n"
    using assms(1) by linarith
  then have "\<bar>real_of_int k / 100\<bar> \<le> real_of_int n / 100"
    by simp
  with assms(2) show ?thesis by linarith
qed

text \<open>
  Sums and differences of amounts in cents: \<open>levb\<close> bounds the error of the second
  operand, \<open>levr\<close> that of the result.
\<close>

lemma fadd_cents:
  assumes levb: "\<And>z. \<bar>z\<bar> < Bb \<Longrightarrow> close_to (fl z) z eb"
    and levr: "\<And>z. \<bar>z\<bar> < Br \<Longrightarrow> close_to (fl z) z er"
    and v: "close_to v (real_of_int a / 100) d"
    and b: "\<bar>real_of_int b / 100\<bar> < Bb"
    and r: "\<bar>real_of_int (a + b) / 100\<bar> + (d + eb) < Br"
  shows "close_to (fadd v (cents b)) (real_of_int (a + b) / 100) (d + eb + er)"
proof -
  have e: "real_of_int a / 100 + real_of_int b / 100 = real_of_int (a + b) / 100"
    by (simp add: add_divide_distrib)
  have cb: "close_to (cents b) (real_of_int b / 100) eb"
    using levb b by (rule cents_close)
  have "\<bar>real_of_int a / 100 + real_of_int b / 100\<bar> + d + eb < Br"
    using r by (simp only: e add.assoc)
  from fadd_close [OF levr v cb this] show ?thesis by (simp only: e)
qed

lemma fadd_zero:
  assumes levr: "\<And>z. \<bar>z\<bar> < Br \<Longrightarrow> close_to (fl z) z er"
    and v: "close_to v (real_of_int a / 100) d"
    and r: "\<bar>real_of_int a / 100\<bar> + d < Br"
  shows "close_to (fadd v (Finite 0)) (real_of_int a / 100) (d + 0 + er)"
proof -
  have z: "close_to (Finite 0) 0 0" by simp
  have "\<bar>real_of_int a / 100 + 0\<bar> + d + 0 < Br" using r by simp
  from fadd_close [OF levr v z this] show ?thesis by (simp only: add_0_right)
qed

lemma fsub_cents_round:
  assumes leva: "\<And>z. \<bar>z\<bar> < Ba \<Longrightarrow> close_to (fl z) z ea"
    and levb: "\<And>z. \<bar>z\<bar> < Bb \<Longrightarrow> close_to (fl z) z eb"
    and levr: "\<And>z. \<bar>z\<bar> < Br \<Longrightarrow> close_to (fl z) z er"
    and a: "\<bar>real_of_int a / 100\<bar> < Ba"
    and b: "\<bar>real_of_int b / 100\<bar> < Bb"
    and r: "\<bar>real_of_int (a - b) / 100\<bar> + (ea + eb) < Br"
    and e: "ea + eb + er < 1 / 200"
    and ab: "\<bar>a - b\<bar> \<le> 3500000000000000"
  shows "py_round (fsub (cents a) (cents b)) 2 = Inr (cents (a - b))"
proof -
  have eq: "real_of_int a / 100 - real_of_int b / 100 = real_of_int (a - b) / 100"
    by (simp add: diff_divide_distrib)
  have ca: "close_to (cents a) (real_of_int a / 100) ea"
    using leva a by (rule cents_close)
  have cb: "close_to (cents b) (real_of_int b / 100) eb"
    using levb b by (rule cents_close)
  have "\<bar>real_of_int a / 100 - real_of_int b / 100\<bar> + ea + eb < Br"
    using r by (simp only: eq add.assoc)
  from fsub_close [OF levr ca cb this]
  have "close_to (fsub (cents a) (cents b)) (real_of_int (a - b) / 100) (ea + eb + er)"
    by (simp only: eq)
  then show ?thesis using e ab by (rule round_cents)
qed

lemma total_fees_sum:
  assumes t: "0 \<le> t" "t \<le> 65100000000000" and p: "0 \<le> p" "p \<le> 30100000000100"
  shows "close_to (fadd (fadd (cents t) (cents 20)) (cents p)) (real_of_int (t + 20 + p) / 100)
      (1 / 16384 + 1 / 16384 + 1 / 16384 + 1 / 16384 + 1 / 16384)"
proof -
  have at: "\<bar>t\<bar> \<le> 65100000000000" using t by linarith
  have ap: "\<bar>p\<bar> \<le> 30100000000100" using p by linarith
  have a1: "\<bar>t + 20\<bar> \<le> 65100000000020" using t by linarith
  have a2: "\<bar>t + 20 + p\<bar> \<le> 95200000000120" using t p by linarith
  have "\<bar>real_of_int t / 100\<bar> + 0 < 1099511627776"
    using at by (rule abs_cents_less) simp
  then have "\<bar>real_of_int t / 100\<bar> < 1099511627776" by simp
  with lev40 have ct: "close_to (cents t) (real_of_int t / 100) (1 / 16384)"
    by (rule cents_close)
  have b1: "\<bar>real_of_int 20 / 100\<bar> < (1099511627776::real)" by simp
  have r1: "\<bar>real_of_int (t + 20) / 100\<bar> + (1 / 16384 + 1 / 16384) < 1099511627776"
    using a1 by (rule abs_cents_less) simp
  from fadd_cents [OF lev40 lev40 ct b1 r1]
  have s1: "close_to (fadd (cents t) (cents 20)) (real_of_int (t + 20) / 100)
      (1 / 16384 + 1 / 16384 + 1 / 16384)" .
  have "\<bar>real_of_int p / 100\<bar> + 0 < 1099511627776"
    using ap by (rule abs_cents_less) simp
  then have b2: "\<bar>real_of_int p / 100\<bar> < 1099511627776" by simp
  have r2: "\<bar>real_of_int (t + 20 + p) / 100\<bar>
      + (1 / 16384 + 1 / 16384 + 1 / 16384 + 1 / 16384) < 1099511627776"
    using a2 by (rule abs_cents_less) simp
  from fadd_cents [OF lev40 lev40 s1 b2 r2] show ?thesis .
qed

lemma total_fees_off:
  assumes t: "0 \<le> t" "t \<le> 65100000000000" and p: "0 \<le> p" "p \<le> 30100000000100"
  shows "py_round (fadd (fadd (fadd (cents t) (cents 20)) (cents p)) (Finite 0)) 2
           = Inr (cents (t + 20 + p))"
proof -
  have a2: "\<bar>t + 20 + p\<bar> \<le> 95200000000120" using t p by linarith
  note s2 = total_fees_sum [OF assms]
  have r3: "\<bar>real_of_int (t + 20 + p) / 100\<bar>
      + (1 / 16384 + 1 / 16384 + 1 / 16384 + 1 / 16384 + 1 / 16384) < 1099511627776"
    using a2 by (rule abs_cents_less) simp
  from fadd_zero [OF lev40 s2 r3]
  have s3: "close_to (fadd (fadd (fadd (cents t) (cents 20)) (cents p)) (Finite 0))
      (real_of_int (t + 20 + p) / 100)
      (1 / 16384 + 1 / 16384 + 1 / 16384 + 1 / 16384 + 1 / 16384 + 0 + 1 / 16384)" .
  have d: "(1 / 16384 + 1 / 16384 + 1 / 16384 + 1 / 16384 + 1 / 16384 + 0 + 1 / 16384 :: real)
      < 1 / 200"
    by simp
  have "\<bar>t + 20 + p\<bar> \<le> 3500000000000000" using t p by linarith
  with s3 d show ?thesis by (rule round_cents)
qed

lemma total_fees_on:
  assumes t: "0 \<le> t" "t \<le> 65100000000000" and p: "0 \<le> p" "p \<le> 30100000000100"
    and a: "0 \<le> a" "a \<le> 150100000000000"
  shows "py_round (fadd (fadd (fadd (cents t) (cents 20)) (cents p)) (cents a)) 2
           = Inr (cents (t + 20 + p + a))"
proof -
  have aa: "\<bar>a\<bar> \<le> 150100000000000" using a by linarith
  have a3: "\<bar>t + 20 + p + a\<bar> \<le> 245300000000120" using t p a by linarith
  note s2 = total_fees_sum [OF t p]
  have "\<bar>real_of_int a / 100\<bar> + 0 < 2199023255552"
    using aa by (rule abs_cents_less) simp
  then have b3: "\<bar>real_of_int a / 100\<bar> < 2199023255552" by simp
  have r3: "\<bar>real_of_int (t + 20 + p + a) / 100\<bar>
      + (1 / 16384 + 1 / 16384 + 1 / 16384 + 1 / 16384 + 1 / 16384 + 1 / 8192)
      < 4398046511104"
    using a3 by (rule abs_cents_less) simp
  from fadd_cents [OF lev41 lev42 s2 b3 r3]
  have s3: "close_to (fadd (fadd (fadd (cents t) (cents 20)) (cents p)) (cents a))
      (real_of_int (t + 20 + p + a) / 100)
      (1 / 16384 + 1 / 16384 + 1 / 16384 + 1 / 16384 + 1 / 16384 + 1 / 8192 + 1 / 4096)" .
  have d: "(1 / 16384 + 1 / 16384 + 1 / 16384 + 1 / 16384 + 1 / 16384 + 1 / 8192 + 1 / 4096
      :: real) < 1 / 200"
    by simp
  have "\<bar>t + 20 + p + a\<bar> \<le> 3500000000000000" using t p a by linarith
  with s3 d show ?thesis by (rule round_cents)
qed

lemma ulp_rel:
  assumes "2 powi (- 1022) \<le> \<bar>x\<bar>"
  shows "ulp x \<le> \<bar>x\<bar> / 2 ^ 52"
proof -
  have e: "- 1022 \<le> ilog2 \<bar>x\<bar>" using assms by (rule ilog2_ge)
  have "0 < (2::real) powi (- 1022)" by simp
  with assms have x: "0 < \<bar>x\<bar>" by linarith
  have "ilog2 \<bar>x\<bar> = 52 + (ilog2 \<bar>x\<bar> - 52)" by simp
  then have "(2::real) powi (ilog2 \<bar>x\<bar>) = 2 powi (52 + (ilog2 \<bar>x\<bar> - 52))" by (rule arg_cong)
  also have "\<dots> = 2 powi 52 * 2 powi (ilog2 \<bar>x\<bar> - 52)" by (rule pow2_add)
  finally have "2 powi 52 * 2 powi (ilog2 \<bar>x\<bar> - 52) \<le> \<bar>x\<bar>"
    using ilog2_bounds(1) [OF x] by simp
  then have "2 powi (ilog2 \<bar>x\<bar> - 52) \<le> \<bar>x\<bar> / 2 ^ 52"
    by (simp add: pos_le_divide_eq mult.commute)
  moreover have "ulp x = 2 powi (ilog2 \<bar>x\<bar> - 52)"
    using e by (simp add: ulp_def)
  ultimately show ?thesis by simp
qed

text \<open>A price of at most 10,000,000,000,000 that is a whole number of cents.\<close>

lemma cents_bound:
  assumes "Finite s = cents k" and "0 < s" and "s \<le> 10000000000000"
  shows "1 \<le> k" and "k \<le> 1000000000000000"
proof -
  define x where "x = real_of_int k / 100"
  have f: "fl x = Finite s" using assms(1) by (simp add: cents_def x_def)
  have x0: "x \<noteq> 0"
  proof
    assume "x = 0"
    with f have "s = 0" by (simp add: fl_def)
    with assms(2) show False by simp
  qed
  then have k0: "k \<noteq> 0" by (auto simp add: x_def)
  have s: "s = of_int (round_half_even (x / ulp x)) * ulp x"
    using fl_Finite_D(1) [OF f x0] .
  have err: "\<bar>s - x\<bar> \<le> ulp x / 2" using rounded_error [of x] by (simp add: s)
  have "1 \<le> \<bar>k\<bar>" using k0 by simp
  then have "1 \<le> \<bar>real_of_int k\<bar>" by linarith
  then have x1: "1 / 100 \<le> \<bar>x\<bar>" by (simp add: x_def)
  have "(2::real) powi (- 1022) \<le> 2 powi (- 7)" by (rule pow2_mono) simp
  also have "\<dots> \<le> 1 / 100" by simp
  finally have "2 powi (- 1022) \<le> \<bar>x\<bar>" using x1 by linarith
  then have "ulp x \<le> \<bar>x\<bar> / 2 ^ 52" by (rule ulp_rel)
  also have "\<dots> \<le> \<bar>x\<bar> / 1" by (intro divide_left_mono) simp_all
  finally have u: "ulp x \<le> \<bar>x\<bar>" by simp
  have pos: "0 < x"
  proof (rule ccontr)
    assume "\<not> 0 < x"
    then have "x < 0" using x0 by simp
    with err u have "s \<le> 0" by linarith
    with assms(2) show False by simp
  qed
  then have "0 < real_of_int k" by (simp add: x_def)
  then show "1 \<le> k" by linarith
  have "x \<le> 2 * s" using err u pos by linarith
  with assms(3) pos have "\<bar>x\<bar> < 35184372088832" by linarith
  then have "close_to (fl x) x (1 / 512)" by (rule lev45)
  then have "\<bar>s - x\<bar> \<le> 1 / 512" by (simp add: f)
  with assms(3) have "x \<le> 10000000000000 + 1 / 512" by linarith
  then have "real_of_int k < 1000000000000001" unfolding x_def by linarith
  then show "k \<le> 1000000000000000" by linarith
qed

text \<open>
  Up to 35,000,000,000,000 different numbers of cents are different floats.
\<close>

lemma cents_inj:
  assumes "\<bar>a\<bar> \<le> 3500000000000000" and "\<bar>b\<bar> \<le> 3500000000000000" and "cents a = cents b"
  shows "a = b"
proof -
  have "\<bar>real_of_int a / 100\<bar> + 0 < 35184372088832"
    using assms(1) by (rule abs_cents_less) simp
  then have "\<bar>real_of_int a / 100\<bar> < 35184372088832" by simp
  with lev45 have "close_to (cents a) (real_of_int a / 100) (1 / 512)"
    by (rule cents_close)
  then obtain x where x: "cents a = Finite x" "\<bar>x - real_of_int a / 100\<bar> \<le> 1 / 512"
    using close_to_D by blast
  have "\<bar>real_of_int b / 100\<bar> + 0 < 35184372088832"
    using assms(2) by (rule abs_cents_less) simp
  then have "\<bar>real_of_int b / 100\<bar> < 35184372088832" by simp
  with lev45 have "close_to (cents b) (real_of_int b / 100) (1 / 512)"
    by (rule cents_close)
  then obtain y where y: "cents b = Finite y" "\<bar>y - real_of_int b / 100\<bar> \<le> 1 / 512"
    using close_to_D by blast
  have "x = y" using x(1) y(1) assms(3) by simp
  with x(2) y(2) have "\<bar>real_of_int a / 100 - real_of_int b / 100\<bar> \<le> 2 / 512" by linarith
  then have "\<bar>real_of_int a - real_of_int b\<bar> < 1" by linarith
  then have "\<bar>real_of_int (a - b)\<bar> < 1" by simp
  then have "\<bar>a - b\<bar> < 1" by linarith
  then show ?thesis by simp
qed

text \<open>The net revenue and the profit for a price of \<open>k\<close> cents.\<close>

lemma net_revenue_cents:
  assumes k: "1 \<le> k" "k \<le> 1000000000000000"
    and f: "0 \<le> F" "F \<le> 245300000000120"
  shows "py_round (fsub (cents k) (cents F)) 2 = Inr (cents (k - F))"
proof -
  have ak: "\<bar>k\<bar> \<le> 1000000000000000" using k by linarith
  have af: "\<bar>F\<bar> \<le> 245300000000120" using f by linarith
  have ad: "\<bar>k - F\<bar> \<le> 1000000000000000" using k f by linarith
  have "\<bar>real_of_int k / 100\<bar> + 0 < 17592186044416"
    using ak by (rule abs_cents_less) simp
  then have a: "\<bar>real_of_int k / 100\<bar> < 17592186044416" by simp
  have "\<bar>real_of_int F / 100\<bar> + 0 < 4398046511104"
    using af by (rule abs_cents_less) simp
  then have b: "\<bar>real_of_int F / 100\<bar> < 4398046511104" by simp
  have r: "\<bar>real_of_int (k - F) / 100\<bar> + (1 / 1024 + 1 / 4096) < 17592186044416"
    using ad by (rule abs_cents_less) simp
  have e: "(1 / 1024 + 1 / 4096 + 1 / 1024 :: real) < 1 / 200" by simp
  have "\<bar>k - F\<bar> \<le> 3500000000000000" using ad by linarith
  with lev44 lev42 lev44 a b r e show ?thesis by (rule fsub_cents_round)
qed

lemma profit_cents:
  assumes n: "\<bar>n\<bar> \<le> 1000000000000000"
    and c: "0 \<le> c" "c \<le> 2000000000000100"
  shows "py_round (fsub (cents n) (cents c)) 2 = Inr (cents (n - c))"
proof -
  have ac: "\<bar>c\<bar> \<le> 2000000000000100" using c by linarith
  have ad: "\<bar>n - c\<bar> \<le> 3000000000000100" using n c by linarith
  have "\<bar>real_of_int n / 100\<bar> + 0 < 17592186044416"
    using n by (rule abs_cents_less) simp
  then have a: "\<bar>real_of_int n / 100\<bar> < 17592186044416" by simp
  have "\<bar>real_of_int c / 100\<bar> + 0 < 35184372088832"
    using ac by (rule abs_cents_less) simp
  then have b: "\<bar>real_of_int c / 100\<bar> < 35184372088832" by simp
  have r: "\<bar>real_of_int (n - c) / 100\<bar> + (1 / 1024 + 1 / 512) < 35184372088832"
    using ad by (rule abs_cents_less) simp
  have e: "(1 / 1024 + 1 / 512 + 1 / 512 :: real) < 1 / 200" by simp
  have "\<bar>n - c\<bar> \<le> 3500000000000000" using ad by linarith
  with lev44 lev45 lev45 a b r e show ?thesis by (rule fsub_cents_round)
qed

section \<open>Runs of the fee calculator, step by step\<close>

text \<open>
  Each step of the runs below is one rounding, established with \<open>fl_eval\<close> from the
  exponent and the significand of the result.
\<close>

lemma eval_1:
  "fl (2999 / 100) = Finite (8441434551552573 / 281474976710656)"
proof -
  have "fl (2999 / 100) = Finite (of_int 8441434551552573 * 2 powi (4 - 52))"
    by (rule fl_eval) (simp_all add: round_half_even_def)
  then show ?thesis by simp
qed

lemma eval_2:
  "fl 12 = Finite 12"
proof -
  have "fl 12 = Finite (of_int 6755399441055744 * 2 powi (3 - 52))"
    by (rule fl_eval) (simp_all add: round_half_even_def)
  then show ?thesis by simp
qed

lemma eval_3:
  "fl 4 = Finite 4"
proof -
  have "fl 4 = Finite (of_int 4503599627370496 * 2 powi (2 - 52))"
    by (rule fl_eval) (simp_all add: round_half_even_def)
  then show ?thesis by simp
qed

lemma eval_4:
  "fl (65 / 1000) = Finite (1170935903116329 / 18014398509481984)"
proof -
  have "fl (65 / 1000) = Finite (of_int 4683743612465316 * 2 powi ((- 4) - 52))"
    by (rule fl_eval) (simp_all add: round_half_even_def)
  then show ?thesis by simp
qed

lemma eval_5:
  "fl (20 / 100) = Finite (3602879701896397 / 18014398509481984)"
proof -
  have "fl (20 / 100) = Finite (of_int 7205759403792794 * 2 powi ((- 3) - 52))"
    by (rule fl_eval) (simp_all add: round_half_even_def)
  then show ?thesis by simp
qed

lemma eval_6:
  "fl (3 / 100) = Finite (1080863910568919 / 36028797018963968)"
proof -
  have "fl (3 / 100) = Finite (of_int 8646911284551352 * 2 powi ((- 6) - 52))"
    by (rule fl_eval) (simp_all add: round_half_even_def)
  then show ?thesis by simp
qed

lemma eval_7:
  "fl (25 / 100) = Finite (1 / 4)"
proof -
  have "fl (25 / 100) = Finite (of_int 4503599627370496 * 2 powi ((- 2) - 52))"
    by (rule fl_eval) (simp_all add: round_half_even_def)
  then show ?thesis by simp
qed

lemma eval_8:
  "fl (15 / 100) = Finite (5404319552844595 / 36028797018963968)"
proof -
  have "fl (15 / 100) = Finite (of_int 5404319552844595 * 2 powi ((- 3) - 52))"
    by (rule fl_eval) (simp_all add: round_half_even_def)
  then show ?thesis by simp
qed

lemma eval_9:
  "fmul (Finite (8441434551552573 / 281474976710656)) (Finite (1170935903116329 / 18014398509481984)) = Finite (2194772983403669 / 1125899906842624)"
proof -
  have "fl ((8441434551552573 / 281474976710656) * (1170935903116329 / 18014398509481984)) = Finite (of_int 8779091933614676 * 2 powi (0 - 52))"
    by (rule fl_eval) (simp_all add: round_half_even_def)
  then show ?thesis by (simp)
qed

lemma eval_10:
  "py_round (Finite (2194772983403669 / 1125899906842624)) 2 = Inr (Finite (8782019273372467 / 4503599627370496))"
proof -
  have r: "round_half_even ((2194772983403669 / 1125899906842624) * 10 ^ 2) = 195"
    by (simp add: round_half_even_def)
  have "fl (of_int 195 / 10 ^ 2) = Finite (of_int 8782019273372467 * 2 powi (0 - 52))"
    by (rule fl_eval) (simp_all add: round_half_even_def)
  from this r show ?thesis by simp
qed

lemma eval_11:
  "fmul (Finite (8441434551552573 / 281474976710656)) (Finite (1080863910568919 / 36028797018963968)) = Finite (4051888584745235 / 4503599627370496)"
proof -
  have "fl ((8441434551552573 / 281474976710656) * (1080863910568919 / 36028797018963968)) = Finite (of_int 8103777169490470 * 2 powi ((- 1) - 52))"
    by (rule fl_eval) (simp_all add: round_half_even_def)
  then show ?thesis by (simp)
qed

lemma eval_12:
  "fadd (Finite (4051888584745235 / 4503599627370496)) (Finite (1 / 4)) = Finite (5177788491587859 / 4503599627370496)"
proof -
  have "fl ((4051888584745235 / 4503599627370496) + (1 / 4)) = Finite (of_int 5177788491587859 * 2 powi (0 - 52))"
    by (rule fl_eval) (simp_all add: round_half_even_def)
  then show ?thesis by (simp)
qed

lemma eval_13:
  "py_round (Finite (5177788491587859 / 4503599627370496)) 2 = Inr (Finite (2589569785738035 / 2251799813685248))"
proof -
  have r: "round_half_even ((5177788491587859 / 4503599627370496) * 10 ^ 2) = 115"
    by (simp add: round_half_even_def)
  have "fl (of_int 115 / 10 ^ 2) = Finite (of_int 5179139571476070 * 2 powi (0 - 52))"
    by (rule fl_eval) (simp_all add: round_half_even_def)
  from this r show ?thesis by simp
qed

lemma eval_14:
  "fadd (Finite (8782019273372467 / 4503599627370496)) (Finite (3602879701896397 / 18014398509481984)) = Finite (4841369599423283 / 2251799813685248)"
proof -
  have "fl ((8782019273372467 / 4503599627370496) + (3602879701896397 / 18014398509481984)) = Finite (of_int 4841369599423283 * 2 powi (1 - 52))"
    by (rule fl_eval) (simp_all add: round_half_even_def)
  then show ?thesis by (simp)
qed

lemma eval_15:
  "fadd (Finite (4841369599423283 / 2251799813685248)) (Finite (2589569785738035 / 2251799813685248)) = Finite (3715469692580659 / 1125899906842624)"
proof -
  have "fl ((4841369599423283 / 2251799813685248) + (2589569785738035 / 2251799813685248)) = Finite (of_int 7430939385161318 * 2 powi (1 - 52))"
    by (rule fl_eval) (simp_all add: round_half_even_def)
  then show ?thesis by (simp)
qed

lemma eval_16:
  "fadd (Finite (3715469692580659 / 1125899906842624)) (Finite 0) = Finite (3715469692580659 / 1125899906842624)"
proof -
  have "fl ((3715469692580659 / 1125899906842624) + 0) = Finite (of_int 7430939385161318 * 2 powi (1 - 52))"
    by (rule fl_eval) (simp_all add: round_half_even_def)
  then show ?thesis by (simp)
qed

lemma eval_17:
  "py_round (Finite (3715469692580659 / 1125899906842624)) 2 = Inr (Finite (3715469692580659 / 1125899906842624))"
proof -
  have r: "round_half_even ((3715469692580659 / 1125899906842624) * 10 ^ 2) = 330"
    by (simp add: round_half_even_def)
  have "fl (of_int 330 / 10 ^ 2) = Finite (of_int 7430939385161318 * 2 powi (1 - 52))"
    by (rule fl_eval) (simp_all add: round_half_even_def)
  from this r show ?thesis by simp
qed

lemma eval_18:
  "fsub (Finite (8441434551552573 / 281474976710656)) (Finite (3715469692580659 / 1125899906842624)) = Finite (469535445525463 / 17592186044416)"
proof -
  have "fl ((8441434551552573 / 281474976710656) - (3715469692580659 / 1125899906842624)) = Finite (of_int 7512567128407408 * 2 powi (4 - 52))"
    by (rule fl_eval) (simp_all add: round_half_even_def)
  then show ?thesis by (simp add: fsub_def)
qed

lemma eval_19:
  "py_round (Finite (469535445525463 / 17592186044416)) 2 = Inr (Finite (7512567128407409 / 281474976710656))"
proof -
  have r: "round_half_even ((469535445525463 / 17592186044416) * 10 ^ 2) = 2669"
    by (simp add: round_half_even_def)
  have "fl (of_int 2669 / 10 ^ 2) = Finite (of_int 7512567128407409 * 2 powi (4 - 52))"
    by (rule fl_eval) (simp_all add: round_half_even_def)
  from this r show ?thesis by simp
qed

lemma eval_20:
  "fadd (Finite 12) (Finite 4) = Finite 16"
proof -
  have "fl (12 + 4) = Finite (of_int 4503599627370496 * 2 powi (4 - 52))"
    by (rule fl_eval) (simp_all add: round_half_even_def)
  then show ?thesis by (simp)
qed

lemma eval_21:
  "py_round (Finite 16) 2 = Inr (Finite 16)"
proof -
  have r: "round_half_even (16 * 10 ^ 2) = 1600"
    by (simp add: round_half_even_def)
  have "fl (of_int 1600 / 10 ^ 2) = Finite (of_int 4503599627370496 * 2 powi (4 - 52))"
    by (rule fl_eval) (simp_all add: round_half_even_def)
  from this r show ?thesis by simp
qed

lemma eval_22:
  "fsub (Finite (7512567128407409 / 281474976710656)) (Finite 16) = Finite (3008967501036913 / 281474976710656)"
proof -
  have "fl ((7512567128407409 / 281474976710656) - 16) = Finite (of_int 6017935002073826 * 2 powi (3 - 52))"
    by (rule fl_eval) (simp_all add: round_half_even_def)
  then show ?thesis by (simp add: fsub_def)
qed

lemma eval_23:
  "py_round (Finite (3008967501036913 / 281474976710656)) 2 = Inr (Finite (6017935002073825 / 562949953421312))"
proof -
  have r: "round_half_even ((3008967501036913 / 281474976710656) * 10 ^ 2) = 1069"
    by (simp add: round_half_even_def)
  have "fl (of_int 1069 / 10 ^ 2) = Finite (of_int 6017935002073825 * 2 powi (3 - 52))"
    by (rule fl_eval) (simp_all add: round_half_even_def)
  from this r show ?thesis by simp
qed

lemma eval_24:
  "fdiv (Finite (6017935002073825 / 562949953421312)) (Finite (8441434551552573 / 281474976710656)) = Inr (Finite (401329443286017 / 1125899906842624))"
proof -
  have "fl ((6017935002073825 / 562949953421312) / (8441434551552573 / 281474976710656)) = Finite (of_int 6421271092576272 * 2 powi ((- 2) - 52))"
    by (rule fl_eval) (simp_all add: round_half_even_def)
  then show ?thesis by simp
qed

lemma eval_25:
  "fmul (Finite (401329443286017 / 1125899906842624)) (Finite 100) = Finite (1254154510268803 / 35184372088832)"
proof -
  have "fl ((401329443286017 / 1125899906842624) * 100) = Finite (of_int 5016618041075212 * 2 powi (5 - 52))"
    by (rule fl_eval) (simp_all add: round_half_even_def)
  then show ?thesis by (simp)
qed

lemma eval_26:
  "py_round (Finite (1254154510268803 / 35184372088832)) 1 = Inr (Finite (5010254585449677 / 140737488355328))"
proof -
  have r: "round_half_even ((1254154510268803 / 35184372088832) * 10 ^ 1) = 356"
    by (simp add: round_half_even_def)
  have "fl (of_int 356 / 10 ^ 1) = Finite (of_int 5010254585449677 * 2 powi (5 - 52))"
    by (rule fl_eval) (simp_all add: round_half_even_def)
  from this r show ?thesis by simp
qed

lemma eval_27:
  "fl (195 / 100) = Finite (8782019273372467 / 4503599627370496)"
proof -
  have "fl (195 / 100) = Finite (of_int 8782019273372467 * 2 powi (0 - 52))"
    by (rule fl_eval) (simp_all add: round_half_even_def)
  then show ?thesis by simp
qed

lemma eval_28:
  "fl (115 / 100) = Finite (2589569785738035 / 2251799813685248)"
proof -
  have "fl (115 / 100) = Finite (of_int 5179139571476070 * 2 powi (0 - 52))"
    by (rule fl_eval) (simp_all add: round_half_even_def)
  then show ?thesis by simp
qed

lemma eval_29:
  "fl (330 / 100) = Finite (3715469692580659 / 1125899906842624)"
proof -
  have "fl (330 / 100) = Finite (of_int 7430939385161318 * 2 powi (1 - 52))"
    by (rule fl_eval) (simp_all add: round_half_even_def)
  then show ?thesis by simp
qed

lemma eval_30:
  "fl (2669 / 100) = Finite (7512567128407409 / 281474976710656)"
proof -
  have "fl (2669 / 100) = Finite (of_int 7512567128407409 * 2 powi (4 - 52))"
    by (rule fl_eval) (simp_all add: round_half_even_def)
  then show ?thesis by simp
qed

lemma eval_31:
  "fl 16 = Finite 16"
proof -
  have "fl 16 = Finite (of_int 4503599627370496 * 2 powi (4 - 52))"
    by (rule fl_eval) (simp_all add: round_half_even_def)
  then show ?thesis by simp
qed

lemma eval_32:
  "fl (1069 / 100) = Finite (6017935002073825 / 562949953421312)"
proof -
  have "fl (1069 / 100) = Finite (of_int 6017935002073825 * 2 powi (3 - 52))"
    by (rule fl_eval) (simp_all add: round_half_even_def)
  then show ?thesis by simp
qed

lemma eval_33:
  "fl (356 / 10) = Finite (5010254585449677 / 140737488355328)"
proof -
  have "fl (356 / 10) = Finite (of_int 5010254585449677 * 2 powi (5 - 52))"
    by (rule fl_eval) (simp_all add: round_half_even_def)
  then show ?thesis by simp
qed

lemma eval_34:
  "fl (357 / 10) = Finite (2512164167142605 / 70368744177664)"
proof -
  have "fl (357 / 10) = Finite (of_int 5024328334285210 * 2 powi (5 - 52))"
    by (rule fl_eval) (simp_all add: round_half_even_def)
  then show ?thesis by simp
qed

lemma eval_35:
  "fl (1125 / 1000) = Finite (9 / 8)"
proof -
  have "fl (1125 / 1000) = Finite (of_int 5066549580791808 * 2 powi (0 - 52))"
    by (rule fl_eval) (simp_all add: round_half_even_def)
  then show ?thesis by simp
qed

lemma eval_36:
  "fl 0 = Finite 0"
proof -
  have "fl 0 = Finite 0"
    by (simp add: fl_def)
  then show ?thesis by simp
qed

lemma eval_37:
  "fmul (Finite (9 / 8)) (Finite (1170935903116329 / 18014398509481984)) = Finite (658651445502935 / 9007199254740992)"
proof -
  have "fl ((9 / 8) * (1170935903116329 / 18014398509481984)) = Finite (of_int 5269211564023480 * 2 powi ((- 4) - 52))"
    by (rule fl_eval) (simp_all add: round_half_even_def)
  then show ?thesis by (simp)
qed

lemma eval_38:
  "py_round (Finite (658651445502935 / 9007199254740992)) 2 = Inr (Finite (1261007895663739 / 18014398509481984))"
proof -
  have r: "round_half_even ((658651445502935 / 9007199254740992) * 10 ^ 2) = 7"
    by (simp add: round_half_even_def)
  have "fl (of_int 7 / 10 ^ 2) = Finite (of_int 5044031582654956 * 2 powi ((- 4) - 52))"
    by (rule fl_eval) (simp_all add: round_half_even_def)
  from this r show ?thesis by simp
qed

lemma eval_39:
  "fmul (Finite (9 / 8)) (Finite (1080863910568919 / 36028797018963968)) = Finite (607985949695017 / 18014398509481984)"
proof -
  have "fl ((9 / 8) * (1080863910568919 / 36028797018963968)) = Finite (of_int 4863887597560136 * 2 powi ((- 5) - 52))"
    by (rule fl_eval) (simp_all add: round_half_even_def)
  then show ?thesis by (simp)
qed

lemma eval_40:
  "fadd (Finite (607985949695017 / 18014398509481984)) (Finite (1 / 4)) = Finite (5111585577065513 / 18014398509481984)"
proof -
  have "fl ((607985949695017 / 18014398509481984) + (1 / 4)) = Finite (of_int 5111585577065513 * 2 powi ((- 2) - 52))"
    by (rule fl_eval) (simp_all add: round_half_even_def)
  then show ?thesis by (simp)
qed

lemma eval_41:
  "py_round (Finite (5111585577065513 / 18014398509481984)) 2 = Inr (Finite (1261007895663739 / 4503599627370496))"
proof -
  have r: "round_half_even ((5111585577065513 / 18014398509481984) * 10 ^ 2) = 28"
    by (simp add: round_half_even_def)
  have "fl (of_int 28 / 10 ^ 2) = Finite (of_int 5044031582654956 * 2 powi ((- 2) - 52))"
    by (rule fl_eval) (simp_all add: round_half_even_def)
  from this r show ?thesis by simp
qed

lemma eval_42:
  "fadd (Finite (1261007895663739 / 18014398509481984)) (Finite (3602879701896397 / 18014398509481984)) = Finite (607985949695017 / 2251799813685248)"
proof -
  have "fl ((1261007895663739 / 18014398509481984) + (3602879701896397 / 18014398509481984)) = Finite (of_int 4863887597560136 * 2 powi ((- 2) - 52))"
    by (rule fl_eval) (simp_all add: round_half_even_def)
  then show ?thesis by (simp)
qed

lemma eval_43:
  "fadd (Finite (607985949695017 / 2251799813685248)) (Finite (1261007895663739 / 4503599627370496)) = Finite (2476979795053773 / 4503599627370496)"
proof -
  have "fl ((607985949695017 / 2251799813685248) + (1261007895663739 / 4503599627370496)) = Finite (of_int 4953959590107546 * 2 powi ((- 1) - 52))"
    by (rule fl_eval) (simp_all add: round_half_even_def)
  then show ?thesis by (simp)
qed

lemma eval_44:
  "fadd (Finite (2476979795053773 / 4503599627370496)) (Finite 0) = Finite (2476979795053773 / 4503599627370496)"
proof -
  have "fl ((2476979795053773 / 4503599627370496) + 0) = Finite (of_int 4953959590107546 * 2 powi ((- 1) - 52))"
    by (rule fl_eval) (simp_all add: round_half_even_def)
  then show ?thesis by (simp)
qed

lemma eval_45:
  "py_round (Finite (2476979795053773 / 4503599627370496)) 2 = Inr (Finite (2476979795053773 / 4503599627370496))"
proof -
  have r: "round_half_even ((2476979795053773 / 4503599627370496) * 10 ^ 2) = 55"
    by (simp add: round_half_even_def)
  have "fl (of_int 55 / 10 ^ 2) = Finite (of_int 4953959590107546 * 2 powi ((- 1) - 52))"
    by (rule fl_eval) (simp_all add: round_half_even_def)
  from this r show ?thesis by simp
qed

lemma eval_46:
  "fsub (Finite (9 / 8)) (Finite (2476979795053773 / 4503599627370496)) = Finite (2589569785738035 / 4503599627370496)"
proof -
  have "fl ((9 / 8) - (2476979795053773 / 4503599627370496)) = Finite (of_int 5179139571476070 * 2 powi ((- 1) - 52))"
    by (rule fl_eval) (simp_all add: round_half_even_def)
  then show ?thesis by (simp add: fsub_def)
qed

lemma eval_47:
  "py_round (Finite (2589569785738035 / 4503599627370496)) 2 = Inr (Finite (5134103575202365 / 9007199254740992))"
proof -
  have r: "round_half_even ((2589569785738035 / 4503599627370496) * 10 ^ 2) = 57"
    by (simp add: round_half_even_def)
  have "fl (of_int 57 / 10 ^ 2) = Finite (of_int 5134103575202365 * 2 powi ((- 1) - 52))"
    by (rule fl_eval) (simp_all add: round_half_even_def)
  from this r show ?thesis by simp
qed

lemma eval_48:
  "fadd (Finite 0) (Finite 0) = Finite 0"
proof -
  have "fl (0 + 0) = Finite 0"
    by (simp add: fl_def)
  then show ?thesis by (simp)
qed

lemma eval_49:
  "py_round (Finite 0) 2 = Inr (Finite 0)"
proof -
  have r: "round_half_even (0 * 10 ^ 2) = 0"
    by (simp add: round_half_even_def)
  have "fl (of_int 0 / 10 ^ 2) = Finite 0"
    by (simp add: fl_def)
  from this r show ?thesis by simp
qed

lemma eval_50:
  "fsub (Finite (5134103575202365 / 9007199254740992)) (Finite 0) = Finite (5134103575202365 / 9007199254740992)"
proof -
  have "fl ((5134103575202365 / 9007199254740992) - 0) = Finite (of_int 5134103575202365 * 2 powi ((- 1) - 52))"
    by (rule fl_eval) (simp_all add: round_half_even_def)
  then show ?thesis by (simp add: fsub_def)
qed

lemma eval_51:
  "py_round (Finite (5134103575202365 / 9007199254740992)) 2 = Inr (Finite (5134103575202365 / 9007199254740992))"
proof -
  have r: "round_half_even ((5134103575202365 / 9007199254740992) * 10 ^ 2) = 57"
    by (simp add: round_half_even_def)
  have "fl (of_int 57 / 10 ^ 2) = Finite (of_int 5134103575202365 * 2 powi ((- 1) - 52))"
    by (rule fl_eval) (simp_all add: round_half_even_def)
  from this r show ?thesis by simp
qed

lemma eval_52:
  "fdiv (Finite (5134103575202365 / 9007199254740992)) (Finite (9 / 8)) = Inr (Finite (2281823811201051 / 4503599627370496))"
proof -
  have "fl ((5134103575202365 / 9007199254740992) / (9 / 8)) = Finite (of_int 4563647622402102 * 2 powi ((- 1) - 52))"
    by (rule fl_eval) (simp_all add: round_half_even_def)
  then show ?thesis by simp
qed

lemma eval_53:
  "fmul (Finite (2281823811201051 / 4503599627370496)) (Finite 100) = Finite (1782674852500821 / 35184372088832)"
proof -
  have "fl ((2281823811201051 / 4503599627370496) * 100) = Finite (of_int 7130699410003284 * 2 powi (5 - 52))"
    by (rule fl_eval) (simp_all add: round_half_even_def)
  then show ?thesis by (simp)
qed

lemma eval_54:
  "py_round (Finite (1782674852500821 / 35184372088832)) 1 = Inr (Finite (3567695329807565 / 70368744177664))"
proof -
  have r: "round_half_even ((1782674852500821 / 35184372088832) * 10 ^ 1) = 507"
    by (simp add: round_half_even_def)
  have "fl (of_int 507 / 10 ^ 1) = Finite (of_int 7135390659615130 * 2 powi (5 - 52))"
    by (rule fl_eval) (simp_all add: round_half_even_def)
  from this r show ?thesis by simp
qed

lemma eval_55:
  "fmul (Finite (9 / 8)) (Finite (5404319552844595 / 36028797018963968)) = Finite (6079859496950169 / 36028797018963968)"
proof -
  have "fl ((9 / 8) * (5404319552844595 / 36028797018963968)) = Finite (of_int 6079859496950169 * 2 powi ((- 3) - 52))"
    by (rule fl_eval) (simp_all add: round_half_even_def)
  then show ?thesis by (simp)
qed

lemma eval_56:
  "py_round (Finite (6079859496950169 / 36028797018963968)) 2 = Inr (Finite (6124895493223875 / 36028797018963968))"
proof -
  have r: "round_half_even ((6079859496950169 / 36028797018963968) * 10 ^ 2) = 17"
    by (simp add: round_half_even_def)
  have "fl (of_int 17 / 10 ^ 2) = Finite (of_int 6124895493223875 * 2 powi ((- 3) - 52))"
    by (rule fl_eval) (simp_all add: round_half_even_def)
  from this r show ?thesis by simp
qed

lemma eval_57:
  "fadd (Finite (2476979795053773 / 4503599627370496)) (Finite (6124895493223875 / 36028797018963968)) = Finite (6485183463413515 / 9007199254740992)"
proof -
  have "fl ((2476979795053773 / 4503599627370496) + (6124895493223875 / 36028797018963968)) = Finite (of_int 6485183463413515 * 2 powi ((- 1) - 52))"
    by (rule fl_eval) (simp_all add: round_half_even_def)
  then show ?thesis by (simp)
qed

lemma eval_58:
  "py_round (Finite (6485183463413515 / 9007199254740992)) 2 = Inr (Finite (3242591731706757 / 4503599627370496))"
proof -
  have r: "round_half_even ((6485183463413515 / 9007199254740992) * 10 ^ 2) = 72"
    by (simp add: round_half_even_def)
  have "fl (of_int 72 / 10 ^ 2) = Finite (of_int 6485183463413514 * 2 powi ((- 1) - 52))"
    by (rule fl_eval) (simp_all add: round_half_even_def)
  from this r show ?thesis by simp
qed

lemma eval_59:
  "fsub (Finite (9 / 8)) (Finite (3242591731706757 / 4503599627370496)) = Finite (1823957849085051 / 4503599627370496)"
proof -
  have "fl ((9 / 8) - (3242591731706757 / 4503599627370496)) = Finite (of_int 7295831396340204 * 2 powi ((- 2) - 52))"
    by (rule fl_eval) (simp_all add: round_half_even_def)
  then show ?thesis by (simp add: fsub_def)
qed

lemma eval_60:
  "py_round (Finite (1823957849085051 / 4503599627370496)) 2 = Inr (Finite (7385903388887613 / 18014398509481984))"
proof -
  have r: "round_half_even ((1823957849085051 / 4503599627370496) * 10 ^ 2) = 41"
    by (simp add: round_half_even_def)
  have "fl (of_int 41 / 10 ^ 2) = Finite (of_int 7385903388887613 * 2 powi ((- 2) - 52))"
    by (rule fl_eval) (simp_all add: round_half_even_def)
  from this r show ?thesis by simp
qed

lemma eval_61:
  "fsub (Finite (7385903388887613 / 18014398509481984)) (Finite 0) = Finite (7385903388887613 / 18014398509481984)"
proof -
  have "fl ((7385903388887613 / 18014398509481984) - 0) = Finite (of_int 7385903388887613 * 2 powi ((- 2) - 52))"
    by (rule fl_eval) (simp_all add: round_half_even_def)
  then show ?thesis by (simp add: fsub_def)
qed

lemma eval_62:
  "py_round (Finite (7385903388887613 / 18014398509481984)) 2 = Inr (Finite (7385903388887613 / 18014398509481984))"
proof -
  have r: "round_half_even ((7385903388887613 / 18014398509481984) * 10 ^ 2) = 41"
    by (simp add: round_half_even_def)
  have "fl (of_int 41 / 10 ^ 2) = Finite (of_int 7385903388887613 * 2 powi ((- 2) - 52))"
    by (rule fl_eval) (simp_all add: round_half_even_def)
  from this r show ?thesis by simp
qed

lemma eval_63:
  "fdiv (Finite (7385903388887613 / 18014398509481984)) (Finite (9 / 8)) = Inr (Finite (6565247456788989 / 18014398509481984))"
proof -
  have "fl ((7385903388887613 / 18014398509481984) / (9 / 8)) = Finite (of_int 6565247456788989 * 2 powi ((- 2) - 52))"
    by (rule fl_eval) (simp_all add: round_half_even_def)
  then show ?thesis by simp
qed

lemma eval_64:
  "fmul (Finite (6565247456788989 / 18014398509481984)) (Finite 100) = Finite (2564549787808199 / 70368744177664)"
proof -
  have "fl ((6565247456788989 / 18014398509481984) * 100) = Finite (of_int 5129099575616398 * 2 powi (5 - 52))"
    by (rule fl_eval) (simp_all add: round_half_even_def)
  then show ?thesis by (simp)
qed

lemma eval_65:
  "py_round (Finite (2564549787808199 / 70368744177664)) 1 = Inr (Finite (5122844576133939 / 140737488355328))"
proof -
  have r: "round_half_even ((2564549787808199 / 70368744177664) * 10 ^ 1) = 364"
    by (simp add: round_half_even_def)
  have "fl (of_int 364 / 10 ^ 1) = Finite (of_int 5122844576133939 * 2 powi (5 - 52))"
    by (rule fl_eval) (simp_all add: round_half_even_def)
  from this r show ?thesis by simp
qed

lemma eval_66:
  "fl (7 / 100) = Finite (1261007895663739 / 18014398509481984)"
proof -
  have "fl (7 / 100) = Finite (of_int 5044031582654956 * 2 powi ((- 4) - 52))"
    by (rule fl_eval) (simp_all add: round_half_even_def)
  then show ?thesis by simp
qed

lemma eval_67:
  "fl (28 / 100) = Finite (1261007895663739 / 4503599627370496)"
proof -
  have "fl (28 / 100) = Finite (of_int 5044031582654956 * 2 powi ((- 2) - 52))"
    by (rule fl_eval) (simp_all add: round_half_even_def)
  then show ?thesis by simp
qed

lemma eval_68:
  "fl (55 / 100) = Finite (2476979795053773 / 4503599627370496)"
proof -
  have "fl (55 / 100) = Finite (of_int 4953959590107546 * 2 powi ((- 1) - 52))"
    by (rule fl_eval) (simp_all add: round_half_even_def)
  then show ?thesis by simp
qed

lemma eval_69:
  "fl (57 / 100) = Finite (5134103575202365 / 9007199254740992)"
proof -
  have "fl (57 / 100) = Finite (of_int 5134103575202365 * 2 powi ((- 1) - 52))"
    by (rule fl_eval) (simp_all add: round_half_even_def)
  then show ?thesis by simp
qed

lemma eval_70:
  "fl (507 / 10) = Finite (3567695329807565 / 70368744177664)"
proof -
  have "fl (507 / 10) = Finite (of_int 7135390659615130 * 2 powi (5 - 52))"
    by (rule fl_eval) (simp_all add: round_half_even_def)
  then show ?thesis by simp
qed

lemma eval_71:
  "fl (17 / 100) = Finite (6124895493223875 / 36028797018963968)"
proof -
  have "fl (17 / 100) = Finite (of_int 6124895493223875 * 2 powi ((- 3) - 52))"
    by (rule fl_eval) (simp_all add: round_half_even_def)
  then show ?thesis by simp
qed

lemma eval_72:
  "fl (72 / 100) = Finite (3242591731706757 / 4503599627370496)"
proof -
  have "fl (72 / 100) = Finite (of_int 6485183463413514 * 2 powi ((- 1) - 52))"
    by (rule fl_eval) (simp_all add: round_half_even_def)
  then show ?thesis by simp
qed

lemma eval_73:
  "fl (41 / 100) = Finite (7385903388887613 / 18014398509481984)"
proof -
  have "fl (41 / 100) = Finite (of_int 7385903388887613 * 2 powi ((- 2) - 52))"
    by (rule fl_eval) (simp_all add: round_half_even_def)
  then show ?thesis by simp
qed

lemma eval_74:
  "fl (364 / 10) = Finite (5122844576133939 / 140737488355328)"
proof -
  have "fl (364 / 10) = Finite (of_int 5122844576133939 * 2 powi (5 - 52))"
    by (rule fl_eval) (simp_all add: round_half_even_def)
  then show ?thesis by simp
qed

lemma eval_75:
  "fsub (Finite (5134103575202365 / 9007199254740992)) (Finite (7385903388887613 / 18014398509481984)) = Finite (2882303761517117 / 18014398509481984)"
proof -
  have "fl ((5134103575202365 / 9007199254740992) - (7385903388887613 / 18014398509481984)) = Finite (of_int 5764607523034234 * 2 powi ((- 3) - 52))"
    by (rule fl_eval) (simp_all add: round_half_even_def)
  then show ?thesis by (simp add: fsub_def)
qed

lemma eval_76:
  "py_round (Finite (2882303761517117 / 18014398509481984)) 2 = Inr (Finite (5764607523034235 / 36028797018963968))"
proof -
  have r: "round_half_even ((2882303761517117 / 18014398509481984) * 10 ^ 2) = 16"
    by (simp add: round_half_even_def)
  have "fl (of_int 16 / 10 ^ 2) = Finite (of_int 5764607523034235 * 2 powi ((- 3) - 52))"
    by (rule fl_eval) (simp_all add: round_half_even_def)
  from this r show ?thesis by simp
qed

lemma eval_77:
  "fl (16 / 100) = Finite (5764607523034235 / 36028797018963968)"
proof -
  have "fl (16 / 100) = Finite (of_int 5764607523034235 * 2 powi ((- 3) - 52))"
    by (rule fl_eval) (simp_all add: round_half_even_def)
  then show ?thesis by simp
qed

lemmas eval_steps = eval_1 eval_2 eval_3 eval_4 eval_5 eval_6 eval_7 eval_8
  eval_9 eval_10 eval_11 eval_12 eval_13 eval_14 eval_15 eval_16
  eval_17 eval_18 eval_19 eval_20 eval_21 eval_22 eval_23 eval_24
  eval_25 eval_26 eval_27 eval_28 eval_29 eval_30 eval_31 eval_32
  eval_33 eval_34 eval_35 eval_36 eval_37 eval_38 eval_39 eval_40
  eval_41 eval_42 eval_43 eval_44 eval_45 eval_46 eval_47 eval_48
  eval_49 eval_50 eval_51 eval_52 eval_53 eval_54 eval_55 eval_56
  eval_57 eval_58 eval_59 eval_60 eval_61 eval_62 eval_63 eval_64
  eval_65 eval_66 eval_67 eval_68 eval_69 eval_70 eval_71 eval_72
  eval_73 eval_74 eval_75 eval_76 eval_77

lemmas run_simps = bind_err_Inr Let_def if_True if_False fgt.simps

lemma example_run:
  "calculate_etsy_fees (fl (2999 / 100)) (fl 12) (fl 4) False =
     Inr \<lparr> fees = \<lparr> transaction_fee = fl (195 / 100),
                     listing_fee = fl (20 / 100),
                     payment_processing = fl (115 / 100),
                     offsite_ads = Finite 0,
                     total_fees = fl (330 / 100) \<rparr>,
           net_revenue = fl (2669 / 100),
           total_costs = fl 16,
           profit = fl (1069 / 100),
           profit_margin = fl (356 / 10) \<rparr>"
  unfolding calculate_etsy_fees_def
  by (simp only: eval_steps run_simps) (simp add: bind_err_Inr)

lemma margin_values: "fl (356 / 10) \<noteq> fl (357 / 10)"
  by (simp only: eval_steps) simp

lemma sub_cent_run_off:
  "calculate_etsy_fees (fl (1125 / 1000)) (fl 0) (fl 0) False =
     Inr \<lparr> fees = \<lparr> transaction_fee = fl (7 / 100),
                     listing_fee = fl (20 / 100),
                     payment_processing = fl (28 / 100),
                     offsite_ads = Finite 0,
                     total_fees = fl (55 / 100) \<rparr>,
           net_revenue = fl (57 / 100),
           total_costs = Finite 0,
           profit = fl (57 / 100),
           profit_margin = fl (507 / 10) \<rparr>"
  unfolding calculate_etsy_fees_def
  by (simp only: eval_steps run_simps) (simp add: bind_err_Inr)

lemma sub_cent_run_on:
  "calculate_etsy_fees (fl (1125 / 1000)) (fl 0) (fl 0) True =
     Inr \<lparr> fees = \<lparr> transaction_fee = fl (7 / 100),
                     listing_fee = fl (20 / 100),
                     payment_processing = fl (28 / 100),
                     offsite_ads = fl (17 / 100),
                     total_fees = fl (72 / 100) \<rparr>,
           net_revenue = fl (41 / 100),
           total_costs = Finite 0,
           profit = fl (41 / 100),
           profit_margin = fl (364 / 10) \<rparr>"
  unfolding calculate_etsy_fees_def
  by (simp only: eval_steps run_simps) (simp add: bind_err_Inr)

lemma sub_cent_ads_fee: "py_round (fmul (fl (1125 / 1000)) (fl (15 / 100))) 2 = Inr (fl (17 / 100))"
  by (simp only: eval_steps)

lemma sub_cent_difference:
  "fsub (fl (57 / 100)) (fl (41 / 100)) \<noteq> fl (17 / 100)"
  "py_round (fsub (fl (57 / 100)) (fl (41 / 100))) 2 = Inr (fl (16 / 100))"
  "fl (16 / 100) \<noteq> fl (17 / 100)"
  by (simp_all only: eval_steps) simp_all

subsection \<open>Sale price 35200000000000.41, no costs\<close>

lemma price_1:
  "fl (3520000000000041 / 100) = Finite (1126400000000013 / 32)"
proof -
  have "fl (3520000000000041 / 100) = Finite (of_int 4505600000000052 * 2 powi (45 - 52))"
    by (rule fl_eval) (simp_all add: round_half_even_def)
  then show ?thesis by simp
qed

lemma price_2:
  "fl 0 = Finite 0"
proof -
  have "fl 0 = Finite 0"
    by (simp add: fl_def)
  then show ?thesis by simp
qed

lemma price_3:
  "fl (65 / 1000) = Finite (1170935903116329 / 18014398509481984)"
proof -
  have "fl (65 / 1000) = Finite (of_int 4683743612465316 * 2 powi ((- 4) - 52))"
    by (rule fl_eval) (simp_all add: round_half_even_def)
  then show ?thesis by simp
qed

lemma price_4:
  "fl (20 / 100) = Finite (3602879701896397 / 18014398509481984)"
proof -
  have "fl (20 / 100) = Finite (of_int 7205759403792794 * 2 powi ((- 3) - 52))"
    by (rule fl_eval) (simp_all add: round_half_even_def)
  then show ?thesis by simp
qed

lemma price_5:
  "fl (3 / 100) = Finite (1080863910568919 / 36028797018963968)"
proof -
  have "fl (3 / 100) = Finite (of_int 8646911284551352 * 2 powi ((- 6) - 52))"
    by (rule fl_eval) (simp_all add: round_half_even_def)
  then show ?thesis by simp
qed

lemma price_6:
  "fl (25 / 100) = Finite (1 / 4)"
proof -
  have "fl (25 / 100) = Finite (of_int 4503599627370496 * 2 powi ((- 2) - 52))"
    by (rule fl_eval) (simp_all add: round_half_even_def)
  then show ?thesis by simp
qed

lemma price_7:
  "fl (15 / 100) = Finite (5404319552844595 / 36028797018963968)"
proof -
  have "fl (15 / 100) = Finite (of_int 5404319552844595 * 2 powi ((- 3) - 52))"
    by (rule fl_eval) (simp_all add: round_half_even_def)
  then show ?thesis by simp
qed

lemma price_8:
  "fmul (Finite (1126400000000013 / 32)) (Finite (1170935903116329 / 18014398509481984)) = Finite (2342912000000027 / 1024)"
proof -
  have "fl ((1126400000000013 / 32) * (1170935903116329 / 18014398509481984)) = Finite (of_int 4685824000000054 * 2 powi (41 - 52))"
    by (rule fl_eval) (simp_all add: round_half_even_def)
  then show ?thesis by (simp)
qed

lemma price_9:
  "py_round (Finite (2342912000000027 / 1024)) 2 = Inr (Finite (4685824000000061 / 2048))"
proof -
  have r: "round_half_even ((2342912000000027 / 1024) * 10 ^ 2) = 228800000000003"
    by (simp add: round_half_even_def)
  have "fl (of_int 228800000000003 / 10 ^ 2) = Finite (of_int 4685824000000061 * 2 powi (41 - 52))"
    by (rule fl_eval) (simp_all add: round_half_even_def)
  from this r show ?thesis by simp
qed

lemma price_10:
  "fmul (Finite (1126400000000013 / 32)) (Finite (1080863910568919 / 36028797018963968)) = Finite (2162688000000025 / 2048)"
proof -
  have "fl ((1126400000000013 / 32) * (1080863910568919 / 36028797018963968)) = Finite (of_int 8650752000000100 * 2 powi (39 - 52))"
    by (rule fl_eval) (simp_all add: round_half_even_def)
  then show ?thesis by (simp)
qed

lemma price_11:
  "fadd (Finite (2162688000000025 / 2048)) (Finite (1 / 4)) = Finite (2162688000000537 / 2048)"
proof -
  have "fl ((2162688000000025 / 2048) + (1 / 4)) = Finite (of_int 8650752000002148 * 2 powi (39 - 52))"
    by (rule fl_eval) (simp_all add: round_half_even_def)
  then show ?thesis by (simp)
qed

lemma price_12:
  "py_round (Finite (2162688000000537 / 2048)) 2 = Inr (Finite (4325376000001065 / 4096))"
proof -
  have r: "round_half_even ((2162688000000537 / 2048) * 10 ^ 2) = 105600000000026"
    by (simp add: round_half_even_def)
  have "fl (of_int 105600000000026 / 10 ^ 2) = Finite (of_int 8650752000002130 * 2 powi (39 - 52))"
    by (rule fl_eval) (simp_all add: round_half_even_def)
  from this r show ?thesis by simp
qed

lemma price_13:
  "fadd (Finite (4685824000000061 / 2048)) (Finite (3602879701896397 / 18014398509481984)) = Finite (4685824000000471 / 2048)"
proof -
  have "fl ((4685824000000061 / 2048) + (3602879701896397 / 18014398509481984)) = Finite (of_int 4685824000000471 * 2 powi (41 - 52))"
    by (rule fl_eval) (simp_all add: round_half_even_def)
  then show ?thesis by (simp)
qed

lemma price_14:
  "fadd (Finite (4685824000000471 / 2048)) (Finite (4325376000001065 / 4096)) = Finite (1712128000000251 / 512)"
proof -
  have "fl ((4685824000000471 / 2048) + (4325376000001065 / 4096)) = Finite (of_int 6848512000001004 * 2 powi (41 - 52))"
    by (rule fl_eval) (simp_all add: round_half_even_def)
  then show ?thesis by (simp)
qed

lemma price_15:
  "fadd (Finite (1712128000000251 / 512)) (Finite 0) = Finite (1712128000000251 / 512)"
proof -
  have "fl ((1712128000000251 / 512) + 0) = Finite (of_int 6848512000001004 * 2 powi (41 - 52))"
    by (rule fl_eval) (simp_all add: round_half_even_def)
  then show ?thesis by (simp)
qed

lemma price_16:
  "py_round (Finite (1712128000000251 / 512)) 2 = Inr (Finite (1712128000000251 / 512))"
proof -
  have r: "round_half_even ((1712128000000251 / 512) * 10 ^ 2) = 334400000000049"
    by (simp add: round_half_even_def)
  have "fl (of_int 334400000000049 / 10 ^ 2) = Finite (of_int 6848512000001004 * 2 powi (41 - 52))"
    by (rule fl_eval) (simp_all add: round_half_even_def)
  from this r show ?thesis by simp
qed

lemma price_17:
  "fsub (Finite (1126400000000013 / 32)) (Finite (1712128000000251 / 512)) = Finite (4077567999999989 / 128)"
proof -
  have "fl ((1126400000000013 / 32) - (1712128000000251 / 512)) = Finite (of_int 8155135999999978 * 2 powi (44 - 52))"
    by (rule fl_eval) (simp_all add: round_half_even_def)
  then show ?thesis by (simp add: fsub_def)
qed

lemma price_18:
  "py_round (Finite (4077567999999989 / 128)) 2 = Inr (Finite (8155135999999977 / 256))"
proof -
  have r: "round_half_even ((4077567999999989 / 128) * 10 ^ 2) = 3185599999999991"
    by (simp add: round_half_even_def)
  have "fl (of_int 3185599999999991 / 10 ^ 2) = Finite (of_int 8155135999999977 * 2 powi (44 - 52))"
    by (rule fl_eval) (simp_all add: round_half_even_def)
  from this r show ?thesis by simp
qed

lemma price_19:
  "fadd (Finite 0) (Finite 0) = Finite 0"
proof -
  have "fl (0 + 0) = Finite 0"
    by (simp add: fl_def)
  then show ?thesis by (simp)
qed

lemma price_20:
  "py_round (Finite 0) 2 = Inr (Finite 0)"
proof -
  have r: "round_half_even (0 * 10 ^ 2) = 0"
    by (simp add: round_half_even_def)
  have "fl (of_int 0 / 10 ^ 2) = Finite 0"
    by (simp add: fl_def)
  from this r show ?thesis by simp
qed

lemma price_21:
  "fsub (Finite (8155135999999977 / 256)) (Finite 0) = Finite (8155135999999977 / 256)"
proof -
  have "fl ((8155135999999977 / 256) - 0) = Finite (of_int 8155135999999977 * 2 powi (44 - 52))"
    by (rule fl_eval) (simp_all add: round_half_even_def)
  then show ?thesis by (simp add: fsub_def)
qed

lemma price_22:
  "py_round (Finite (8155135999999977 / 256)) 2 = Inr (Finite (8155135999999977 / 256))"
proof -
  have r: "round_half_even ((8155135999999977 / 256) * 10 ^ 2) = 3185599999999991"
    by (simp add: round_half_even_def)
  have "fl (of_int 3185599999999991 / 10 ^ 2) = Finite (of_int 8155135999999977 * 2 powi (44 - 52))"
    by (rule fl_eval) (simp_all add: round_half_even_def)
  from this r show ?thesis by simp
qed

lemma price_23:
  "fdiv (Finite (8155135999999977 / 256)) (Finite (1126400000000013 / 32)) = Inr (Finite (8151515325540481 / 9007199254740992))"
proof -
  have "fl ((8155135999999977 / 256) / (1126400000000013 / 32)) = Finite (of_int 8151515325540481 * 2 powi ((- 1) - 52))"
    by (rule fl_eval) (simp_all add: round_half_even_def)
  then show ?thesis by simp
qed

lemma price_24:
  "fmul (Finite (8151515325540481 / 9007199254740992)) (Finite 100) = Finite (6368371348078501 / 70368744177664)"
proof -
  have "fl ((8151515325540481 / 9007199254740992) * 100) = Finite (of_int 6368371348078501 * 2 powi (6 - 52))"
    by (rule fl_eval) (simp_all add: round_half_even_def)
  then show ?thesis by (simp)
qed

lemma price_25:
  "py_round (Finite (6368371348078501 / 70368744177664)) 1 = Inr (Finite (181 / 2))"
proof -
  have r: "round_half_even ((6368371348078501 / 70368744177664) * 10 ^ 1) = 905"
    by (simp add: round_half_even_def)
  have "fl (of_int 905 / 10 ^ 1) = Finite (of_int 6368371348078592 * 2 powi (6 - 52))"
    by (rule fl_eval) (simp_all add: round_half_even_def)
  from this r show ?thesis by simp
qed

lemma price_26:
  "fmul (Finite (1126400000000013 / 32)) (Finite (5404319552844595 / 36028797018963968)) = Finite (2703360000000031 / 512)"
proof -
  have "fl ((1126400000000013 / 32) * (5404319552844595 / 36028797018963968)) = Finite (of_int 5406720000000062 * 2 powi (42 - 52))"
    by (rule fl_eval) (simp_all add: round_half_even_def)
  then show ?thesis by (simp)
qed

lemma price_27:
  "py_round (Finite (2703360000000031 / 512)) 2 = Inr (Finite (5406720000000061 / 1024))"
proof -
  have r: "round_half_even ((2703360000000031 / 512) * 10 ^ 2) = 528000000000006"
    by (simp add: round_half_even_def)
  have "fl (of_int 528000000000006 / 10 ^ 2) = Finite (of_int 5406720000000061 * 2 powi (42 - 52))"
    by (rule fl_eval) (simp_all add: round_half_even_def)
  from this r show ?thesis by simp
qed

lemma price_28:
  "fadd (Finite (1712128000000251 / 512)) (Finite (5406720000000061 / 1024)) = Finite (8830976000000563 / 1024)"
proof -
  have "fl ((1712128000000251 / 512) + (5406720000000061 / 1024)) = Finite (of_int 8830976000000563 * 2 powi (42 - 52))"
    by (rule fl_eval) (simp_all add: round_half_even_def)
  then show ?thesis by (simp)
qed

lemma price_29:
  "py_round (Finite (8830976000000563 / 1024)) 2 = Inr (Finite (8830976000000563 / 1024))"
proof -
  have r: "round_half_even ((8830976000000563 / 1024) * 10 ^ 2) = 862400000000055"
    by (simp add: round_half_even_def)
  have "fl (of_int 862400000000055 / 10 ^ 2) = Finite (of_int 8830976000000563 * 2 powi (42 - 52))"
    by (rule fl_eval) (simp_all add: round_half_even_def)
  from this r show ?thesis by simp
qed

lemma price_30:
  "fsub (Finite (1126400000000013 / 32)) (Finite (8830976000000563 / 1024)) = Finite (6803455999999963 / 256)"
proof -
  have "fl ((1126400000000013 / 32) - (8830976000000563 / 1024)) = Finite (of_int 6803455999999963 * 2 powi (44 - 52))"
    by (rule fl_eval) (simp_all add: round_half_even_def)
  then show ?thesis by (simp add: fsub_def)
qed

lemma price_31:
  "py_round (Finite (6803455999999963 / 256)) 2 = Inr (Finite (1700863999999991 / 64))"
proof -
  have r: "round_half_even ((6803455999999963 / 256) * 10 ^ 2) = 2657599999999986"
    by (simp add: round_half_even_def)
  have "fl (of_int 2657599999999986 / 10 ^ 2) = Finite (of_int 6803455999999964 * 2 powi (44 - 52))"
    by (rule fl_eval) (simp_all add: round_half_even_def)
  from this r show ?thesis by simp
qed

lemma price_32:
  "fsub (Finite (1700863999999991 / 64)) (Finite 0) = Finite (1700863999999991 / 64)"
proof -
  have "fl ((1700863999999991 / 64) - 0) = Finite (of_int 6803455999999964 * 2 powi (44 - 52))"
    by (rule fl_eval) (simp_all add: round_half_even_def)
  then show ?thesis by (simp add: fsub_def)
qed

lemma price_33:
  "py_round (Finite (1700863999999991 / 64)) 2 = Inr (Finite (1700863999999991 / 64))"
proof -
  have r: "round_half_even ((1700863999999991 / 64) * 10 ^ 2) = 2657599999999986"
    by (simp add: round_half_even_def)
  have "fl (of_int 2657599999999986 / 10 ^ 2) = Finite (of_int 6803455999999964 * 2 powi (44 - 52))"
    by (rule fl_eval) (simp_all add: round_half_even_def)
  from this r show ?thesis by simp
qed

lemma price_34:
  "fdiv (Finite (1700863999999991 / 64)) (Finite (1126400000000013 / 32)) = Inr (Finite (3400217718664667 / 4503599627370496))"
proof -
  have "fl ((1700863999999991 / 64) / (1126400000000013 / 32)) = Finite (of_int 6800435437329334 * 2 powi ((- 1) - 52))"
    by (rule fl_eval) (simp_all add: round_half_even_def)
  then show ?thesis by simp
qed

lemma price_35:
  "fmul (Finite (3400217718664667 / 4503599627370496)) (Finite 100) = Finite (2656420092706771 / 35184372088832)"
proof -
  have "fl ((3400217718664667 / 4503599627370496) * 100) = Finite (of_int 5312840185413542 * 2 powi (6 - 52))"
    by (rule fl_eval) (simp_all add: round_half_even_def)
  then show ?thesis by (simp)
qed

lemma price_36:
  "py_round (Finite (2656420092706771 / 35184372088832)) 1 = Inr (Finite (151 / 2))"
proof -
  have r: "round_half_even ((2656420092706771 / 35184372088832) * 10 ^ 1) = 755"
    by (simp add: round_half_even_def)
  have "fl (of_int 755 / 10 ^ 1) = Finite (of_int 5312840185413632 * 2 powi (6 - 52))"
    by (rule fl_eval) (simp_all add: round_half_even_def)
  from this r show ?thesis by simp
qed

lemma price_37:
  "fl (228800000000003 / 100) = Finite (4685824000000061 / 2048)"
proof -
  have "fl (228800000000003 / 100) = Finite (of_int 4685824000000061 * 2 powi (41 - 52))"
    by (rule fl_eval) (simp_all add: round_half_even_def)
  then show ?thesis by simp
qed

lemma price_38:
  "fl (105600000000026 / 100) = Finite (4325376000001065 / 4096)"
proof -
  have "fl (105600000000026 / 100) = Finite (of_int 8650752000002130 * 2 powi (39 - 52))"
    by (rule fl_eval) (simp_all add: round_half_even_def)
  then show ?thesis by simp
qed

lemma price_39:
  "fl (334400000000049 / 100) = Finite (1712128000000251 / 512)"
proof -
  have "fl (334400000000049 / 100) = Finite (of_int 6848512000001004 * 2 powi (41 - 52))"
    by (rule fl_eval) (simp_all add: round_half_even_def)
  then show ?thesis by simp
qed

lemma price_40:
  "fl (3185599999999991 / 100) = Finite (8155135999999977 / 256)"
proof -
  have "fl (3185599999999991 / 100) = Finite (of_int 8155135999999977 * 2 powi (44 - 52))"
    by (rule fl_eval) (simp_all add: round_half_even_def)
  then show ?thesis by simp
qed

lemma price_41:
  "fl (905 / 10) = Finite (181 / 2)"
proof -
  have "fl (905 / 10) = Finite (of_int 6368371348078592 * 2 powi (6 - 52))"
    by (rule fl_eval) (simp_all add: round_half_even_def)
  then show ?thesis by simp
qed

lemma price_42:
  "fl (862400000000055 / 100) = Finite (8830976000000563 / 1024)"
proof -
  have "fl (862400000000055 / 100) = Finite (of_int 8830976000000563 * 2 powi (42 - 52))"
    by (rule fl_eval) (simp_all add: round_half_even_def)
  then show ?thesis by simp
qed

lemma price_43:
  "fl (2657599999999986 / 100) = Finite (1700863999999991 / 64)"
proof -
  have "fl (2657599999999986 / 100) = Finite (of_int 6803455999999964 * 2 powi (44 - 52))"
    by (rule fl_eval) (simp_all add: round_half_even_def)
  then show ?thesis by simp
qed

lemma price_44:
  "fl (528000000000006 / 100) = Finite (5406720000000061 / 1024)"
proof -
  have "fl (528000000000006 / 100) = Finite (of_int 5406720000000061 * 2 powi (42 - 52))"
    by (rule fl_eval) (simp_all add: round_half_even_def)
  then show ?thesis by simp
qed

lemma price_45:
  "fl (755 / 10) = Finite (151 / 2)"
proof -
  have "fl (755 / 10) = Finite (of_int 5312840185413632 * 2 powi (6 - 52))"
    by (rule fl_eval) (simp_all add: round_half_even_def)
  then show ?thesis by simp
qed

lemma price_46:
  "fsub (Finite (8155135999999977 / 256)) (Finite (1700863999999991 / 64)) = Finite (1351680000000013 / 256)"
proof -
  have "fl ((8155135999999977 / 256) - (1700863999999991 / 64)) = Finite (of_int 5406720000000052 * 2 powi (42 - 52))"
    by (rule fl_eval) (simp_all add: round_half_even_def)
  then show ?thesis by (simp add: fsub_def)
qed

lemma price_47:
  "py_round (Finite (1351680000000013 / 256)) 2 = Inr (Finite (5406720000000051 / 1024))"
proof -
  have r: "round_half_even ((1351680000000013 / 256) * 10 ^ 2) = 528000000000005"
    by (simp add: round_half_even_def)
  have "fl (of_int 528000000000005 / 10 ^ 2) = Finite (of_int 5406720000000051 * 2 powi (42 - 52))"
    by (rule fl_eval) (simp_all add: round_half_even_def)
  from this r show ?thesis by simp
qed

lemma price_48:
  "fl (528000000000005 / 100) = Finite (5406720000000051 / 1024)"
proof -
  have "fl (528000000000005 / 100) = Finite (of_int 5406720000000051 * 2 powi (42 - 52))"
    by (rule fl_eval) (simp_all add: round_half_even_def)
  then show ?thesis by simp
qed

lemmas price_steps = price_1 price_2 price_3 price_4 price_5 price_6 price_7 price_8
  price_9 price_10 price_11 price_12 price_13 price_14 price_15 price_16
  price_17 price_18 price_19 price_20 price_21 price_22 price_23 price_24
  price_25 price_26 price_27 price_28 price_29 price_30 price_31 price_32
  price_33 price_34 price_35 price_36 price_37 price_38 price_39 price_40
  price_41 price_42 price_43 price_44 price_45 price_46 price_47 price_48

lemma price_run_off:
  "calculate_etsy_fees (fl (3520000000000041 / 100)) (fl 0) (fl 0) False =
     Inr \<lparr> fees = \<lparr> transaction_fee = fl (228800000000003 / 100),
                     listing_fee = fl (20 / 100),
                     payment_processing = fl (105600000000026 / 100),
                     offsite_ads = Finite 0,
                     total_fees = fl (334400000000049 / 100) \<rparr>,
           net_revenue = fl (3185599999999991 / 100),
           total_costs = Finite 0,
           profit = fl (3185599999999991 / 100),
           profit_margin = fl (905 / 10) \<rparr>"
  unfolding calculate_etsy_fees_def
  by (simp only: price_steps run_simps) (simp add: bind_err_Inr)

lemma price_run_on:
  "calculate_etsy_fees (fl (3520000000000041 / 100)) (fl 0) (fl 0) True =
     Inr \<lparr> fees = \<lparr> transaction_fee = fl (228800000000003 / 100),
                     listing_fee = fl (20 / 100),
                     payment_processing = fl (105600000000026 / 100),
                     offsite_ads = fl (528000000000006 / 100),
                     total_fees = fl (862400000000055 / 100) \<rparr>,
           net_revenue = fl (2657599999999986 / 100),
           total_costs = Finite 0,
           profit = fl (2657599999999986 / 100),
           profit_margin = fl (755 / 10) \<rparr>"
  unfolding calculate_etsy_fees_def
  by (simp only: price_steps run_simps) (simp add: bind_err_Inr)

lemma price_difference:
  "fsub (fl (3185599999999991 / 100)) (fl (2657599999999986 / 100)) \<noteq> fl (528000000000006 / 100)"
  "py_round (fsub (fl (3185599999999991 / 100)) (fl (2657599999999986 / 100))) 2 = Inr (fl (528000000000005 / 100))"
  "fl (528000000000005 / 100) \<noteq> fl (528000000000006 / 100)"
  by (simp_all only: price_steps) simp_all

subsection \<open>Sale price 1.00, costs 17600000000000.01 and 17600000000000.01\<close>

lemma cost_1:
  "fl (100 / 100) = Finite 1"
proof -
  have "fl (100 / 100) = Finite (of_int 4503599627370496 * 2 powi (0 - 52))"
    by (rule fl_eval) (simp_all add: round_half_even_def)
  then show ?thesis by simp
qed

lemma cost_2:
  "fl (1760000000000001 / 100) = Finite (4505600000000003 / 256)"
proof -
  have "fl (1760000000000001 / 100) = Finite (of_int 4505600000000003 * 2 powi (44 - 52))"
    by (rule fl_eval) (simp_all add: round_half_even_def)
  then show ?thesis by simp
qed

lemma cost_3:
  "fl (65 / 1000) = Finite (1170935903116329 / 18014398509481984)"
proof -
  have "fl (65 / 1000) = Finite (of_int 4683743612465316 * 2 powi ((- 4) - 52))"
    by (rule fl_eval) (simp_all add: round_half_even_def)
  then show ?thesis by simp
qed

lemma cost_4:
  "fl (20 / 100) = Finite (3602879701896397 / 18014398509481984)"
proof -
  have "fl (20 / 100) = Finite (of_int 7205759403792794 * 2 powi ((- 3) - 52))"
    by (rule fl_eval) (simp_all add: round_half_even_def)
  then show ?thesis by simp
qed

lemma cost_5:
  "fl (3 / 100) = Finite (1080863910568919 / 36028797018963968)"
proof -
  have "fl (3 / 100) = Finite (of_int 8646911284551352 * 2 powi ((- 6) - 52))"
    by (rule fl_eval) (simp_all add: round_half_even_def)
  then show ?thesis by simp
qed

lemma cost_6:
  "fl (25 / 100) = Finite (1 / 4)"
proof -
  have "fl (25 / 100) = Finite (of_int 4503599627370496 * 2 powi ((- 2) - 52))"
    by (rule fl_eval) (simp_all add: round_half_even_def)
  then show ?thesis by simp
qed

lemma cost_7:
  "fl (15 / 100) = Finite (5404319552844595 / 36028797018963968)"
proof -
  have "fl (15 / 100) = Finite (of_int 5404319552844595 * 2 powi ((- 3) - 52))"
    by (rule fl_eval) (simp_all add: round_half_even_def)
  then show ?thesis by simp
qed

lemma cost_8:
  "fmul (Finite 1) (Finite (1170935903116329 / 18014398509481984)) = Finite (1170935903116329 / 18014398509481984)"
proof -
  have "fl (1 * (1170935903116329 / 18014398509481984)) = Finite (of_int 4683743612465316 * 2 powi ((- 4) - 52))"
    by (rule fl_eval) (simp_all add: round_half_even_def)
  then show ?thesis by (simp)
qed

lemma cost_9:
  "py_round (Finite (1170935903116329 / 18014398509481984)) 2 = Inr (Finite (1261007895663739 / 18014398509481984))"
proof -
  have r: "round_half_even ((1170935903116329 / 18014398509481984) * 10 ^ 2) = 7"
    by (simp add: round_half_even_def)
  have "fl (of_int 7 / 10 ^ 2) = Finite (of_int 5044031582654956 * 2 powi ((- 4) - 52))"
    by (rule fl_eval) (simp_all add: round_half_even_def)
  from this r show ?thesis by simp
qed

lemma cost_10:
  "fmul (Finite 1) (Finite (1080863910568919 / 36028797018963968)) = Finite (1080863910568919 / 36028797018963968)"
proof -
  have "fl (1 * (1080863910568919 / 36028797018963968)) = Finite (of_int 8646911284551352 * 2 powi ((- 6) - 52))"
    by (rule fl_eval) (simp_all add: round_half_even_def)
  then show ?thesis by (simp)
qed

lemma cost_11:
  "fadd (Finite (1080863910568919 / 36028797018963968)) (Finite (1 / 4)) = Finite (1261007895663739 / 4503599627370496)"
proof -
  have "fl ((1080863910568919 / 36028797018963968) + (1 / 4)) = Finite (of_int 5044031582654956 * 2 powi ((- 2) - 52))"
    by (rule fl_eval) (simp_all add: round_half_even_def)
  then show ?thesis by (simp)
qed

lemma cost_12:
  "py_round (Finite (1261007895663739 / 4503599627370496)) 2 = Inr (Finite (1261007895663739 / 4503599627370496))"
proof -
  have r: "round_half_even ((1261007895663739 / 4503599627370496) * 10 ^ 2) = 28"
    by (simp add: round_half_even_def)
  have "fl (of_int 28 / 10 ^ 2) = Finite (of_int 5044031582654956 * 2 powi ((- 2) - 52))"
    by (rule fl_eval) (simp_all add: round_half_even_def)
  from this r show ?thesis by simp
qed

lemma cost_13:
  "fadd (Finite (1261007895663739 / 18014398509481984)) (Finite (3602879701896397 / 18014398509481984)) = Finite (607985949695017 / 2251799813685248)"
proof -
  have "fl ((1261007895663739 / 18014398509481984) + (3602879701896397 / 18014398509481984)) = Finite (of_int 4863887597560136 * 2 powi ((- 2) - 52))"
    by (rule fl_eval) (simp_all add: round_half_even_def)
  then show ?thesis by (simp)
qed

lemma cost_14:
  "fadd (Finite (607985949695017 / 2251799813685248)) (Finite (1261007895663739 / 4503599627370496)) = Finite (2476979795053773 / 4503599627370496)"
proof -
  have "fl ((607985949695017 / 2251799813685248) + (1261007895663739 / 4503599627370496)) = Finite (of_int 4953959590107546 * 2 powi ((- 1) - 52))"
    by (rule fl_eval) (simp_all add: round_half_even_def)
  then show ?thesis by (simp)
qed

lemma cost_15:
  "fadd (Finite (2476979795053773 / 4503599627370496)) (Finite 0) = Finite (2476979795053773 / 4503599627370496)"
proof -
  have "fl ((2476979795053773 / 4503599627370496) + 0) = Finite (of_int 4953959590107546 * 2 powi ((- 1) - 52))"
    by (rule fl_eval) (simp_all add: round_half_even_def)
  then show ?thesis by (simp)
qed

lemma cost_16:
  "py_round (Finite (2476979795053773 / 4503599627370496)) 2 = Inr (Finite (2476979795053773 / 4503599627370496))"
proof -
  have r: "round_half_even ((2476979795053773 / 4503599627370496) * 10 ^ 2) = 55"
    by (simp add: round_half_even_def)
  have "fl (of_int 55 / 10 ^ 2) = Finite (of_int 4953959590107546 * 2 powi ((- 1) - 52))"
    by (rule fl_eval) (simp_all add: round_half_even_def)
  from this r show ?thesis by simp
qed

lemma cost_17:
  "fsub (Finite 1) (Finite (2476979795053773 / 4503599627370496)) = Finite (2026619832316723 / 4503599627370496)"
proof -
  have "fl (1 - (2476979795053773 / 4503599627370496)) = Finite (of_int 8106479329266892 * 2 powi ((- 2) - 52))"
    by (rule fl_eval) (simp_all add: round_half_even_def)
  then show ?thesis by (simp add: fsub_def)
qed

lemma cost_18:
  "py_round (Finite (2026619832316723 / 4503599627370496)) 2 = Inr (Finite (8106479329266893 / 18014398509481984))"
proof -
  have r: "round_half_even ((2026619832316723 / 4503599627370496) * 10 ^ 2) = 45"
    by (simp add: round_half_even_def)
  have "fl (of_int 45 / 10 ^ 2) = Finite (of_int 8106479329266893 * 2 powi ((- 2) - 52))"
    by (rule fl_eval) (simp_all add: round_half_even_def)
  from this r show ?thesis by simp
qed

lemma cost_19:
  "fadd (Finite (4505600000000003 / 256)) (Finite (4505600000000003 / 256)) = Finite (4505600000000003 / 128)"
proof -
  have "fl ((4505600000000003 / 256) + (4505600000000003 / 256)) = Finite (of_int 4505600000000003 * 2 powi (45 - 52))"
    by (rule fl_eval) (simp_all add: round_half_even_def)
  then show ?thesis by (simp)
qed

lemma cost_20:
  "py_round (Finite (4505600000000003 / 128)) 2 = Inr (Finite (4505600000000003 / 128))"
proof -
  have r: "round_half_even ((4505600000000003 / 128) * 10 ^ 2) = 3520000000000002"
    by (simp add: round_half_even_def)
  have "fl (of_int 3520000000000002 / 10 ^ 2) = Finite (of_int 4505600000000003 * 2 powi (45 - 52))"
    by (rule fl_eval) (simp_all add: round_half_even_def)
  from this r show ?thesis by simp
qed

lemma cost_21:
  "fsub (Finite (8106479329266893 / 18014398509481984)) (Finite (4505600000000003 / 128)) = Finite (- (4505599999999945 / 128))"
proof -
  have "fl ((8106479329266893 / 18014398509481984) - (4505600000000003 / 128)) = Finite (of_int (- 4505599999999945) * 2 powi (45 - 52))"
    by (rule fl_eval) (simp_all add: round_half_even_def)
  then show ?thesis by (simp add: fsub_def)
qed

lemma cost_22:
  "py_round (Finite (- (4505599999999945 / 128))) 2 = Inr (Finite (- (4505599999999945 / 128)))"
proof -
  have r: "round_half_even ((- (4505599999999945 / 128)) * 10 ^ 2) = (- 3519999999999957)"
    by (simp add: round_half_even_def)
  have "fl (of_int (- 3519999999999957) / 10 ^ 2) = Finite (of_int (- 4505599999999945) * 2 powi (45 - 52))"
    by (rule fl_eval) (simp_all add: round_half_even_def)
  from this r show ?thesis by simp
qed

lemma cost_23:
  "fdiv (Finite (- (4505599999999945 / 128))) (Finite 1) = Inr (Finite (- (4505599999999945 / 128)))"
proof -
  have "fl ((- (4505599999999945 / 128)) / 1) = Finite (of_int (- 4505599999999945) * 2 powi (45 - 52))"
    by (rule fl_eval) (simp_all add: round_half_even_def)
  then show ?thesis by simp
qed

lemma cost_24:
  "fmul (Finite (- (4505599999999945 / 128))) (Finite 100) = Finite (- 3519999999999957)"
proof -
  have "fl ((- (4505599999999945 / 128)) * 100) = Finite (of_int (- 7039999999999914) * 2 powi (51 - 52))"
    by (rule fl_eval) (simp_all add: round_half_even_def)
  then show ?thesis by (simp)
qed

lemma cost_25:
  "py_round (Finite (- 3519999999999957)) 1 = Inr (Finite (- 3519999999999957))"
proof -
  have r: "round_half_even ((- 3519999999999957) * 10 ^ 1) = (- 35199999999999570)"
    by (simp add: round_half_even_def)
  have "fl (of_int (- 35199999999999570) / 10 ^ 1) = Finite (of_int (- 7039999999999914) * 2 powi (51 - 52))"
    by (rule fl_eval) (simp_all add: round_half_even_def)
  from this r show ?thesis by simp
qed

lemma cost_26:
  "fmul (Finite 1) (Finite (5404319552844595 / 36028797018963968)) = Finite (5404319552844595 / 36028797018963968)"
proof -
  have "fl (1 * (5404319552844595 / 36028797018963968)) = Finite (of_int 5404319552844595 * 2 powi ((- 3) - 52))"
    by (rule fl_eval) (simp_all add: round_half_even_def)
  then show ?thesis by (simp)
qed

lemma cost_27:
  "py_round (Finite (5404319552844595 / 36028797018963968)) 2 = Inr (Finite (5404319552844595 / 36028797018963968))"
proof -
  have r: "round_half_even ((5404319552844595 / 36028797018963968) * 10 ^ 2) = 15"
    by (simp add: round_half_even_def)
  have "fl (of_int 15 / 10 ^ 2) = Finite (of_int 5404319552844595 * 2 powi ((- 3) - 52))"
    by (rule fl_eval) (simp_all add: round_half_even_def)
  from this r show ?thesis by simp
qed

lemma cost_28:
  "fadd (Finite (2476979795053773 / 4503599627370496)) (Finite (5404319552844595 / 36028797018963968)) = Finite (6305039478318695 / 9007199254740992)"
proof -
  have "fl ((2476979795053773 / 4503599627370496) + (5404319552844595 / 36028797018963968)) = Finite (of_int 6305039478318695 * 2 powi ((- 1) - 52))"
    by (rule fl_eval) (simp_all add: round_half_even_def)
  then show ?thesis by (simp)
qed

lemma cost_29:
  "py_round (Finite (6305039478318695 / 9007199254740992)) 2 = Inr (Finite (3152519739159347 / 4503599627370496))"
proof -
  have r: "round_half_even ((6305039478318695 / 9007199254740992) * 10 ^ 2) = 70"
    by (simp add: round_half_even_def)
  have "fl (of_int 70 / 10 ^ 2) = Finite (of_int 6305039478318694 * 2 powi ((- 1) - 52))"
    by (rule fl_eval) (simp_all add: round_half_even_def)
  from this r show ?thesis by simp
qed

lemma cost_30:
  "fsub (Finite 1) (Finite (3152519739159347 / 4503599627370496)) = Finite (1351079888211149 / 4503599627370496)"
proof -
  have "fl (1 - (3152519739159347 / 4503599627370496)) = Finite (of_int 5404319552844596 * 2 powi ((- 2) - 52))"
    by (rule fl_eval) (simp_all add: round_half_even_def)
  then show ?thesis by (simp add: fsub_def)
qed

lemma cost_31:
  "py_round (Finite (1351079888211149 / 4503599627370496)) 2 = Inr (Finite (5404319552844595 / 18014398509481984))"
proof -
  have r: "round_half_even ((1351079888211149 / 4503599627370496) * 10 ^ 2) = 30"
    by (simp add: round_half_even_def)
  have "fl (of_int 30 / 10 ^ 2) = Finite (of_int 5404319552844595 * 2 powi ((- 2) - 52))"
    by (rule fl_eval) (simp_all add: round_half_even_def)
  from this r show ?thesis by simp
qed

lemma cost_32:
  "fsub (Finite (5404319552844595 / 18014398509481984)) (Finite (4505600000000003 / 128)) = Finite (- (4505599999999965 / 128))"
proof -
  have "fl ((5404319552844595 / 18014398509481984) - (4505600000000003 / 128)) = Finite (of_int (- 4505599999999965) * 2 powi (45 - 52))"
    by (rule fl_eval) (simp_all add: round_half_even_def)
  then show ?thesis by (simp add: fsub_def)
qed

lemma cost_33:
  "py_round (Finite (- (4505599999999965 / 128))) 2 = Inr (Finite (- (4505599999999965 / 128)))"
proof -
  have r: "round_half_even ((- (4505599999999965 / 128)) * 10 ^ 2) = (- 3519999999999973)"
    by (simp add: round_half_even_def)
  have "fl (of_int (- 3519999999999973) / 10 ^ 2) = Finite (of_int (- 4505599999999965) * 2 powi (45 - 52))"
    by (rule fl_eval) (simp_all add: round_half_even_def)
  from this r show ?thesis by simp
qed

lemma cost_34:
  "fdiv (Finite (- (4505599999999965 / 128))) (Finite 1) = Inr (Finite (- (4505599999999965 / 128)))"
proof -
  have "fl ((- (4505599999999965 / 128)) / 1) = Finite (of_int (- 4505599999999965) * 2 powi (45 - 52))"
    by (rule fl_eval) (simp_all add: round_half_even_def)
  then show ?thesis by simp
qed

lemma cost_35:
  "fmul (Finite (- (4505599999999965 / 128))) (Finite 100) = Finite (- (7039999999999945 / 2))"
proof -
  have "fl ((- (4505599999999965 / 128)) * 100) = Finite (of_int (- 7039999999999945) * 2 powi (51 - 52))"
    by (rule fl_eval) (simp_all add: round_half_even_def)
  then show ?thesis by (simp)
qed

lemma cost_36:
  "py_round (Finite (- (7039999999999945 / 2))) 1 = Inr (Finite (- (7039999999999945 / 2)))"
proof -
  have r: "round_half_even ((- (7039999999999945 / 2)) * 10 ^ 1) = (- 35199999999999725)"
    by (simp add: round_half_even_def)
  have "fl (of_int (- 35199999999999725) / 10 ^ 1) = Finite (of_int (- 7039999999999945) * 2 powi (51 - 52))"
    by (rule fl_eval) (simp_all add: round_half_even_def)
  from this r show ?thesis by simp
qed

lemma cost_37:
  "fl (7 / 100) = Finite (1261007895663739 / 18014398509481984)"
proof -
  have "fl (7 / 100) = Finite (of_int 5044031582654956 * 2 powi ((- 4) - 52))"
    by (rule fl_eval) (simp_all add: round_half_even_def)
  then show ?thesis by simp
qed

lemma cost_38:
  "fl (28 / 100) = Finite (1261007895663739 / 4503599627370496)"
proof -
  have "fl (28 / 100) = Finite (of_int 5044031582654956 * 2 powi ((- 2) - 52))"
    by (rule fl_eval) (simp_all add: round_half_even_def)
  then show ?thesis by simp
qed

lemma cost_39:
  "fl (55 / 100) = Finite (2476979795053773 / 4503599627370496)"
proof -
  have "fl (55 / 100) = Finite (of_int 4953959590107546 * 2 powi ((- 1) - 52))"
    by (rule fl_eval) (simp_all add: round_half_even_def)
  then show ?thesis by simp
qed

lemma cost_40:
  "fl (45 / 100) = Finite (8106479329266893 / 18014398509481984)"
proof -
  have "fl (45 / 100) = Finite (of_int 8106479329266893 * 2 powi ((- 2) - 52))"
    by (rule fl_eval) (simp_all add: round_half_even_def)
  then show ?thesis by simp
qed

lemma cost_41:
  "fl (-3519999999999957 / 100) = Finite (- (4505599999999945 / 128))"
proof -
  have "fl (-3519999999999957 / 100) = Finite (of_int (- 4505599999999945) * 2 powi (45 - 52))"
    by (rule fl_eval) (simp_all add: round_half_even_def)
  then show ?thesis by simp
qed

lemma cost_42:
  "fl (3520000000000002 / 100) = Finite (4505600000000003 / 128)"
proof -
  have "fl (3520000000000002 / 100) = Finite (of_int 4505600000000003 * 2 powi (45 - 52))"
    by (rule fl_eval) (simp_all add: round_half_even_def)
  then show ?thesis by simp
qed

lemma cost_43:
  "fl (-35199999999999570 / 10) = Finite (- 3519999999999957)"
proof -
  have "fl (-35199999999999570 / 10) = Finite (of_int (- 7039999999999914) * 2 powi (51 - 52))"
    by (rule fl_eval) (simp_all add: round_half_even_def)
  then show ?thesis by simp
qed

lemma cost_44:
  "fl (70 / 100) = Finite (3152519739159347 / 4503599627370496)"
proof -
  have "fl (70 / 100) = Finite (of_int 6305039478318694 * 2 powi ((- 1) - 52))"
    by (rule fl_eval) (simp_all add: round_half_even_def)
  then show ?thesis by simp
qed

lemma cost_45:
  "fl (30 / 100) = Finite (5404319552844595 / 18014398509481984)"
proof -
  have "fl (30 / 100) = Finite (of_int 5404319552844595 * 2 powi ((- 2) - 52))"
    by (rule fl_eval) (simp_all add: round_half_even_def)
  then show ?thesis by simp
qed

lemma cost_46:
  "fl (-3519999999999973 / 100) = Finite (- (4505599999999965 / 128))"
proof -
  have "fl (-3519999999999973 / 100) = Finite (of_int (- 4505599999999965) * 2 powi (45 - 52))"
    by (rule fl_eval) (simp_all add: round_half_even_def)
  then show ?thesis by simp
qed

lemma cost_47:
  "fl (-35199999999999725 / 10) = Finite (- (7039999999999945 / 2))"
proof -
  have "fl (-35199999999999725 / 10) = Finite (of_int (- 7039999999999945) * 2 powi (51 - 52))"
    by (rule fl_eval) (simp_all add: round_half_even_def)
  then show ?thesis by simp
qed

lemma cost_48:
  "fsub (Finite (- (4505599999999945 / 128))) (Finite (- (4505599999999965 / 128))) = Finite (5 / 32)"
proof -
  have "fl ((- (4505599999999945 / 128)) - (- (4505599999999965 / 128))) = Finite (of_int 5629499534213120 * 2 powi ((- 3) - 52))"
    by (rule fl_eval) (simp_all add: round_half_even_def)
  then show ?thesis by (simp add: fsub_def)
qed

lemma cost_49:
  "py_round (Finite (5 / 32)) 2 = Inr (Finite (5764607523034235 / 36028797018963968))"
proof -
  have r: "round_half_even ((5 / 32) * 10 ^ 2) = 16"
    by (simp add: round_half_even_def)
  have "fl (of_int 16 / 10 ^ 2) = Finite (of_int 5764607523034235 * 2 powi ((- 3) - 52))"
    by (rule fl_eval) (simp_all add: round_half_even_def)
  from this r show ?thesis by simp
qed

lemma cost_50:
  "fl (16 / 100) = Finite (5764607523034235 / 36028797018963968)"
proof -
  have "fl (16 / 100) = Finite (of_int 5764607523034235 * 2 powi ((- 3) - 52))"
    by (rule fl_eval) (simp_all add: round_half_even_def)
  then show ?thesis by simp
qed

lemmas cost_steps = cost_1 cost_2 cost_3 cost_4 cost_5 cost_6 cost_7 cost_8
  cost_9 cost_10 cost_11 cost_12 cost_13 cost_14 cost_15 cost_16
  cost_17 cost_18 cost_19 cost_20 cost_21 cost_22 cost_23 cost_24
  cost_25 cost_26 cost_27 cost_28 cost_29 cost_30 cost_31 cost_32
  cost_33 cost_34 cost_35 cost_36 cost_37 cost_38 cost_39 cost_40
  cost_41 cost_42 cost_43 cost_44 cost_45 cost_46 cost_47 cost_48
  cost_49 cost_50

lemma cost_run_off:
  "calculate_etsy_fees (fl (100 / 100)) (fl (1760000000000001 / 100)) (fl (1760000000000001 / 100)) False =
     Inr \<lparr> fees = \<lparr> transaction_fee = fl (7 / 100),
                     listing_fee = fl (20 / 100),
                     payment_processing = fl (28 / 100),
                     offsite_ads = Finite 0,
                     total_fees = fl (55 / 100) \<rparr>,
           net_revenue = fl (45 / 100),
           total_costs = fl (3520000000000002 / 100),
           profit = fl (- 3519999999999957 / 100),
           profit_margin = fl (- 35199999999999570 / 10) \<rparr>"
  unfolding calculate_etsy_fees_def
  by (simp only: cost_steps run_simps) (simp add: bind_err_Inr)

lemma cost_run_on:
  "calculate_etsy_fees (fl (100 / 100)) (fl (1760000000000001 / 100)) (fl (1760000000000001 / 100)) True =
     Inr \<lparr> fees = \<lparr> transaction_fee = fl (7 / 100),
                     listing_fee = fl (20 / 100),
                     payment_processing = fl (28 / 100),
                     offsite_ads = fl (15 / 100),
                     total_fees = fl (70 / 100) \<rparr>,
           net_revenue = fl (30 / 100),
           total_costs = fl (3520000000000002 / 100),
           profit = fl (- 3519999999999973 / 100),
           profit_margin = fl (- 35199999999999725 / 10) \<rparr>"
  unfolding calculate_etsy_fees_def
  by (simp only: cost_steps run_simps) (simp add: bind_err_Inr)

lemma cost_difference:
  "fsub (fl (- 3519999999999957 / 100)) (fl (- 3519999999999973 / 100)) \<noteq> fl (15 / 100)"
  "py_round (fsub (fl (- 3519999999999957 / 100)) (fl (- 3519999999999973 / 100))) 2 = Inr (fl (16 / 100))"
  "fl (16 / 100) \<noteq> fl (15 / 100)"
  by (simp_all only: cost_steps) simp_all

subsection \<open>Sale price 150000000000000.72, no costs\<close>

lemma total_1:
  "fl (15000000000000072 / 100) = Finite (4800000000000023 / 32)"
proof -
  have "fl (15000000000000072 / 100) = Finite (of_int 4800000000000023 * 2 powi (47 - 52))"
    by (rule fl_eval) (simp_all add: round_half_even_def)
  then show ?thesis by simp
qed

lemma total_2:
  "fl 0 = Finite 0"
proof -
  have "fl 0 = Finite 0"
    by (simp add: fl_def)
  then show ?thesis by simp
qed

lemma total_3:
  "fl (65 / 1000) = Finite (1170935903116329 / 18014398509481984)"
proof -
  have "fl (65 / 1000) = Finite (of_int 4683743612465316 * 2 powi ((- 4) - 52))"
    by (rule fl_eval) (simp_all add: round_half_even_def)
  then show ?thesis by simp
qed

lemma total_4:
  "fl (20 / 100) = Finite (3602879701896397 / 18014398509481984)"
proof -
  have "fl (20 / 100) = Finite (of_int 7205759403792794 * 2 powi ((- 3) - 52))"
    by (rule fl_eval) (simp_all add: round_half_even_def)
  then show ?thesis by simp
qed

lemma total_5:
  "fl (3 / 100) = Finite (1080863910568919 / 36028797018963968)"
proof -
  have "fl (3 / 100) = Finite (of_int 8646911284551352 * 2 powi ((- 6) - 52))"
    by (rule fl_eval) (simp_all add: round_half_even_def)
  then show ?thesis by simp
qed

lemma total_6:
  "fl (25 / 100) = Finite (1 / 4)"
proof -
  have "fl (25 / 100) = Finite (of_int 4503599627370496 * 2 powi ((- 2) - 52))"
    by (rule fl_eval) (simp_all add: round_half_even_def)
  then show ?thesis by simp
qed

lemma total_7:
  "fl (15 / 100) = Finite (5404319552844595 / 36028797018963968)"
proof -
  have "fl (15 / 100) = Finite (of_int 5404319552844595 * 2 powi ((- 3) - 52))"
    by (rule fl_eval) (simp_all add: round_half_even_def)
  then show ?thesis by simp
qed

lemma total_8:
  "fmul (Finite (4800000000000023 / 32)) (Finite (1170935903116329 / 18014398509481984)) = Finite (624000000000003 / 64)"
proof -
  have "fl ((4800000000000023 / 32) * (1170935903116329 / 18014398509481984)) = Finite (of_int 4992000000000024 * 2 powi (43 - 52))"
    by (rule fl_eval) (simp_all add: round_half_even_def)
  then show ?thesis by (simp)
qed

lemma total_9:
  "py_round (Finite (624000000000003 / 64)) 2 = Inr (Finite (2496000000000013 / 256))"
proof -
  have r: "round_half_even ((624000000000003 / 64) * 10 ^ 2) = 975000000000005"
    by (simp add: round_half_even_def)
  have "fl (of_int 975000000000005 / 10 ^ 2) = Finite (of_int 4992000000000026 * 2 powi (43 - 52))"
    by (rule fl_eval) (simp_all add: round_half_even_def)
  from this r show ?thesis by simp
qed

lemma total_10:
  "fmul (Finite (4800000000000023 / 32)) (Finite (1080863910568919 / 36028797018963968)) = Finite (2304000000000011 / 512)"
proof -
  have "fl ((4800000000000023 / 32) * (1080863910568919 / 36028797018963968)) = Finite (of_int 4608000000000022 * 2 powi (42 - 52))"
    by (rule fl_eval) (simp_all add: round_half_even_def)
  then show ?thesis by (simp)
qed

lemma total_11:
  "fadd (Finite (2304000000000011 / 512)) (Finite (1 / 4)) = Finite (2304000000000139 / 512)"
proof -
  have "fl ((2304000000000011 / 512) + (1 / 4)) = Finite (of_int 4608000000000278 * 2 powi (42 - 52))"
    by (rule fl_eval) (simp_all add: round_half_even_def)
  then show ?thesis by (simp)
qed

lemma total_12:
  "py_round (Finite (2304000000000139 / 512)) 2 = Inr (Finite (1152000000000069 / 256))"
proof -
  have r: "round_half_even ((2304000000000139 / 512) * 10 ^ 2) = 450000000000027"
    by (simp add: round_half_even_def)
  have "fl (of_int 450000000000027 / 10 ^ 2) = Finite (of_int 4608000000000276 * 2 powi (42 - 52))"
    by (rule fl_eval) (simp_all add: round_half_even_def)
  from this r show ?thesis by simp
qed

lemma total_13:
  "fadd (Finite (2496000000000013 / 256)) (Finite (3602879701896397 / 18014398509481984)) = Finite (39000000000001 / 4)"
proof -
  have "fl ((2496000000000013 / 256) + (3602879701896397 / 18014398509481984)) = Finite (of_int 4992000000000128 * 2 powi (43 - 52))"
    by (rule fl_eval) (simp_all add: round_half_even_def)
  then show ?thesis by (simp)
qed

lemma total_14:
  "fadd (Finite (39000000000001 / 4)) (Finite (1152000000000069 / 256)) = Finite (3648000000000133 / 256)"
proof -
  have "fl ((39000000000001 / 4) + (1152000000000069 / 256)) = Finite (of_int 7296000000000266 * 2 powi (43 - 52))"
    by (rule fl_eval) (simp_all add: round_half_even_def)
  then show ?thesis by (simp)
qed

lemma total_15:
  "fadd (Finite (3648000000000133 / 256)) (Finite 0) = Finite (3648000000000133 / 256)"
proof -
  have "fl ((3648000000000133 / 256) + 0) = Finite (of_int 7296000000000266 * 2 powi (43 - 52))"
    by (rule fl_eval) (simp_all add: round_half_even_def)
  then show ?thesis by (simp)
qed

lemma total_16:
  "py_round (Finite (3648000000000133 / 256)) 2 = Inr (Finite (3648000000000133 / 256))"
proof -
  have r: "round_half_even ((3648000000000133 / 256) * 10 ^ 2) = 1425000000000052"
    by (simp add: round_half_even_def)
  have "fl (of_int 1425000000000052 / 10 ^ 2) = Finite (of_int 7296000000000266 * 2 powi (43 - 52))"
    by (rule fl_eval) (simp_all add: round_half_even_def)
  from this r show ?thesis by simp
qed

lemma total_17:
  "fsub (Finite (4800000000000023 / 32)) (Finite (3648000000000133 / 256)) = Finite (8688000000000013 / 64)"
proof -
  have "fl ((4800000000000023 / 32) - (3648000000000133 / 256)) = Finite (of_int 8688000000000013 * 2 powi (46 - 52))"
    by (rule fl_eval) (simp_all add: round_half_even_def)
  then show ?thesis by (simp add: fsub_def)
qed

lemma total_18:
  "py_round (Finite (8688000000000013 / 64)) 2 = Inr (Finite (8688000000000013 / 64))"
proof -
  have r: "round_half_even ((8688000000000013 / 64) * 10 ^ 2) = 13575000000000020"
    by (simp add: round_half_even_def)
  have "fl (of_int 13575000000000020 / 10 ^ 2) = Finite (of_int 8688000000000013 * 2 powi (46 - 52))"
    by (rule fl_eval) (simp_all add: round_half_even_def)
  from this r show ?thesis by simp
qed

lemma total_19:
  "fadd (Finite 0) (Finite 0) = Finite 0"
proof -
  have "fl (0 + 0) = Finite 0"
    by (simp add: fl_def)
  then show ?thesis by (simp)
qed

lemma total_20:
  "py_round (Finite 0) 2 = Inr (Finite 0)"
proof -
  have r: "round_half_even (0 * 10 ^ 2) = 0"
    by (simp add: round_half_even_def)
  have "fl (of_int 0 / 10 ^ 2) = Finite 0"
    by (simp add: fl_def)
  from this r show ?thesis by simp
qed

lemma total_21:
  "fsub (Finite (8688000000000013 / 64)) (Finite 0) = Finite (8688000000000013 / 64)"
proof -
  have "fl ((8688000000000013 / 64) - 0) = Finite (of_int 8688000000000013 * 2 powi (46 - 52))"
    by (rule fl_eval) (simp_all add: round_half_even_def)
  then show ?thesis by (simp add: fsub_def)
qed

lemma total_22:
  "fdiv (Finite (8688000000000013 / 64)) (Finite (4800000000000023 / 32)) = Inr (Finite (8151515325540571 / 9007199254740992))"
proof -
  have "fl ((8688000000000013 / 64) / (4800000000000023 / 32)) = Finite (of_int 8151515325540571 * 2 powi ((- 1) - 52))"
    by (rule fl_eval) (simp_all add: round_half_even_def)
  then show ?thesis by simp
qed

lemma total_23:
  "fmul (Finite (8151515325540571 / 9007199254740992)) (Finite 100) = Finite (6368371348078571 / 70368744177664)"
proof -
  have "fl ((8151515325540571 / 9007199254740992) * 100) = Finite (of_int 6368371348078571 * 2 powi (6 - 52))"
    by (rule fl_eval) (simp_all add: round_half_even_def)
  then show ?thesis by (simp)
qed

lemma total_24:
  "py_round (Finite (6368371348078571 / 70368744177664)) 1 = Inr (Finite (181 / 2))"
proof -
  have r: "round_half_even ((6368371348078571 / 70368744177664) * 10 ^ 1) = 905"
    by (simp add: round_half_even_def)
  have "fl (of_int 905 / 10 ^ 1) = Finite (of_int 6368371348078592 * 2 powi (6 - 52))"
    by (rule fl_eval) (simp_all add: round_half_even_def)
  from this r show ?thesis by simp
qed

lemma total_25:
  "fmul (Finite (4800000000000023 / 32)) (Finite (5404319552844595 / 36028797018963968)) = Finite (5760000000000027 / 256)"
proof -
  have "fl ((4800000000000023 / 32) * (5404319552844595 / 36028797018963968)) = Finite (of_int 5760000000000027 * 2 powi (44 - 52))"
    by (rule fl_eval) (simp_all add: round_half_even_def)
  then show ?thesis by (simp)
qed

lemma total_26:
  "py_round (Finite (5760000000000027 / 256)) 2 = Inr (Finite (1440000000000007 / 64))"
proof -
  have r: "round_half_even ((5760000000000027 / 256) * 10 ^ 2) = 2250000000000011"
    by (simp add: round_half_even_def)
  have "fl (of_int 2250000000000011 / 10 ^ 2) = Finite (of_int 5760000000000028 * 2 powi (44 - 52))"
    by (rule fl_eval) (simp_all add: round_half_even_def)
  from this r show ?thesis by simp
qed

lemma total_27:
  "fadd (Finite (3648000000000133 / 256)) (Finite (1440000000000007 / 64)) = Finite (294000000000005 / 8)"
proof -
  have "fl ((3648000000000133 / 256) + (1440000000000007 / 64)) = Finite (of_int 4704000000000080 * 2 powi (45 - 52))"
    by (rule fl_eval) (simp_all add: round_half_even_def)
  then show ?thesis by (simp)
qed

lemma total_28:
  "py_round (Finite (294000000000005 / 8)) 2 = Inr (Finite (4704000000000079 / 128))"
proof -
  have r: "round_half_even ((294000000000005 / 8) * 10 ^ 2) = 3675000000000062"
    by (simp add: round_half_even_def)
  have "fl (of_int 3675000000000062 / 10 ^ 2) = Finite (of_int 4704000000000079 * 2 powi (45 - 52))"
    by (rule fl_eval) (simp_all add: round_half_even_def)
  from this r show ?thesis by simp
qed

lemma total_29:
  "fsub (Finite (4800000000000023 / 32)) (Finite (4704000000000079 / 128)) = Finite (3624000000000003 / 32)"
proof -
  have "fl ((4800000000000023 / 32) - (4704000000000079 / 128)) = Finite (of_int 7248000000000006 * 2 powi (46 - 52))"
    by (rule fl_eval) (simp_all add: round_half_even_def)
  then show ?thesis by (simp add: fsub_def)
qed

lemma total_30:
  "py_round (Finite (3624000000000003 / 32)) 2 = Inr (Finite (3624000000000003 / 32))"
proof -
  have r: "round_half_even ((3624000000000003 / 32) * 10 ^ 2) = 11325000000000009"
    by (simp add: round_half_even_def)
  have "fl (of_int 11325000000000009 / 10 ^ 2) = Finite (of_int 7248000000000006 * 2 powi (46 - 52))"
    by (rule fl_eval) (simp_all add: round_half_even_def)
  from this r show ?thesis by simp
qed

lemma total_31:
  "fsub (Finite (3624000000000003 / 32)) (Finite 0) = Finite (3624000000000003 / 32)"
proof -
  have "fl ((3624000000000003 / 32) - 0) = Finite (of_int 7248000000000006 * 2 powi (46 - 52))"
    by (rule fl_eval) (simp_all add: round_half_even_def)
  then show ?thesis by (simp add: fsub_def)
qed

lemma total_32:
  "fdiv (Finite (3624000000000003 / 32)) (Finite (4800000000000023 / 32)) = Inr (Finite (3400217718664711 / 4503599627370496))"
proof -
  have "fl ((3624000000000003 / 32) / (4800000000000023 / 32)) = Finite (of_int 6800435437329422 * 2 powi ((- 1) - 52))"
    by (rule fl_eval) (simp_all add: round_half_even_def)
  then show ?thesis by simp
qed

lemma total_33:
  "fmul (Finite (3400217718664711 / 4503599627370496)) (Finite 100) = Finite (5312840185413611 / 70368744177664)"
proof -
  have "fl ((3400217718664711 / 4503599627370496) * 100) = Finite (of_int 5312840185413611 * 2 powi (6 - 52))"
    by (rule fl_eval) (simp_all add: round_half_even_def)
  then show ?thesis by (simp)
qed

lemma total_34:
  "py_round (Finite (5312840185413611 / 70368744177664)) 1 = Inr (Finite (151 / 2))"
proof -
  have r: "round_half_even ((5312840185413611 / 70368744177664) * 10 ^ 1) = 755"
    by (simp add: round_half_even_def)
  have "fl (of_int 755 / 10 ^ 1) = Finite (of_int 5312840185413632 * 2 powi (6 - 52))"
    by (rule fl_eval) (simp_all add: round_half_even_def)
  from this r show ?thesis by simp
qed

lemma total_35:
  "fl (975000000000005 / 100) = Finite (2496000000000013 / 256)"
proof -
  have "fl (975000000000005 / 100) = Finite (of_int 4992000000000026 * 2 powi (43 - 52))"
    by (rule fl_eval) (simp_all add: round_half_even_def)
  then show ?thesis by simp
qed

lemma total_36:
  "fl (450000000000027 / 100) = Finite (1152000000000069 / 256)"
proof -
  have "fl (450000000000027 / 100) = Finite (of_int 4608000000000276 * 2 powi (42 - 52))"
    by (rule fl_eval) (simp_all add: round_half_even_def)
  then show ?thesis by simp
qed

lemma total_37:
  "fl (1425000000000052 / 100) = Finite (3648000000000133 / 256)"
proof -
  have "fl (1425000000000052 / 100) = Finite (of_int 7296000000000266 * 2 powi (43 - 52))"
    by (rule fl_eval) (simp_all add: round_half_even_def)
  then show ?thesis by simp
qed

lemma total_38:
  "fl (13575000000000020 / 100) = Finite (8688000000000013 / 64)"
proof -
  have "fl (13575000000000020 / 100) = Finite (of_int 8688000000000013 * 2 powi (46 - 52))"
    by (rule fl_eval) (simp_all add: round_half_even_def)
  then show ?thesis by simp
qed

lemma total_39:
  "fl (905 / 10) = Finite (181 / 2)"
proof -
  have "fl (905 / 10) = Finite (of_int 6368371348078592 * 2 powi (6 - 52))"
    by (rule fl_eval) (simp_all add: round_half_even_def)
  then show ?thesis by simp
qed

lemma total_40:
  "fl (3675000000000062 / 100) = Finite (4704000000000079 / 128)"
proof -
  have "fl (3675000000000062 / 100) = Finite (of_int 4704000000000079 * 2 powi (45 - 52))"
    by (rule fl_eval) (simp_all add: round_half_even_def)
  then show ?thesis by simp
qed

lemma total_41:
  "fl (11325000000000009 / 100) = Finite (3624000000000003 / 32)"
proof -
  have "fl (11325000000000009 / 100) = Finite (of_int 7248000000000006 * 2 powi (46 - 52))"
    by (rule fl_eval) (simp_all add: round_half_even_def)
  then show ?thesis by simp
qed

lemma total_42:
  "fl (2250000000000011 / 100) = Finite (1440000000000007 / 64)"
proof -
  have "fl (2250000000000011 / 100) = Finite (of_int 5760000000000028 * 2 powi (44 - 52))"
    by (rule fl_eval) (simp_all add: round_half_even_def)
  then show ?thesis by simp
qed

lemma total_43:
  "fl (755 / 10) = Finite (151 / 2)"
proof -
  have "fl (755 / 10) = Finite (of_int 5312840185413632 * 2 powi (6 - 52))"
    by (rule fl_eval) (simp_all add: round_half_even_def)
  then show ?thesis by simp
qed

lemma total_44:
  "fsub (Finite (4704000000000079 / 128)) (Finite (3648000000000133 / 256)) = Finite (5760000000000025 / 256)"
proof -
  have "fl ((4704000000000079 / 128) - (3648000000000133 / 256)) = Finite (of_int 5760000000000025 * 2 powi (44 - 52))"
    by (rule fl_eval) (simp_all add: round_half_even_def)
  then show ?thesis by (simp add: fsub_def)
qed

lemma total_45:
  "py_round (Finite (5760000000000025 / 256)) 2 = Inr (Finite (2880000000000013 / 128))"
proof -
  have r: "round_half_even ((5760000000000025 / 256) * 10 ^ 2) = 2250000000000010"
    by (simp add: round_half_even_def)
  have "fl (of_int 2250000000000010 / 10 ^ 2) = Finite (of_int 5760000000000026 * 2 powi (44 - 52))"
    by (rule fl_eval) (simp_all add: round_half_even_def)
  from this r show ?thesis by simp
qed

lemma total_46:
  "fl (2250000000000010 / 100) = Finite (2880000000000013 / 128)"
proof -
  have "fl (2250000000000010 / 100) = Finite (of_int 5760000000000026 * 2 powi (44 - 52))"
    by (rule fl_eval) (simp_all add: round_half_even_def)
  then show ?thesis by simp
qed

lemmas total_steps = total_1 total_2 total_3 total_4 total_5 total_6 total_7 total_8
  total_9 total_10 total_11 total_12 total_13 total_14 total_15 total_16
  total_17 total_18 total_19 total_20 total_21 total_22 total_23 total_24
  total_25 total_26 total_27 total_28 total_29 total_30 total_31 total_32
  total_33 total_34 total_35 total_36 total_37 total_38 total_39 total_40
  total_41 total_42 total_43 total_44 total_45 total_46

lemma total_run_off:
  "calculate_etsy_fees (fl (15000000000000072 / 100)) (fl 0) (fl 0) False =
     Inr \<lparr> fees = \<lparr> transaction_fee = fl (975000000000005 / 100),
                     listing_fee = fl (20 / 100),
                     payment_processing = fl (450000000000027 / 100),
                     offsite_ads = Finite 0,
                     total_fees = fl (1425000000000052 / 100) \<rparr>,
           net_revenue = fl (13575000000000020 / 100),
           total_costs = Finite 0,
           profit = fl (13575000000000020 / 100),
           profit_margin = fl (905 / 10) \<rparr>"
  unfolding calculate_etsy_fees_def
  by (simp only: total_steps run_simps) (simp add: bind_err_Inr)

lemma total_run_on:
  "calculate_etsy_fees (fl (15000000000000072 / 100)) (fl 0) (fl 0) True =
     Inr \<lparr> fees = \<lparr> transaction_fee = fl (975000000000005 / 100),
                     listing_fee = fl (20 / 100),
                     payment_processing = fl (450000000000027 / 100),
                     offsite_ads = fl (2250000000000011 / 100),
                     total_fees = fl (3675000000000062 / 100) \<rparr>,
           net_revenue = fl (11325000000000009 / 100),
           total_costs = Finite 0,
           profit = fl (11325000000000009 / 100),
           profit_margin = fl (755 / 10) \<rparr>"
  unfolding calculate_etsy_fees_def
  by (simp only: total_steps run_simps) (simp add: bind_err_Inr)

lemma total_difference:
  "fsub (fl (3675000000000062 / 100)) (fl (1425000000000052 / 100)) \<noteq> fl (2250000000000011 / 100)"
  "py_round (fsub (fl (3675000000000062 / 100)) (fl (1425000000000052 / 100))) 2 = Inr (fl (2250000000000010 / 100))"
  "fl (2250000000000010 / 100) \<noteq> fl (2250000000000011 / 100)"
  by (simp_all only: total_steps) simp_all

subsection \<open>Sale price 9999999999999.99\<close>

lemma bound_1:
  "fl (999999999999999 / 100) = Finite (5119999999999995 / 512)"
proof -
  have "fl (999999999999999 / 100) = Finite (of_int 5119999999999995 * 2 powi (43 - 52))"
    by (rule fl_eval) (simp_all add: round_half_even_def)
  then show ?thesis by simp
qed

section \<open>Properties of the fee calculator\<close>

text \<open>
  Claim C1, amended. For sale price 29.99, production cost 12.0, shipping cost 4.0 and
  no offsite ads, \<open>calculate_etsy_fees\<close> returns transaction fee 1.95, listing fee
  0.20, payment processing 1.15, offsite ads fee 0.0, total fees 3.30, net revenue
  26.69, total costs 16.00, profit 10.69 and profit margin 35.6 (10.69 / 29.99 is
  35.645 percent).
\<close>

theorem calculate_etsy_fees_example:
  "calculate_etsy_fees (fl (2999 / 100)) (fl 12) (fl 4) False =
     Inr \<lparr> fees = \<lparr> transaction_fee = fl (195 / 100),
                     listing_fee = fl (20 / 100),
                     payment_processing = fl (115 / 100),
                     offsite_ads = Finite 0,
                     total_fees = fl (330 / 100) \<rparr>,
           net_revenue = fl (2669 / 100),
           total_costs = fl 16,
           profit = fl (1069 / 100),
           profit_margin = fl (356 / 10) \<rparr>"
  by (rule example_run)

text \<open>
  The profit margin of this run is not 35.7: the result differs from the breakdown with
  margin 35.7, and the margin returned, the float 35.6, is more than 0.09 away from 35.7.
\<close>

theorem calculate_etsy_fees_example_counterexample:
  "calculate_etsy_fees (fl (2999 / 100)) (fl 12) (fl 4) False \<noteq>
     Inr \<lparr> fees = \<lparr> transaction_fee = fl (195 / 100),
                     listing_fee = fl (20 / 100),
                     payment_processing = fl (115 / 100),
                     offsite_ads = Finite 0,
                     total_fees = fl (330 / 100) \<rparr>,
           net_revenue = fl (2669 / 100),
           total_costs = fl 16,
           profit = fl (1069 / 100),
           profit_margin = fl (357 / 10) \<rparr>
   \<and> fl (356 / 10) = Finite (5010254585449677 / 140737488355328)
   \<and> \<bar>5010254585449677 / 140737488355328 - 357 / 10\<bar> > (9 / 100 :: real)"
proof -
  have "fl (356 / 10) = Finite (5010254585449677 / 140737488355328)"
    by (simp only: eval_steps)
  moreover have "\<bar>5010254585449677 / 140737488355328 - 357 / 10\<bar> > (9 / 100 :: real)"
    by simp
  ultimately show ?thesis
    using margin_values by (simp add: example_run)
qed

text \<open>
  Claim C2, amended. For a sale price above 0 and at most 10,000,000,000,000 both calls
  return, whatever the costs; with offsite ads the fee is \<open>round(sale_price * 0.15, 2)\<close>,
  a whole number \<open>A\<close> of cents, and the total fees go from \<open>T\<close> cents to \<open>T + A\<close>
  cents; and when moreover the sale price is a whole number of cents and each cost is
  between 0 and 10,000,000,000,000, the profit goes from \<open>P\<close> cents to \<open>P - A\<close> cents.
  Amounts are compared as numbers of cents: each value is the float nearest to that
  many cents, and in this range different numbers of cents are different floats
  (\<open>cents_inj\<close>).
\<close>

theorem offsite_ads_in_cents:
  assumes s: "0 < s" "s \<le> 10000000000000"
  shows "\<exists>r_off r_on T A.
           calculate_etsy_fees (Finite s) production_cost shipping_cost False = Inr r_off
         \<and> calculate_etsy_fees (Finite s) production_cost shipping_cost True = Inr r_on
         \<and> py_round (fmul (Finite s) (fl (15 / 100))) 2 = Inr (cents A)
         \<and> 0 \<le> A
         \<and> offsite_ads (fees r_off) = Finite 0
         \<and> offsite_ads (fees r_on) = cents A
         \<and> total_fees (fees r_off) = cents T
         \<and> total_fees (fees r_on) = cents (T + A)
         \<and> (\<forall>k c1 c2.
                Finite s = cents k
                \<and> production_cost = Finite c1 \<and> 0 \<le> c1 \<and> c1 \<le> 10000000000000
                \<and> shipping_cost = Finite c2 \<and> 0 \<le> c2 \<and> c2 \<le> 10000000000000 \<longrightarrow>
                (\<exists>P. profit r_off = cents P \<and> profit r_on = cents (P - A)))"
proof -
  obtain t where t: "py_round (fmul (Finite s) (fl (65 / 1000))) 2 = Inr (cents t)"
    "0 \<le> t" "t \<le> 65100000000000"
    using round2_transaction [OF s] by blast
  obtain p where p: "py_round (fadd (fmul (Finite s) (fl (3 / 100))) (fl (25 / 100))) 2
      = Inr (cents p)" "0 \<le> p" "p \<le> 30100000000100"
    using round2_payment [OF s] by blast
  obtain a where a: "py_round (fmul (Finite s) (fl (15 / 100))) 2 = Inr (cents a)"
    "0 \<le> a" "a \<le> 150100000000000"
    using round2_offsite_ads [OF s] by blast
  define T where "T = t + 20 + p"
  have Tb: "0 \<le> T" "T \<le> 95200000000120" using t(2,3) p(2,3) unfolding T_def by linarith+
  have tot_off: "py_round (fadd (fadd (fadd (cents t) (cents 20)) (cents p)) (Finite 0)) 2
      = Inr (cents T)"
    unfolding T_def using t(2,3) p(2,3) by (rule total_fees_off)
  have tot_on: "py_round (fadd (fadd (fadd (cents t) (cents 20)) (cents p)) (cents a)) 2
      = Inr (cents (T + a))"
    unfolding T_def using t(2,3) p(2,3) a(2,3) by (rule total_fees_on)
  obtain n_off where n_off: "py_round (fsub (Finite s) (cents T)) 2 = Inr n_off"
    using py_round_fsub_ok by blast
  obtain n_on where n_on: "py_round (fsub (Finite s) (cents (T + a))) 2 = Inr n_on"
    using py_round_fsub_ok by blast
  obtain tc where tc: "py_round (fadd production_cost shipping_cost) 2 = Inr tc"
    using py_round_fadd_ok by blast
  obtain q_off where q_off: "py_round (fsub n_off tc) 2 = Inr q_off"
    using py_round_fsub_ok by blast
  obtain q_on where q_on: "py_round (fsub n_on tc) 2 = Inr q_on"
    using py_round_fsub_ok by blast
  obtain m_off where m_off: "(if fgt (Finite s) (Finite 0)
        then bind_err (fdiv q_off (Finite s)) (\<lambda>ratio. py_round (fmul ratio (Finite 100)) 1)
        else Inr (Finite 0)) = Inr m_off"
    using profit_margin_ok by blast
  obtain m_on where m_on: "(if fgt (Finite s) (Finite 0)
        then bind_err (fdiv q_on (Finite s)) (\<lambda>ratio. py_round (fmul ratio (Finite 100)) 1)
        else Inr (Finite 0)) = Inr m_on"
    using profit_margin_ok by blast
  have off: "calculate_etsy_fees (Finite s) production_cost shipping_cost False =
      Inr \<lparr> fees = \<lparr> transaction_fee = cents t, listing_fee = cents 20,
                      payment_processing = cents p, offsite_ads = Finite 0,
                      total_fees = cents T \<rparr>,
            net_revenue = n_off, total_costs = tc,
            profit = q_off, profit_margin = m_off \<rparr>"
    unfolding calculate_etsy_fees_def
    by (simp only: t(1) p(1) cents_20 if_False tot_off n_off tc q_off m_off
        bind_err_Inr Let_def)
  have on: "calculate_etsy_fees (Finite s) production_cost shipping_cost True =
      Inr \<lparr> fees = \<lparr> transaction_fee = cents t, listing_fee = cents 20,
                      payment_processing = cents p, offsite_ads = cents a,
                      total_fees = cents (T + a) \<rparr>,
            net_revenue = n_on, total_costs = tc,
            profit = q_on, profit_margin = m_on \<rparr>"
    unfolding calculate_etsy_fees_def
    by (simp only: t(1) p(1) a(1) cents_20 if_True tot_on n_on tc q_on m_on
        bind_err_Inr Let_def)
  have pr: "\<forall>k c1 c2.
      Finite s = cents k
      \<and> production_cost = Finite c1 \<and> 0 \<le> c1 \<and> c1 \<le> 10000000000000
      \<and> shipping_cost = Finite c2 \<and> 0 \<le> c2 \<and> c2 \<le> 10000000000000 \<longrightarrow>
      (\<exists>P. q_off = cents P \<and> q_on = cents (P - a))"
  proof (intro allI impI)
    fix k c1 c2
    assume h: "Finite s = cents k
      \<and> production_cost = Finite c1 \<and> 0 \<le> c1 \<and> c1 \<le> 10000000000000
      \<and> shipping_cost = Finite c2 \<and> 0 \<le> c2 \<and> c2 \<le> 10000000000000"
    then have k: "Finite s = cents k" by simp
    from h have c1: "0 \<le> c1" "c1 \<le> 10000000000000" by simp_all
    from h have c2: "0 \<le> c2" "c2 \<le> 10000000000000" by simp_all
    obtain c where c: "py_round (fadd (Finite c1) (Finite c2)) 2 = Inr (cents c)"
      "0 \<le> c" "c \<le> 2000000000000100"
      using round2_costs [OF c1 c2] by blast
    have tcc: "tc = cents c" using tc c(1) h by simp
    have kb: "1 \<le> k" "k \<le> 1000000000000000" using cents_bound [OF k s] by simp_all
    have "py_round (fsub (cents k) (cents T)) 2 = Inr (cents (k - T))"
      using kb Tb by (intro net_revenue_cents) linarith+
    with n_off have 1: "n_off = cents (k - T)" by (simp add: k)
    have "py_round (fsub (cents k) (cents (T + a))) 2 = Inr (cents (k - (T + a)))"
      using kb Tb a(2,3) by (intro net_revenue_cents) linarith+
    with n_on have 2: "n_on = cents (k - (T + a))" by (simp add: k)
    have "py_round (fsub (cents (k - T)) (cents c)) 2 = Inr (cents (k - T - c))"
      using kb Tb c(2,3) by (intro profit_cents) linarith+
    with q_off have 3: "q_off = cents (k - T - c)" by (simp add: 1 tcc)
    have "py_round (fsub (cents (k - (T + a))) (cents c)) 2 = Inr (cents (k - (T + a) - c))"
      using kb Tb c(2,3) a(2,3) by (intro profit_cents) linarith+
    with q_on have 4: "q_on = cents (k - (T + a) - c)" by (simp add: 2 tcc)
    have "k - (T + a) - c = (k - T - c) - a" by simp
    with 3 4 show "\<exists>P. q_off = cents P \<and> q_on = cents (P - a)" by auto
  qed
  show ?thesis
    apply (rule exI [of _ "\<lparr> fees = \<lparr> transaction_fee = cents t, listing_fee = cents 20,
                      payment_processing = cents p, offsite_ads = Finite 0,
                      total_fees = cents T \<rparr>,
            net_revenue = n_off, total_costs = tc,
            profit = q_off, profit_margin = m_off \<rparr>"])
    apply (rule exI [of _ "\<lparr> fees = \<lparr> transaction_fee = cents t, listing_fee = cents 20,
                      payment_processing = cents p, offsite_ads = cents a,
                      total_fees = cents (T + a) \<rparr>,
            net_revenue = n_on, total_costs = tc,
            profit = q_on, profit_margin = m_on \<rparr>"])
    apply (rule exI [of _ T])
    apply (rule exI [of _ a])
    apply (intro conjI)
    apply (rule off)
    apply (rule on)
    apply (rule a(1))
    apply (rule a(2))
    apply (simp_all only: FeeCalculationResponse.simps FeeBreakdown.simps)
    apply (rule pr)
    done
qed

text \<open>
  The theorem at sale price 29.99 (2999 cents) with costs 12 and 4, and at sale price
  9,999,999,999,999.99 with both costs 10,000,000,000,000.
\<close>

theorem offsite_ads_in_cents_witness:
  "(0::real) < 8441434551552573 / 281474976710656
   \<and> (8441434551552573 / 281474976710656 :: real) \<le> 10000000000000
   \<and> Finite (8441434551552573 / 281474976710656) = cents 2999
   \<and> (\<exists>r_off r_on T A P.
         calculate_etsy_fees (cents 2999) (Finite 12) (Finite 4) False = Inr r_off
       \<and> calculate_etsy_fees (cents 2999) (Finite 12) (Finite 4) True = Inr r_on
       \<and> offsite_ads (fees r_on) = cents A
       \<and> total_fees (fees r_off) = cents T
       \<and> total_fees (fees r_on) = cents (T + A)
       \<and> profit r_off = cents P
       \<and> profit r_on = cents (P - A))
   \<and> (0::real) < 5119999999999995 / 512
   \<and> (5119999999999995 / 512 :: real) \<le> 10000000000000
   \<and> Finite (5119999999999995 / 512) = cents 999999999999999
   \<and> (\<exists>r_off r_on T A P.
         calculate_etsy_fees (cents 999999999999999) (Finite 10000000000000)
           (Finite 10000000000000) False = Inr r_off
       \<and> calculate_etsy_fees (cents 999999999999999) (Finite 10000000000000)
           (Finite 10000000000000) True = Inr r_on
       \<and> offsite_ads (fees r_on) = cents A
       \<and> total_fees (fees r_off) = cents T
       \<and> total_fees (fees r_on) = cents (T + A)
       \<and> profit r_off = cents P
       \<and> profit r_on = cents (P - A))"
proof -
  have e: "Finite (8441434551552573 / 281474976710656) = cents 2999"
    unfolding cents_def using eval_1 by simp
  have h: "(0::real) < 8441434551552573 / 281474976710656"
    "(8441434551552573 / 281474976710656 :: real) \<le> 10000000000000"
    by simp_all
  from offsite_ads_in_cents [OF h, of "Finite 12" "Finite 4"]
  obtain r_off r_on T A where
    r: "calculate_etsy_fees (Finite (8441434551552573 / 281474976710656)) (Finite 12) (Finite 4)
          False = Inr r_off"
       "calculate_etsy_fees (Finite (8441434551552573 / 281474976710656)) (Finite 12) (Finite 4)
          True = Inr r_on"
       "offsite_ads (fees r_on) = cents A"
       "total_fees (fees r_off) = cents T"
       "total_fees (fees r_on) = cents (T + A)"
       "\<forall>k c1 c2.
          Finite (8441434551552573 / 281474976710656) = cents k
          \<and> Finite 12 = Finite c1 \<and> 0 \<le> c1 \<and> c1 \<le> 10000000000000
          \<and> Finite 4 = Finite c2 \<and> 0 \<le> c2 \<and> c2 \<le> 10000000000000 \<longrightarrow>
          (\<exists>P. profit r_off = cents P \<and> profit r_on = cents (P - A))"
    by blast
  have "Finite (8441434551552573 / 281474976710656) = cents 2999
      \<and> Finite 12 = Finite (12::real) \<and> (0::real) \<le> 12 \<and> (12::real) \<le> 10000000000000
      \<and> Finite 4 = Finite (4::real) \<and> (0::real) \<le> 4 \<and> (4::real) \<le> 10000000000000"
    using e by simp
  with r(6) obtain P where "profit r_off = cents P" "profit r_on = cents (P - A)"
    by blast
  with r(1-5) have 1: "\<exists>r_off r_on T A P.
         calculate_etsy_fees (cents 2999) (Finite 12) (Finite 4) False = Inr r_off
       \<and> calculate_etsy_fees (cents 2999) (Finite 12) (Finite 4) True = Inr r_on
       \<and> offsite_ads (fees r_on) = cents A
       \<and> total_fees (fees r_off) = cents T
       \<and> total_fees (fees r_on) = cents (T + A)
       \<and> profit r_off = cents P
       \<and> profit r_on = cents (P - A)"
    unfolding e [symmetric] by blast
  have e': "Finite (5119999999999995 / 512) = cents 999999999999999"
    unfolding cents_def using bound_1 by simp
  have h': "(0::real) < 5119999999999995 / 512"
    "(5119999999999995 / 512 :: real) \<le> 10000000000000"
    by simp_all
  from offsite_ads_in_cents [OF h', of "Finite 10000000000000" "Finite 10000000000000"]
  obtain r_off' r_on' T' A' where
    r': "calculate_etsy_fees (Finite (5119999999999995 / 512)) (Finite 10000000000000) (Finite 10000000000000)
          False = Inr r_off'"
       "calculate_etsy_fees (Finite (5119999999999995 / 512)) (Finite 10000000000000) (Finite 10000000000000)
          True = Inr r_on'"
       "offsite_ads (fees r_on') = cents A'"
       "total_fees (fees r_off') = cents T'"
       "total_fees (fees r_on') = cents (T' + A')"
       "\<forall>k c1 c2.
          Finite (5119999999999995 / 512) = cents k
          \<and> Finite 10000000000000 = Finite c1 \<and> 0 \<le> c1 \<and> c1 \<le> 10000000000000
          \<and> Finite 10000000000000 = Finite c2 \<and> 0 \<le> c2 \<and> c2 \<le> 10000000000000 \<longrightarrow>
          (\<exists>P. profit r_off' = cents P \<and> profit r_on' = cents (P - A'))"
    by blast
  have "Finite (5119999999999995 / 512) = cents 999999999999999
      \<and> Finite 10000000000000 = Finite (10000000000000::real)
      \<and> (0::real) \<le> 10000000000000 \<and> (10000000000000::real) \<le> 10000000000000
      \<and> Finite 10000000000000 = Finite (10000000000000::real)
      \<and> (0::real) \<le> 10000000000000 \<and> (10000000000000::real) \<le> 10000000000000"
    using e' by simp
  with r'(6) obtain P' where "profit r_off' = cents P'" "profit r_on' = cents (P' - A')"
    by blast
  with r'(1-5) have 2: "\<exists>r_off r_on T A P.
         calculate_etsy_fees (cents 999999999999999) (Finite 10000000000000)
           (Finite 10000000000000) False = Inr r_off
       \<and> calculate_etsy_fees (cents 999999999999999) (Finite 10000000000000)
           (Finite 10000000000000) True = Inr r_on
       \<and> offsite_ads (fees r_on) = cents A
       \<and> total_fees (fees r_off) = cents T
       \<and> total_fees (fees r_on) = cents (T + A)
       \<and> profit r_off = cents P
       \<and> profit r_on = cents (P - A)"
    unfolding e' [symmetric] by blast
  show ?thesis
    using h(1,2) e 1 h'(1,2) e' 2 by (intro conjI)
qed

text \<open>
  Outside these conditions the claim fails. At sale price 1.125, which is not a whole
  number of cents, and no costs the profit is 0.57 without offsite ads and 0.41 with
  them, while the fee is 0.17. At the sale price 35,200,000,000,000.41 and no costs the
  profit falls by 5,280,000,000,000.05 while the fee is 5,280,000,000,000.06. At sale
  price 1.00 and costs 17,600,000,000,000.01 and 17,600,000,000,000.01 the profit falls
  by 0.16 while the fee is 0.15. At the sale price 150,000,000,000,000.72 and no costs
  the total fees rise by 22,500,000,000,000.10 while the fee is 22,500,000,000,000.11.
  In each case the difference of the two floats is not the fee, and rounded to two
  digits it is not the fee either.
\<close>

theorem offsite_ads_profit_counterexample:
  "calculate_etsy_fees (fl (1125 / 1000)) (fl 0) (fl 0) False =
     Inr \<lparr> fees = \<lparr> transaction_fee = fl (7 / 100),
                     listing_fee = fl (20 / 100),
                     payment_processing = fl (28 / 100),
                     offsite_ads = Finite 0,
                     total_fees = fl (55 / 100) \<rparr>,
           net_revenue = fl (57 / 100),
           total_costs = Finite 0,
           profit = fl (57 / 100),
           profit_margin = fl (507 / 10) \<rparr>
   \<and> calculate_etsy_fees (fl (1125 / 1000)) (fl 0) (fl 0) True =
     Inr \<lparr> fees = \<lparr> transaction_fee = fl (7 / 100),
                     listing_fee = fl (20 / 100),
                     payment_processing = fl (28 / 100),
                     offsite_ads = fl (17 / 100),
                     total_fees = fl (72 / 100) \<rparr>,
           net_revenue = fl (41 / 100),
           total_costs = Finite 0,
           profit = fl (41 / 100),
           profit_margin = fl (364 / 10) \<rparr>
   \<and> py_round (fmul (fl (1125 / 1000)) (fl (15 / 100))) 2 = Inr (fl (17 / 100))
   \<and> fsub (fl (57 / 100)) (fl (41 / 100)) \<noteq> fl (17 / 100)
   \<and> py_round (fsub (fl (57 / 100)) (fl (41 / 100))) 2 = Inr (fl (16 / 100))
   \<and> fl (16 / 100) \<noteq> fl (17 / 100)
   \<and> calculate_etsy_fees (fl (3520000000000041 / 100)) (fl 0) (fl 0) False =
     Inr \<lparr> fees = \<lparr> transaction_fee = fl (228800000000003 / 100),
                     listing_fee = fl (20 / 100),
                     payment_processing = fl (105600000000026 / 100),
                     offsite_ads = Finite 0,
                     total_fees = fl (334400000000049 / 100) \<rparr>,
           net_revenue = fl (3185599999999991 / 100),
           total_costs = Finite 0,
           profit = fl (3185599999999991 / 100),
           profit_margin = fl (905 / 10) \<rparr>
   \<and> calculate_etsy_fees (fl (3520000000000041 / 100)) (fl 0) (fl 0) True =
     Inr \<lparr> fees = \<lparr> transaction_fee = fl (228800000000003 / 100),
                     listing_fee = fl (20 / 100),
                     payment_processing = fl (105600000000026 / 100),
                     offsite_ads = fl (528000000000006 / 100),
                     total_fees = fl (862400000000055 / 100) \<rparr>,
           net_revenue = fl (2657599999999986 / 100),
           total_costs = Finite 0,
           profit = fl (2657599999999986 / 100),
           profit_margin = fl (755 / 10) \<rparr>
   \<and> fsub (fl (3185599999999991 / 100)) (fl (2657599999999986 / 100)) \<noteq> fl (528000000000006 / 100)
   \<and> py_round (fsub (fl (3185599999999991 / 100)) (fl (2657599999999986 / 100))) 2 = Inr (fl (528000000000005 / 100))
   \<and> fl (528000000000005 / 100) \<noteq> fl (528000000000006 / 100)
   \<and> calculate_etsy_fees (fl (100 / 100)) (fl (1760000000000001 / 100)) (fl (1760000000000001 / 100)) False =
     Inr \<lparr> fees = \<lparr> transaction_fee = fl (7 / 100),
                     listing_fee = fl (20 / 100),
                     payment_processing = fl (28 / 100),
                     offsite_ads = Finite 0,
                     total_fees = fl (55 / 100) \<rparr>,
           net_revenue = fl (45 / 100),
           total_costs = fl (3520000000000002 / 100),
           profit = fl (- 3519999999999957 / 100),
           profit_margin = fl (- 35199999999999570 / 10) \<rparr>
   \<and> calculate_etsy_fees (fl (100 / 100)) (fl (1760000000000001 / 100)) (fl (1760000000000001 / 100)) True =
     Inr \<lparr> fees = \<lparr> transaction_fee = fl (7 / 100),
                     listing_fee = fl (20 / 100),
                     payment_processing = fl (28 / 100),
                     offsite_ads = fl (15 / 100),
                     total_fees = fl (70 / 100) \<rparr>,
           net_revenue = fl (30 / 100),
           total_costs = fl (3520000000000002 / 100),
           profit = fl (- 3519999999999973 / 100),
           profit_margin = fl (- 35199999999999725 / 10) \<rparr>
   \<and> fsub (fl (- 3519999999999957 / 100)) (fl (- 3519999999999973 / 100)) \<noteq> fl (15 / 100)
   \<and> py_round (fsub (fl (- 3519999999999957 / 100)) (fl (- 3519999999999973 / 100))) 2 = Inr (fl (16 / 100))
   \<and> fl (16 / 100) \<noteq> fl (15 / 100)
   \<and> calculate_etsy_fees (fl (15000000000000072 / 100)) (fl 0) (fl 0) False =
     Inr \<lparr> fees = \<lparr> transaction_fee = fl (975000000000005 / 100),
                     listing_fee = fl (20 / 100),
                     payment_processing = fl (450000000000027 / 100),
                     offsite_ads = Finite 0,
                     total_fees = fl (1425000000000052 / 100) \<rparr>,
           net_revenue = fl (13575000000000020 / 100),
           total_costs = Finite 0,
           profit = fl (13575000000000020 / 100),
           profit_margin = fl (905 / 10) \<rparr>
   \<and> calculate_etsy_fees (fl (15000000000000072 / 100)) (fl 0) (fl 0) True =
     Inr \<lparr> fees = \<lparr> transaction_fee = fl (975000000000005 / 100),
                     listing_fee = fl (20 / 100),
                     payment_processing = fl (450000000000027 / 100),
                     offsite_ads = fl (2250000000000011 / 100),
                     total_fees = fl (3675000000000062 / 100) \<rparr>,
           net_revenue = fl (11325000000000009 / 100),
           total_costs = Finite 0,
           profit = fl (11325000000000009 / 100),
           profit_margin = fl (755 / 10) \<rparr>
   \<and> fsub (fl (3675000000000062 / 100)) (fl (1425000000000052 / 100)) \<noteq> fl (2250000000000011 / 100)
   \<and> py_round (fsub (fl (3675000000000062 / 100)) (fl (1425000000000052 / 100))) 2 = Inr (fl (2250000000000010 / 100))
   \<and> fl (2250000000000010 / 100) \<noteq> fl (2250000000000011 / 100)"
  using sub_cent_run_off sub_cent_run_on sub_cent_ads_fee sub_cent_difference
    price_run_off price_run_on price_difference
    cost_run_off cost_run_on cost_difference
    total_run_off total_run_on total_difference
  by (intro conjI)

lemma fdiv_guarded:
  assumes "fgt sale_price (Finite 0)"
  shows "\<exists>q. fdiv p sale_price = Inr q"
proof (cases sale_price)
  case (Finite s)
  with assms have "s \<noteq> 0" by simp
  then show ?thesis by (cases p) (simp_all add: Finite)
next
  case PosInf
  then show ?thesis by (cases p) simp_all
next
  case NegInf
  with assms show ?thesis by simp
next
  case NaN
  with assms show ?thesis by simp
qed

text \<open>
  The handler returns what \<open>calculate_etsy_fees\<close> returns, for every request: its
  status 500 is never the answer.
\<close>

lemma calculate_fees_returns:
  "\<exists>result. calculate_etsy_fees (req_sale_price request) (req_production_cost request)
               (req_shipping_cost request) (req_offsite_ads request) = Inr result
            \<and> calculate_fees request = Inr result"
proof -
  obtain result where r: "calculate_etsy_fees (req_sale_price request)
      (req_production_cost request) (req_shipping_cost request) (req_offsite_ads request)
      = Inr result"
    using calculate_etsy_fees_returns by blast
  then show ?thesis
    by (simp add: calculate_fees_def)
qed

lemma calculate_fees_no_500: "calculate_fees request \<noteq> Inl (HTTPException 500 msg)"
  using calculate_fees_returns [of request] by auto

text \<open>A request that passes the schema is answered with the result of the computation.\<close>

lemma post_calculate_fees_valid:
  assumes "request_valid request"
  shows "\<exists>result. calculate_etsy_fees (req_sale_price request) (req_production_cost request)
               (req_shipping_cost request) (req_offsite_ads request) = Inr result
            \<and> post_calculate_fees request = Inr result"
  using assms calculate_fees_returns [of request] by (simp add: post_calculate_fees_def)

text \<open>
  A sale price that is not above 0 and a negative cost fail the schema; a request that
  fails it with numbers in the failing fields is answered with the validation error,
  status 422, and \<open>calculate_etsy_fees\<close> is not reached.
\<close>

lemma request_invalid:
  "req_sale_price request = Finite s \<Longrightarrow> s \<le> 0 \<Longrightarrow> \<not> request_valid request"
  "req_production_cost request = Finite c \<Longrightarrow> c < 0 \<Longrightarrow> \<not> request_valid request"
  "req_shipping_cost request = Finite c \<Longrightarrow> c < 0 \<Longrightarrow> \<not> request_valid request"
  "req_sale_price request = NegInf \<Longrightarrow> \<not> request_valid request"
  "req_sale_price request = NaN \<Longrightarrow> \<not> request_valid request"
  by (simp_all add: request_valid_def)

lemma post_calculate_fees_rejected:
  assumes "\<not> request_valid request"
    and "list_all is_finite (rejected_values request)"
  shows "post_calculate_fees request = Inl RequestValidationError"
  using assms by (simp add: post_calculate_fees_def validation_failure_def)

lemma post_calculate_fees_rejected_finite:
  assumes "\<not> request_valid request"
    and "req_sale_price request = Finite s"
    and "req_production_cost request = Finite c1"
    and "req_shipping_cost request = Finite c2"
  shows "post_calculate_fees request = Inl RequestValidationError"
  using assms
  by (simp add: post_calculate_fees_def validation_failure_def rejected_values_def)

text \<open>
  Claim C8, at the sale price \<open>-Infinity\<close>. The request fails the schema (its sale
  price is not above 0), so the computation is not reached; but the answer is not the
  validation error: the body of the 422 response cannot be rendered and the request
  ends as an unhandled error, status 500. A sale price NaN ends the same way. A sale
  price 0 and a negative cost are answered with the validation error, status 422.
\<close>

theorem calculate_fees_negative_infinity:
  "\<not> fgt (req_sale_price negative_infinity_request) (Finite 0)
   \<and> \<not> request_valid negative_infinity_request
   \<and> post_calculate_fees negative_infinity_request = Inl ValueError
   \<and> status_of ValueError = 500
   \<and> post_calculate_fees nan_price_request = Inl ValueError
   \<and> post_calculate_fees zero_price_request = Inl RequestValidationError
   \<and> post_calculate_fees negative_cost_request = Inl RequestValidationError
   \<and> status_of RequestValidationError = 422"
  by (simp add: post_calculate_fees_def validation_failure_def rejected_values_def
      request_valid_def negative_infinity_request_def nan_price_request_def
      zero_price_request_def negative_cost_request_def)

section \<open>Properties of the account service\<close>

declare latin1_lower.simps [simp del]

lemma lower_example: "latin1_lower ''Bob@Example.COM'' = ''bob@example.com''"
  by code_simp

lemma lower_example2: "latin1_lower ''BOB@example.com'' = ''bob@example.com''"
  by code_simp

lemma lower_example3: "latin1_lower ''bob@example.com'' = ''bob@example.com''"
  by code_simp

lemma lower_example4: "latin1_lower ''nobody@example.com'' = ''nobody@example.com''"
  by code_simp

lemma lower_accent: "latin1_lower (reg_email accent_signup) = eva_email"
  unfolding accent_signup_def eva_email_def by code_simp

lemma eva_email_neq: "eva_email \<noteq> ''bob@example.com''" "eva_email \<noteq> ''nobody@example.com''"
  by (simp_all add: eva_email_def)

lemma bcrypt_secret_examples:
  "bcrypt_secret ''hunter22'' = Inr ''hunter22''"
  "bcrypt_secret ''wrong'' = Inr ''wrong''"
  "bcrypt_secret ''pw'' = Inr ''pw''"
  "bcrypt_secret nul_password = Inl PasswordValueError"
  unfolding nul_password_def by code_simp+

lemma verify_create:
  "now < t + 86400 \<Longrightarrow>
   verify_token secret now (create_access_token secret t uid em) =
     Inr \<lparr>payload_user_id = uid, payload_email = em, payload_exp = t + 86400\<rparr>"
  by (simp add: verify_token_def create_access_token_def jwt_encode_def JWT_EXPIRATION_HOURS_def)

lemma select_by_id_flag:
  "select_customers_by_id (d\<lparr>customers := map (\<lambda>c. c\<lparr>cust_is_premium := f c\<rparr>) (customers d)\<rparr>) i
     = map (\<lambda>c. c\<lparr>cust_is_premium := f c\<rparr>) (select_customers_by_id d i)"
  by (simp add: select_customers_by_id_def filter_map comp_def)

lemma select_products_flag:
  "select_products_by_customer (d\<lparr>customers := cs\<rparr>) i = select_products_by_customer d i"
  by (simp add: select_products_by_customer_def)

text \<open>The first row of \<open>customers\<close> with the requested id is the row the query gives first.\<close>

lemma select_by_id_first:
  assumes "customers d = pre @ c # post"
    and "\<forall>x \<in> set pre. cust_id x \<noteq> uid"
    and "cust_id c = uid"
  shows "select_customers_by_id d uid = c # filter (\<lambda>x. cust_id x = uid) post"
proof -
  have "filter (\<lambda>x. cust_id x = uid) pre = []"
    using assms(2) by (simp add: filter_empty_conv)
  then show ?thesis
    using assms(1,3) by (simp add: select_customers_by_id_def)
qed

lemma insights_link_iff:
  "(''insights'' \<in> set (map cp_product_id (select_products_by_customer d uid)))
     = (\<exists>l \<in> set (customer_products d).
          cp_customer_id l = uid \<and> cp_product_id l = ''insights'')"
  by (force simp add: select_products_by_customer_def)

text \<open>
  Claim C3. Let the token verify for the requested id, and let \<open>c\<close> be the first row
  of table \<open>customers\<close> with that id. Then \<open>get_user_info\<close> answers with \<open>is_premium\<close>
  true and limit 999999 exactly when table \<open>customer_products\<close> holds a row with this
  customer id and the product id \<open>insights\<close>, and with \<open>is_premium\<close> false and limit 10
  otherwise; \<open>analyses_this_week\<close> is the \<open>usage_count\<close> of row \<open>c\<close> (0 when the row
  has none); and the answer is the same whatever the stored \<open>is_premium\<close> flags are.
\<close>

theorem get_user_info_premium:
  assumes "verify_token (env_secret e) (env_utcnow e) tok = Inr p"
    and "payload_user_id p = uid"
    and "customers d = pre @ c # post"
    and "\<forall>x \<in> set pre. cust_id x \<noteq> uid"
    and "cust_id c = uid"
  shows "\<exists>info. get_user_info e uid tok d = Inr info
           \<and> info_is_premium info =
               (\<exists>l \<in> set (customer_products d).
                  cp_customer_id l = uid \<and> cp_product_id l = ''insights'')
           \<and> info_analyses_limit info =
               (if \<exists>l \<in> set (customer_products d).
                     cp_customer_id l = uid \<and> cp_product_id l = ''insights''
                then 999999 else 10)
           \<and> info_analyses_this_week info = get_or (cust_usage_count c) 0
           \<and> (\<forall>n. cust_usage_count c = Some n \<longrightarrow> info_analyses_this_week info = n)
           \<and> (\<forall>f. get_user_info e uid tok
                     (d\<lparr>customers := map (\<lambda>c. c\<lparr>cust_is_premium := f c\<rparr>) (customers d)\<rparr>)
                   = Inr info)"
proof -
  let ?links = "select_products_by_customer d uid"
  let ?has = "\<exists>l \<in> set (customer_products d).
      cp_customer_id l = uid \<and> cp_product_id l = ''insights''"
  have s: "select_customers_by_id d uid = c # filter (\<lambda>x. cust_id x = uid) post"
    using assms(3-5) by (rule select_by_id_first)
  have h: "(if ?links \<noteq> [] then ''insights'' \<in> set (map cp_product_id ?links) else False)
      = ?has"
    using insights_link_iff [of d uid] by auto
  let ?info = "\<lparr> info_user_id = cust_id c,
      info_email = cust_email c,
      info_name = cust_shop_name c,
      info_is_premium = ?has,
      info_analyses_this_week = get_or (cust_usage_count c) 0,
      info_analyses_limit = (if ?has then 999999 else 10),
      info_created_at =
        (case cust_signup_date c of Some t \<Rightarrow> Some t | None \<Rightarrow> cust_created_at c) \<rparr>"
  have g: "get_user_info e uid tok d = Inr ?info"
    using assms(1,2) s h by (simp add: get_user_info_def Let_def)
  have f: "get_user_info e uid tok
      (d\<lparr>customers := map (\<lambda>c. c\<lparr>cust_is_premium := f c\<rparr>) (customers d)\<rparr>) = Inr ?info" for f
    using assms(1,2) s h
    by (simp add: get_user_info_def select_by_id_flag select_products_flag Let_def
        split: option.splits)
  have u: "\<forall>n. cust_usage_count c = Some n \<longrightarrow> get_or (cust_usage_count c) 0 = n"
    by (simp add: get_or_def)
  show ?thesis
    using g f u by simp
qed

theorem get_user_info_premium_witness:
  "(\<exists>info. get_user_info example_env ''u1''
            (create_access_token ''s3cret'' 4000 ''u1'' ''bob@example.com'') example_db = Inr info
      \<and> info_is_premium info \<and> info_analyses_limit info = 999999
      \<and> info_analyses_this_week info = 7)
   \<and> cust_is_premium example_customer = Some False
   \<and> (\<exists>info. get_user_info example_env ''u9''
            (create_access_token ''s3cret'' 4000 ''u9'' eva_email) example_db = Inr info
      \<and> \<not> info_is_premium info \<and> info_analyses_limit info = 10
      \<and> info_analyses_this_week info = 3)
   \<and> cust_is_premium other_customer = Some True"
proof -
  have v1: "verify_token (env_secret example_env) (env_utcnow example_env)
        (create_access_token ''s3cret'' 4000 ''u1'' ''bob@example.com'') =
      Inr \<lparr>payload_user_id = ''u1'', payload_email = ''bob@example.com'',
           payload_exp = 4000 + 86400\<rparr>"
    by (simp add: verify_create example_env_def)
  have v9: "verify_token (env_secret example_env) (env_utcnow example_env)
        (create_access_token ''s3cret'' 4000 ''u9'' eva_email) =
      Inr \<lparr>payload_user_id = ''u9'', payload_email = eva_email,
           payload_exp = 4000 + 86400\<rparr>"
    by (simp add: verify_create example_env_def)
  have c1: "customers example_db = [] @ example_customer # [other_customer]"
    by (simp add: example_db_def)
  have c9: "customers example_db = [example_customer] @ other_customer # []"
    by (simp add: example_db_def)
  have q1: "payload_user_id \<lparr>payload_user_id = ''u1'', payload_email = ''bob@example.com'',
      payload_exp = 4000 + 86400\<rparr> = ''u1''"
    by simp
  have q9: "payload_user_id \<lparr>payload_user_id = ''u9'', payload_email = eva_email,
      payload_exp = 4000 + 86400\<rparr> = ''u9''"
    by simp
  have e1: "\<forall>x \<in> set []. cust_id x \<noteq> ''u1''"
    by simp
  have e9: "\<forall>x \<in> set [example_customer]. cust_id x \<noteq> ''u9''"
    by (simp add: example_customer_def)
  have p1: "cust_id example_customer = ''u1''"
    by (simp add: example_customer_def)
  have p9: "cust_id other_customer = ''u9''"
    by (simp add: other_customer_def)
  have l1: "\<exists>l \<in> set (customer_products example_db).
      cp_customer_id l = ''u1'' \<and> cp_product_id l = ''insights''"
    by (simp add: example_db_def)
  have l9: "\<not> (\<exists>l \<in> set (customer_products example_db).
      cp_customer_id l = ''u9'' \<and> cp_product_id l = ''insights'')"
    by (simp add: example_db_def)
  have u1: "cust_usage_count example_customer = Some 7"
    by (simp add: example_customer_def)
  have u9: "cust_usage_count other_customer = Some 3"
    by (simp add: other_customer_def)
  have 1: "\<exists>info. get_user_info example_env ''u1''
            (create_access_token ''s3cret'' 4000 ''u1'' ''bob@example.com'') example_db = Inr info
      \<and> info_is_premium info \<and> info_analyses_limit info = 999999
      \<and> info_analyses_this_week info = 7"
    using get_user_info_premium [OF v1 q1 c1 e1 p1] l1 u1 by auto
  have 9: "\<exists>info. get_user_info example_env ''u9''
            (create_access_token ''s3cret'' 4000 ''u9'' eva_email) example_db = Inr info
      \<and> \<not> info_is_premium info \<and> info_analyses_limit info = 10
      \<and> info_analyses_this_week info = 3"
    using get_user_info_premium [OF v9 q9 c9 e9 p9] l9 u9 by auto
  show ?thesis
    using 1 9 by (simp add: example_customer_def other_customer_def)
qed

text \<open>
  Claim C4. A token issued at time \<open>t\<close> carries the expiry \<open>t\<close> plus 24 hours, verifies
  one hour after \<open>t\<close> and is rejected as expired 25 hours after \<open>t\<close>. Every correctly
  signed token whose expiry has passed is rejected with \<open>Token expired\<close>, every token
  whose signature does not match its payload with \<open>Invalid token\<close>; the two errors
  differ and both have status 401.
\<close>

theorem token_expiry:
  "(\<exists>p. create_access_token secret t uid em = Token p (HS256 secret p)
        \<and> payload_exp p = t + 24 * 3600
        \<and> verify_token secret (t + 1 * 3600) (create_access_token secret t uid em) = Inr p)
   \<and> verify_token secret (t + 25 * 3600) (create_access_token secret t uid em)
        = Inl (HTTPException 401 ''Token expired'')
   \<and> (\<forall>now p. payload_exp p \<le> now \<longrightarrow>
          verify_token secret now (Token p (HS256 secret p))
            = Inl (HTTPException 401 ''Token expired''))
   \<and> (\<forall>now p sg. sg \<noteq> HS256 secret p \<longrightarrow>
          verify_token secret now (Token p sg) = Inl (HTTPException 401 ''Invalid token''))
   \<and> HTTPException 401 ''Token expired'' \<noteq> HTTPException 401 ''Invalid token''
   \<and> status_of (HTTPException 401 ''Token expired'') = 401
   \<and> status_of (HTTPException 401 ''Invalid token'') = 401"
  by (simp add: verify_token_def create_access_token_def jwt_encode_def JWT_EXPIRATION_HOURS_def)

theorem token_expiry_witness:
  "verify_token ''s3cret'' (1000 + 3600) (create_access_token ''s3cret'' 1000 ''u1'' ''a@b.c'')
     = Inr \<lparr>payload_user_id = ''u1'', payload_email = ''a@b.c'', payload_exp = 87400\<rparr>
   \<and> verify_token ''s3cret'' (1000 + 90000) (create_access_token ''s3cret'' 1000 ''u1'' ''a@b.c'')
     = Inl (HTTPException 401 ''Token expired'')
   \<and> verify_token ''s3cret'' 2000
        (Token \<lparr>payload_user_id = ''u2'', payload_email = ''a@b.c'', payload_exp = 87400\<rparr>
           (HS256 ''s3cret''
              \<lparr>payload_user_id = ''u1'', payload_email = ''a@b.c'', payload_exp = 87400\<rparr>))
     = Inl (HTTPException 401 ''Invalid token'')
   \<and> verify_token ''s3cret'' 87400
        (Token \<lparr>payload_user_id = ''u1'', payload_email = ''a@b.c'', payload_exp = 87400\<rparr>
           (HS256 ''s3cret''
              \<lparr>payload_user_id = ''u1'', payload_email = ''a@b.c'', payload_exp = 87400\<rparr>))
     = Inl (HTTPException 401 ''Token expired'')"
proof -
  let ?p = "\<lparr>payload_user_id = ''u1'', payload_email = ''a@b.c'', payload_exp = (87400::int)\<rparr>"
  let ?q = "\<lparr>payload_user_id = ''u2'', payload_email = ''a@b.c'', payload_exp = (87400::int)\<rparr>"
  note T = token_expiry [of "''s3cret''" 1000 "''u1''" "''a@b.c''"]
  have c: "create_access_token ''s3cret'' 1000 ''u1'' ''a@b.c'' = Token ?p (HS256 ''s3cret'' ?p)"
    by (simp add: create_access_token_def jwt_encode_def JWT_EXPIRATION_HOURS_def)
  have 1: "verify_token ''s3cret'' (1000 + 3600)
      (create_access_token ''s3cret'' 1000 ''u1'' ''a@b.c'') = Inr ?p"
    using T c by auto
  have 2: "verify_token ''s3cret'' (1000 + 90000)
      (create_access_token ''s3cret'' 1000 ''u1'' ''a@b.c'') = Inl (HTTPException 401 ''Token expired'')"
    using T by simp
  have 3: "verify_token ''s3cret'' 2000 (Token ?q (HS256 ''s3cret'' ?p))
      = Inl (HTTPException 401 ''Invalid token'')"
    using T by simp
  have 4: "verify_token ''s3cret'' 87400 (Token ?p (HS256 ''s3cret'' ?p))
      = Inl (HTTPException 401 ''Token expired'')"
    using T by simp
  show ?thesis using 1 2 3 4 by simp
qed

text \<open>
  When \<open>verify_password\<close> returns false, the login fails as it does for an email that
  matches no account: status 401 with the detail \<open>Invalid email or password\<close>.
\<close>

lemma login_wrong_password:
  assumes "select_customers_by_email d1 (lower (login_email c1)) = []"
    and "select_customers_by_email d2 (lower (login_email c2)) = cust # rest"
    and "verify_password (login_password c2) (cust_password_hash cust) = Inr False"
  shows "fst (login lower e1 c1 d1) = Inl (HTTPException 401 ''Invalid email or password'')
         \<and> fst (login lower e2 c2 d2) = Inl (HTTPException 401 ''Invalid email or password'')"
  using assms by (simp add: login_def)

text \<open>
  When \<open>verify_password\<close> raises, the exception is the answer of \<open>login\<close>: nothing
  catches it.
\<close>

lemma login_verify_raises:
  assumes "select_customers_by_email d (lower (login_email credentials)) = cust # rest"
    and "verify_password (login_password credentials) (cust_password_hash cust) = Inl err"
  shows "login lower e credentials d = (Inl err, d)"
  using assms by (simp add: login_def)

text \<open>
  bcrypt reads 72 bytes: a password that continues the right one after its 72nd byte
  is verified.
\<close>

lemma verify_password_truncates:
  assumes "bcrypt_secret password = Inr secret"
    and "length secret = 72"
    and "py_len (password @ extra) \<le> 4096"
    and "CHR 0x00 \<notin> set extra"
  shows "verify_password (password @ extra) (Bcrypt salt secret) = Inr True"
proof -
  have p: "take 72 password = secret" "py_len password \<le> 4096" "CHR 0x00 \<notin> set password"
    using assms(1) by (auto simp add: bcrypt_secret_def split: if_splits)
  then have "72 \<le> length password"
    using assms(2) by auto
  then have "take 72 (password @ extra) = secret"
    using p(1) by simp
  then show ?thesis
    using assms(3,4) p(3) by (simp add: bcrypt_secret_def)
qed

text \<open>
  Claim C5, at a password with a NUL character (\<open>nul_password\<close>), which is not the
  password of the account \<open>bob@example.com\<close>. With an email that matches no account
  the login fails with status 401 and the detail \<open>Invalid email or password\<close>; with
  the email of the account, \<open>verify_password\<close> raises \<open>PasswordValueError\<close>, which
  leaves \<open>login\<close> and is answered with status 500. The two failures differ.
\<close>

theorem login_failure_nul_password:
  "fst (login latin1_lower example_env
          \<lparr>login_email = ''nobody@example.com'', login_password = nul_password\<rparr> example_db)
     = Inl (HTTPException 401 ''Invalid email or password'')
   \<and> fst (login latin1_lower example_env
          \<lparr>login_email = ''bob@example.com'', login_password = nul_password\<rparr> example_db)
     = Inl PasswordValueError
   \<and> status_of (HTTPException 401 ''Invalid email or password'') = 401
   \<and> status_of PasswordValueError = 500
   \<and> select_customers_by_email example_db ''nobody@example.com'' = []
   \<and> select_customers_by_email example_db ''bob@example.com'' = [example_customer]
   \<and> cust_password_hash example_customer = Bcrypt ''salt'' ''hunter22''
   \<and> nul_password \<noteq> ''hunter22''"
proof -
  have s1: "select_customers_by_email example_db ''nobody@example.com'' = []"
    by (simp add: select_customers_by_email_def example_db_def example_customer_def
        other_customer_def eva_email_neq)
  have s2: "select_customers_by_email example_db ''bob@example.com'' = [example_customer]"
    by (simp add: select_customers_by_email_def example_db_def example_customer_def
        other_customer_def eva_email_neq)
  have h: "cust_password_hash example_customer = Bcrypt ''salt'' ''hunter22''"
    by (simp add: example_customer_def)
  have 1: "fst (login latin1_lower example_env
          \<lparr>login_email = ''nobody@example.com'', login_password = nul_password\<rparr> example_db)
     = Inl (HTTPException 401 ''Invalid email or password'')"
    by (simp add: login_def lower_example4 s1)
  have 2: "fst (login latin1_lower example_env
          \<lparr>login_email = ''bob@example.com'', login_password = nul_password\<rparr> example_db)
     = Inl PasswordValueError"
    by (simp add: login_def lower_example3 s2 h bcrypt_secret_examples)
  have n: "nul_password \<noteq> ''hunter22''"
    by (simp add: nul_password_def)
  show ?thesis
    using 1 2 s1 s2 h n by simp
qed

text \<open>
  Claim C6. With a token that verifies for account \<open>a\<close>, a request for another user id
  \<open>b\<close> fails with status 403, whatever the store \<open>d\<close> holds: the check comes before
  any lookup.
\<close>

theorem get_user_info_forbidden:
  assumes "verify_token (env_secret e) (env_utcnow e) tok = Inr p"
    and "payload_user_id p = a"
    and "b \<noteq> a"
  shows "get_user_info e b tok d =
           Inl (HTTPException 403 ''Not authorized to access this user's data'')
         \<and> status_of (HTTPException 403 ''Not authorized to access this user's data'') = 403"
  using assms by (simp add: get_user_info_def)

theorem get_user_info_forbidden_witness:
  "get_user_info example_env ''u1''
     (create_access_token ''s3cret'' 4000 ''u9'' ''eve@example.com'') example_db =
   Inl (HTTPException 403 ''Not authorized to access this user's data'')
   \<and> get_user_info example_env ''u7''
     (create_access_token ''s3cret'' 4000 ''u9'' ''eve@example.com'') example_db =
   Inl (HTTPException 403 ''Not authorized to access this user's data'')
   \<and> select_customers_by_id example_db ''u1'' \<noteq> []
   \<and> select_customers_by_id example_db ''u7'' = []"
proof -
  have v: "verify_token (env_secret example_env) (env_utcnow example_env)
        (create_access_token ''s3cret'' 4000 ''u9'' ''eve@example.com'') =
      Inr \<lparr>payload_user_id = ''u9'', payload_email = ''eve@example.com'',
           payload_exp = 4000 + 86400\<rparr>"
    by (simp add: verify_create example_env_def)
  show ?thesis
    using get_user_info_forbidden [OF v, of "''u9''" "''u1''" example_db]
      get_user_info_forbidden [OF v, of "''u9''" "''u7''" example_db]
    by (simp add: select_customers_by_id_def example_db_def example_customer_def
        other_customer_def)
qed

lemma register_existing:
  "select_customers_by_email d (lower (reg_email user)) \<noteq> [] \<Longrightarrow>
   register lower e user d = (Inl (HTTPException 400 ''Email already registered''), d)"
  by (simp add: register_def)

lemma register_success_stores:
  assumes "fst (register lower e user d) = Inr r"
  shows "select_customers_by_email (snd (register lower e user d)) (lower (reg_email user)) \<noteq> []"
  using assms
  by (auto simp add: register_def Let_def select_customers_by_email_def new_customer_def
      split: if_splits store_outcome.splits sum.splits)

text \<open>
  Claim C7, for every lowercase mapping \<open>lower\<close>, so for that of \<open>str.lower\<close>. When the
  store holds an account whose email is the lowercase form of the submitted email,
  \<open>register\<close> fails with \<open>Email already registered\<close> (status 400) and leaves the store
  as it was; so after a successful registration, a second one whose email has the same
  lowercase form fails.
\<close>

theorem register_duplicate_email:
  "((\<exists>c \<in> set (customers d). cust_email c = lower (reg_email user)) \<longrightarrow>
      register lower e user d = (Inl (HTTPException 400 ''Email already registered''), d))
   \<and> (fst (register lower e1 u1 d) = Inr r \<and> lower (reg_email u2) = lower (reg_email u1) \<longrightarrow>
      register lower e2 u2 (snd (register lower e1 u1 d))
        = (Inl (HTTPException 400 ''Email already registered''), snd (register lower e1 u1 d)))
   \<and> status_of (HTTPException 400 ''Email already registered'') = 400"
proof (intro conjI impI)
  assume "\<exists>c \<in> set (customers d). cust_email c = lower (reg_email user)"
  then have "select_customers_by_email d (lower (reg_email user)) \<noteq> []"
    by (auto simp add: select_customers_by_email_def filter_empty_conv)
  then show "register lower e user d = (Inl (HTTPException 400 ''Email already registered''), d)"
    by (rule register_existing)
next
  assume a: "fst (register lower e1 u1 d) = Inr r \<and> lower (reg_email u2) = lower (reg_email u1)"
  then have "select_customers_by_email (snd (register lower e1 u1 d)) (lower (reg_email u2)) \<noteq> []"
    using register_success_stores [of lower e1 u1 d r] by simp
  then show "register lower e2 u2 (snd (register lower e1 u1 d))
      = (Inl (HTTPException 400 ''Email already registered''), snd (register lower e1 u1 d))"
    by (rule register_existing)
next
  show "status_of (HTTPException 400 ''Email already registered'') = 400"
    by simp
qed

text \<open>
  The theorem on the sample data: a second signup with other capitals, on the store
  left by the first; a signup on the sample store with other capitals; and one whose
  email differs from a stored one in the case of an accented letter.
\<close>

theorem register_duplicate_email_witness:
  "(\<exists>r. fst (register latin1_lower example_env first_signup empty_db) = Inr r)
   \<and> register latin1_lower example_env second_signup
         (snd (register latin1_lower example_env first_signup empty_db))
       = (Inl (HTTPException 400 ''Email already registered''),
          snd (register latin1_lower example_env first_signup empty_db))
   \<and> register latin1_lower example_env second_signup example_db
       = (Inl (HTTPException 400 ''Email already registered''), example_db)
   \<and> register latin1_lower example_env accent_signup example_db
       = (Inl (HTTPException 400 ''Email already registered''), example_db)
   \<and> reg_email accent_signup \<noteq> cust_email other_customer"
proof -
  have ok: "fst (register latin1_lower example_env first_signup empty_db) =
      Inr \<lparr> resp_user_id = ''u2'', resp_email = ''bob@example.com'', resp_name = None,
            resp_is_premium = False,
            resp_access_token = create_access_token ''s3cret'' 5000 ''u2'' ''bob@example.com'' \<rparr>"
    by (simp add: register_def first_signup_def empty_db_def example_env_def lower_example
        select_customers_by_email_def new_customer_def Let_def hash_password_def
        bcrypt_secret_examples)
  have same: "latin1_lower (reg_email second_signup) = latin1_lower (reg_email first_signup)"
    by (simp add: first_signup_def second_signup_def lower_example lower_example2)
  have ex: "\<exists>c \<in> set (customers example_db).
      cust_email c = latin1_lower (reg_email second_signup)"
    by (simp add: example_db_def example_customer_def second_signup_def lower_example2)
  have ex2: "\<exists>c \<in> set (customers example_db).
      cust_email c = latin1_lower (reg_email accent_signup)"
    by (simp add: example_db_def other_customer_def lower_accent)
  have ne: "reg_email accent_signup \<noteq> cust_email other_customer"
    by (simp add: accent_signup_def other_customer_def eva_email_def)
  have 1: "register latin1_lower example_env second_signup
         (snd (register latin1_lower example_env first_signup empty_db))
       = (Inl (HTTPException 400 ''Email already registered''),
          snd (register latin1_lower example_env first_signup empty_db))"
    using register_duplicate_email [where lower = latin1_lower and d = empty_db
        and user = first_signup and e = example_env and ?e1.0 = example_env
        and ?u1.0 = first_signup and ?u2.0 = second_signup and ?e2.0 = example_env]
      ok same
    by simp
  have 2: "register latin1_lower example_env second_signup example_db
       = (Inl (HTTPException 400 ''Email already registered''), example_db)"
    using register_duplicate_email [where lower = latin1_lower and d = example_db
        and user = second_signup and e = example_env] ex
    by simp
  have 3: "register latin1_lower example_env accent_signup example_db
       = (Inl (HTTPException 400 ''Email already registered''), example_db)"
    using register_duplicate_email [where lower = latin1_lower and d = example_db
        and user = accent_signup and e = example_env] ex2
    by simp
  show ?thesis
    using ok 1 2 3 ne by simp
qed

text \<open>
  Claim C9. With correct credentials, when the update of \<open>last_login\<close> raises, \<open>login\<close>
  still returns the account summary and the token (the same response as when the
  update is performed), and the store is left as it was.
\<close>

theorem login_survives_update_failure:
  assumes "select_customers_by_email d (lower (login_email credentials)) = cust # rest"
    and "verify_password (login_password credentials) (cust_password_hash cust) = Inr True"
  shows "login lower (e\<lparr>env_update := Raises\<rparr>) credentials d =
           (Inr \<lparr> resp_user_id = cust_id cust,
                  resp_email = cust_email cust,
                  resp_name = cust_shop_name cust,
                  resp_is_premium = get_or (cust_is_premium cust) False,
                  resp_access_token =
                    create_access_token (env_secret e) (env_utcnow e) (cust_id cust)
                      (cust_email cust) \<rparr>,
            d)
         \<and> fst (login lower (e\<lparr>env_update := Raises\<rparr>) credentials d)
             = fst (login lower (e\<lparr>env_update := Performed\<rparr>) credentials d)"
  using assms by (simp add: login_def)

theorem login_survives_update_failure_witness:
  "login latin1_lower (example_env\<lparr>env_update := Raises\<rparr>)
     \<lparr>login_email = ''Bob@Example.COM'', login_password = ''hunter22''\<rparr> example_db =
     (Inr \<lparr> resp_user_id = ''u1'', resp_email = ''bob@example.com'', resp_name = Some ''Bob'',
            resp_is_premium = False,
            resp_access_token = create_access_token ''s3cret'' 5000 ''u1'' ''bob@example.com'' \<rparr>,
      example_db)"
proof -
  have s: "select_customers_by_email example_db
      (latin1_lower
         (login_email \<lparr>login_email = ''Bob@Example.COM'', login_password = ''hunter22''\<rparr>))
      = example_customer # []"
    by (simp add: lower_example select_customers_by_email_def example_db_def
        example_customer_def other_customer_def eva_email_neq)
  have v: "verify_password
      (login_password \<lparr>login_email = ''Bob@Example.COM'', login_password = ''hunter22''\<rparr>)
      (cust_password_hash example_customer) = Inr True"
    by (simp add: example_customer_def bcrypt_secret_examples)
  show ?thesis
    using login_survives_update_failure [where lower = latin1_lower
        and credentials = "\<lparr>login_email = ''Bob@Example.COM'', login_password = ''hunter22''\<rparr>"
        and d = example_db and cust = example_customer and rest = "[]" and e = example_env,
        OF s v]
    by (simp add: example_customer_def example_env_def get_or_def)
qed

text \<open>
  Claim C10. At any time before its expiry, the token made by \<open>create_access_token\<close>
  for a user id and an email verifies, and the payload holds that user id and email.
\<close>

theorem token_roundtrip:
  assumes "now < t + JWT_EXPIRATION_HOURS * 3600"
  shows "\<exists>p. verify_token secret now (create_access_token secret t user_id email) = Inr p
           \<and> payload_user_id p = user_id \<and> payload_email p = email"
  using assms
  by (simp add: verify_token_def create_access_token_def jwt_encode_def)

theorem token_roundtrip_witness:
  "(5000::int) < 4000 + JWT_EXPIRATION_HOURS * 3600
   \<and> (\<exists>p. verify_token ''s3cret'' 5000
            (create_access_token ''s3cret'' 4000 ''u1'' ''bob@example.com'') = Inr p
        \<and> payload_user_id p = ''u1'' \<and> payload_email p = ''bob@example.com'')"
proof -
  have h: "(5000::int) < 4000 + JWT_EXPIRATION_HOURS * 3600"
    by (simp add: JWT_EXPIRATION_HOURS_def)
  show ?thesis
    using h token_roundtrip [OF h, of "''s3cret''" "''u1''" "''bob@example.com''"] by simp
qed

end
